theory Spec2Isabelle
  imports Main "HOL-Library.Sublist"
begin

section \<open>JavaScript strings\<close>

text \<open>
  The service is TypeScript on Node. A JavaScript string is a sequence of UTF-16 code
  units: \<open>length\<close>, \<open>substring\<close>, \<open>trim\<close> and the regular expressions of the
  source (none of them carries the \<open>u\<close> flag) all work on code units. A string is
  therefore modelled as a list of code units, each a natural number below 65536;
  \<open>js\<close> turns an ASCII literal into such a list. The Russian texts of the templates
  are written out as code units.
\<close>

type_synonym jsstring = "nat list"

definition js :: "string \<Rightarrow> jsstring" where
  "js s = map of_char s"

text \<open>
  The code units that ECMAScript counts as WhiteSpace or LineTerminator. Both
  \<open>String.prototype.trim\<close> and the class \<open>\s\<close> of a regular expression use this set.
\<close>

definition isWhiteSpace :: "nat \<Rightarrow> bool" where
  "isWhiteSpace c \<longleftrightarrow>
     (9 \<le> c \<and> c \<le> 13) \<or> c = 32 \<or> c = 160 \<or> c = 5760 \<or> (8192 \<le> c \<and> c \<le> 8202) \<or>
     c = 8232 \<or> c = 8233 \<or> c = 8239 \<or> c = 8287 \<or> c = 12288 \<or> c = 65279"

definition js_trim :: "jsstring \<Rightarrow> jsstring" where
  "js_trim s = rev (dropWhile isWhiteSpace (rev (dropWhile isWhiteSpace s)))"

text \<open>\<open>s.substring(0, n)\<close> for a non-negative integer \<open>n\<close>.\<close>

definition substring0 :: "nat \<Rightarrow> jsstring \<Rightarrow> jsstring" where
  "substring0 n s = take n s"

section \<open>Errors\<close>

text \<open>
  Every \<open>throw\<close> of the modelled code is a value of this type; a function that can
  throw returns \<open>error + 'a\<close>, with \<open>Inl\<close> for the exception.
\<close>

datatype error =
    BrandNameEmpty
  | BrandNameTooLong
  | IndustryCodeRequired
  | TypeError
  | UnsafeContent jsstring
  | SiteConfigWithoutConfigId
  | SiteConfigWithoutDraftId
  | InvalidDraftId jsstring
  | BrandNameRequired
  | TtlMustBePositive
  | DraftNotFoundError jsstring
  | DraftExpiredError jsstring
  | CommitLockError jsstring
  | InvalidProjectIdFormat
  | OwnerUserIdRequired
  | InvalidConfigIdFormat
  | ProjectIdRequired
  | PgError jsstring jsstring
  | DraftAlreadyCommittedMessage jsstring
  | ZodError

section \<open>Value objects: BrandName and IndustryInfo\<close>

subsection \<open>BrandName.ts\<close>

definition MIN_LENGTH :: nat where
  "MIN_LENGTH = 1"

definition MAX_LENGTH :: nat where
  "MAX_LENGTH = 100"

text \<open>The private \<open>validate\<close> of \<open>BrandName\<close>, run by the constructor.\<close>

definition BrandName_validate :: "jsstring \<Rightarrow> error + unit" where
  "BrandName_validate v =
     (if length v < MIN_LENGTH then Inl BrandNameEmpty
      else if length v > MAX_LENGTH then Inl BrandNameTooLong
      else Inr ())"

text \<open>\<open>BrandName.create(name) = new BrandName(name.trim())\<close>.\<close>

definition BrandName_create :: "jsstring \<Rightarrow> error + jsstring" where
  "BrandName_create name =
     (let v = js_trim name in
      case BrandName_validate v of Inl e \<Rightarrow> Inl e | Inr _ \<Rightarrow> Inr v)"

subsection \<open>normalizeBrandName of SiteConfigGeneratorImpl.ts\<close>

text \<open>The class \<open>[\x00-\x1F\x7F]\<close>.\<close>

definition isControl :: "nat \<Rightarrow> bool" where
  "isControl c \<longleftrightarrow> c \<le> 31 \<or> c = 127"

text \<open>
  \<open>s.replace(/\s+/g, ' ')\<close>: every maximal run of white space becomes one space. The
  flag says whether the previous code unit belonged to a run already replaced.
\<close>

fun collapseRuns :: "bool \<Rightarrow> jsstring \<Rightarrow> jsstring" where
  "collapseRuns inRun [] = []"
| "collapseRuns inRun (c # cs) =
     (if isWhiteSpace c
      then (if inRun then collapseRuns True cs else 32 # collapseRuns True cs)
      else c # collapseRuns False cs)"

definition normalizeBrandName :: "jsstring \<Rightarrow> jsstring" where
  "normalizeBrandName brandName =
     substring0 100 (collapseRuns False (filter (\<lambda>c. \<not> isControl c) (js_trim brandName)))"

subsection \<open>IndustryInfo.ts\<close>

definition INDUSTRY_MAP :: "(jsstring \<times> jsstring) list" where
  "INDUSTRY_MAP =
    [(js ''tech'', [1058, 1077, 1093, 1085, 1086, 1083, 1086, 1075, 1080, 1080]),
     (js ''finance'', [1060, 1080, 1085, 1072, 1085, 1089, 1099]),
     (js ''healthcare'', [1047, 1076, 1088, 1072, 1074, 1086, 1086, 1093, 1088, 1072, 1085, 1077,
        1085, 1080, 1077]),
     (js ''retail'', [1056, 1086, 1079, 1085, 1080, 1095, 1085, 1072, 1103] @ js '' '' @
        [1090, 1086, 1088, 1075, 1086, 1074, 1083, 1103]),
     (js ''education'', [1054, 1073, 1088, 1072, 1079, 1086, 1074, 1072, 1085, 1080, 1077]),
     (js ''real-estate'', [1053, 1077, 1076, 1074, 1080, 1078, 1080, 1084, 1086, 1089, 1090, 1100]),
     (js ''consulting'', [1050, 1086, 1085, 1089, 1072, 1083, 1090, 1080, 1085, 1075]),
     (js ''restaurant'', [1056, 1077, 1089, 1090, 1086, 1088, 1072, 1085]),
     (js ''other'', [1044, 1088, 1091, 1075, 1086, 1077])]"

text \<open>
  \<open>INDUSTRY_MAP\<close> is an object literal, so \<open>INDUSTRY_MAP[code]\<close> also finds what
  \<open>Object.prototype\<close> defines: there the value is a function or an object, not a
  string. A label is either a string or such an inherited value, named by its key.
\<close>

datatype label = LabelStr jsstring | LabelInherited jsstring

definition objectPrototypeKeys :: "jsstring list" where
  "objectPrototypeKeys =
    [js ''constructor'', js ''__proto__'', js ''hasOwnProperty'', js ''isPrototypeOf'',
     js ''propertyIsEnumerable'', js ''toLocaleString'', js ''toString'', js ''valueOf'',
     js ''__defineGetter__'', js ''__defineSetter__'', js ''__lookupGetter__'',
     js ''__lookupSetter__'']"

definition INDUSTRY_MAP_get :: "jsstring \<Rightarrow> label option" where
  "INDUSTRY_MAP_get code =
     (case map_of INDUSTRY_MAP code of
        Some l \<Rightarrow> Some (LabelStr l)
      | None \<Rightarrow> if code \<in> set objectPrototypeKeys then Some (LabelInherited code) else None)"

record IndustryInfo =
  ii_code :: jsstring
  ii_label :: label

text \<open>The private \<open>validate\<close> of \<open>IndustryInfo\<close>: only the empty code is refused.\<close>

definition IndustryInfo_validate :: "IndustryInfo \<Rightarrow> error + unit" where
  "IndustryInfo_validate i = (if ii_code i = [] then Inl IndustryCodeRequired else Inr ())"

text \<open>
  \<open>IndustryInfo.create(code, label?)\<close>: \<open>label || INDUSTRY_MAP[code] || code\<close>, where an
  absent or empty label is falsy, as is an empty value of the table (there is none).
\<close>

definition IndustryInfo_create :: "jsstring \<Rightarrow> jsstring option \<Rightarrow> error + IndustryInfo" where
  "IndustryInfo_create code lbl =
     (let fromMap =
        (case INDUSTRY_MAP_get code of
           Some m \<Rightarrow> if m \<noteq> LabelStr [] then m else LabelStr code
         | None \<Rightarrow> LabelStr code);
          resolvedLabel =
        (case lbl of
           Some l \<Rightarrow> if l \<noteq> [] then LabelStr l else fromMap
         | None \<Rightarrow> fromMap);
          i = \<lparr>ii_code = code, ii_label = resolvedLabel\<rparr>
      in case IndustryInfo_validate i of Inl e \<Rightarrow> Inl e | Inr _ \<Rightarrow> Inr i)"

text \<open>The closed set of industry codes: the keys of \<open>INDUSTRY_MAP\<close>.\<close>

definition industryCodes :: "jsstring list" where
  "industryCodes = map fst INDUSTRY_MAP"

subsection \<open>The industry of a request body\<close>

text \<open>
  \<open>api/dto/DraftDTOs.ts\<close>: the schema of the industry of a request is
  \<open>z.object({code: z.enum([...]), label: z.string().optional()})\<close>, with the nine codes
  below. \<open>createDraft\<close> and \<open>updateDraft\<close> of \<open>DraftController\<close> parse the body with
  the request schema before they call the use case, and the \<open>ZodError\<close> of a body that
  does not parse is answered with status 400. Here the code is a string and the label an
  absent or present string; of those the schema accepts the nine codes with any label.
\<close>

definition industrySchema_codes :: "jsstring list" where
  "industrySchema_codes =
     [js ''tech'', js ''finance'', js ''healthcare'', js ''retail'', js ''education'',
      js ''real-estate'', js ''consulting'', js ''restaurant'', js ''other'']"

definition industrySchema_parse ::
  "jsstring \<Rightarrow> jsstring option \<Rightarrow> error + jsstring \<times> jsstring option" where
  "industrySchema_parse code lbl =
     (if code \<in> set industrySchema_codes then Inr (code, lbl) else Inl ZodError)"

text \<open>
  From the body of a request to the \<open>IndustryInfo\<close> of the draft: the controller parses
  the body, then \<open>CreateDraftUseCase\<close> (through \<open>BrandProfile.create\<close>) and
  \<open>UpdateDraftUseCase\<close> call \<open>IndustryInfo.create\<close> with the code and the label of the
  parsed body.
\<close>

definition DraftController_industry :: "jsstring \<Rightarrow> jsstring option \<Rightarrow> error + IndustryInfo" where
  "DraftController_industry code lbl =
     (case industrySchema_parse code lbl of
        Inl e \<Rightarrow> Inl e
      | Inr (parsedCode, parsedLabel) \<Rightarrow> IndustryInfo_create parsedCode parsedLabel)"

section \<open>JSON values\<close>

text \<open>
  The values that template data, section props and configs are made of. Numbers are
  integers (the templates and configs hold no others). An object is the list of its own
  enumerable string-keyed properties in property order, which is the order of
  \<open>Object.entries\<close> and of \<open>JSON.stringify\<close>.
\<close>

datatype json =
    JUndefined
  | JNull
  | JBool bool
  | JNum int
  | JStr jsstring
  | JArr "json list"
  | JObj "(jsstring \<times> json) list"

text \<open>What \<open>if (v)\<close>, \<open>v || w\<close> and \<open>v ? a : b\<close> test.\<close>

fun truthy :: "json \<Rightarrow> bool" where
  "truthy JUndefined = False"
| "truthy JNull = False"
| "truthy (JBool b) = b"
| "truthy (JNum n) = (n \<noteq> 0)"
| "truthy (JStr s) = (s \<noteq> [])"
| "truthy (JArr xs) = True"
| "truthy (JObj kvs) = True"

text \<open>\<open>a || b\<close>.\<close>

definition orElse :: "json \<Rightarrow> json \<Rightarrow> json" where
  "orElse a b = (if truthy a then a else b)"

text \<open>
  \<open>v.name\<close> for the property names the renderer reads (\<open>headline\<close>, \<open>title\<close>,
  \<open>items\<close>, \<open>href\<close> and the like: none of them is defined by a prototype). Reading a
  property of \<open>null\<close> or \<open>undefined\<close> throws a TypeError; a string, number, boolean or
  array has no such property.
\<close>

fun getProp :: "json \<Rightarrow> jsstring \<Rightarrow> error + json" where
  "getProp JUndefined k = Inl TypeError"
| "getProp JNull k = Inl TypeError"
| "getProp (JObj kvs) k = Inr (case map_of kvs k of Some v \<Rightarrow> v | None \<Rightarrow> JUndefined)"
| "getProp v k = Inr JUndefined"

subsection \<open>Decimal and hexadecimal digits\<close>

fun decimal :: "nat \<Rightarrow> jsstring" where
  "decimal n = (if n < 10 then [48 + n] else decimal (n div 10) @ [48 + n mod 10])"

definition showInt :: "int \<Rightarrow> jsstring" where
  "showInt i = (if i < 0 then 45 # decimal (nat (- i)) else decimal (nat i))"

definition hexDigit :: "nat \<Rightarrow> nat" where
  "hexDigit d = (if d < 10 then 48 + d else 87 + d)"

definition hex4 :: "nat \<Rightarrow> jsstring" where
  "hex4 c = [hexDigit (c div 4096 mod 16), hexDigit (c div 256 mod 16),
             hexDigit (c div 16 mod 16), hexDigit (c mod 16)]"

subsection \<open>JSON.stringify\<close>

definition isHighSurrogate :: "nat \<Rightarrow> bool" where
  "isHighSurrogate c \<longleftrightarrow> 55296 \<le> c \<and> c \<le> 56319"

definition isLowSurrogate :: "nat \<Rightarrow> bool" where
  "isLowSurrogate c \<longleftrightarrow> 56320 \<le> c \<and> c \<le> 57343"

text \<open>
  One code unit inside a JSON string: the two-character escapes, \<open>\u00xx\<close> for the
  other control characters, the code unit itself otherwise.
\<close>

definition quoteUnit :: "nat \<Rightarrow> jsstring" where
  "quoteUnit c =
     (if c = 8 then [92, 98]
      else if c = 9 then [92, 116]
      else if c = 10 then [92, 110]
      else if c = 12 then [92, 102]
      else if c = 13 then [92, 114]
      else if c = 34 then [92, 34]
      else if c = 92 then [92, 92]
      else if c < 32 then [92, 117] @ hex4 c
      else [c])"

text \<open>
  QuoteJSONString walks the code points: a surrogate pair is copied, a lone surrogate
  is written as \<open>\udxxx\<close>.
\<close>

fun quoteUnits :: "jsstring \<Rightarrow> jsstring" where
  "quoteUnits [] = []"
| "quoteUnits [c] =
     (if isHighSurrogate c \<or> isLowSurrogate c then [92, 117] @ hex4 c else quoteUnit c)"
| "quoteUnits (c # d # cs) =
     (if isHighSurrogate c then
        (if isLowSurrogate d then c # d # quoteUnits cs
         else [92, 117] @ hex4 c @ quoteUnits (d # cs))
      else if isLowSurrogate c then [92, 117] @ hex4 c @ quoteUnits (d # cs)
      else quoteUnit c @ quoteUnits (d # cs))"

definition quoteJSON :: "jsstring \<Rightarrow> jsstring" where
  "quoteJSON s = [34] @ quoteUnits s @ [34]"

text \<open>\<open>parts.join(sep)\<close>.\<close>

fun joinWith :: "jsstring \<Rightarrow> jsstring list \<Rightarrow> jsstring" where
  "joinWith sep [] = []"
| "joinWith sep [x] = x"
| "joinWith sep (x # y # ys) = x @ sep @ joinWith sep (y # ys)"

text \<open>
  \<open>JSON.stringify\<close> of a value without \<open>toJSON\<close> methods and without indentation. A
  property whose value is \<open>undefined\<close> is left out of an object; an \<open>undefined\<close> array
  element is written \<open>null\<close>. The source only stringifies objects; for \<open>undefined\<close>
  itself, where JavaScript returns \<open>undefined\<close> instead of a string, the model gives the
  empty string.
\<close>

fun JSON_stringify :: "json \<Rightarrow> jsstring" where
  "JSON_stringify JUndefined = []"
| "JSON_stringify JNull = js ''null''"
| "JSON_stringify (JBool b) = (if b then js ''true'' else js ''false'')"
| "JSON_stringify (JNum n) = showInt n"
| "JSON_stringify (JStr s) = quoteJSON s"
| "JSON_stringify (JArr xs) =
     js ''['' @ joinWith (js '','')
       (map (\<lambda>x. if x = JUndefined then js ''null'' else JSON_stringify x) xs) @ js '']''"
| "JSON_stringify (JObj kvs) =
     js ''{'' @ joinWith (js '','')
       (map (\<lambda>(k, v). quoteJSON k @ js '':'' @ JSON_stringify v)
          (filter (\<lambda>(k, v). v \<noteq> JUndefined) kvs)) @ js ''}''"

section \<open>lib/html-escape.ts\<close>

text \<open>
  \<open>s.replace(/c/g, r)\<close> for a pattern that is one literal character and a replacement
  string that holds no \<open>$\<close>.
\<close>

definition replaceUnit :: "nat \<Rightarrow> jsstring \<Rightarrow> jsstring \<Rightarrow> jsstring" where
  "replaceUnit c r s = concat (map (\<lambda>x. if x = c then r else [x]) s)"

definition escapeHtml :: "jsstring \<Rightarrow> jsstring" where
  "escapeHtml unsafe =
     replaceUnit 39 (js ''&#039;'')
       (replaceUnit 34 (js ''&quot;'')
         (replaceUnit 62 (js ''&gt;'')
           (replaceUnit 60 (js ''&lt;'')
             (replaceUnit 38 (js ''&amp;'') unsafe))))"

text \<open>
  \<open>escapeHtml(v)\<close> for an argument of any type: a value that is not a string has no
  \<open>replace\<close> method, and the call throws a TypeError.
\<close>

fun escapeHtmlOf :: "json \<Rightarrow> error + jsstring" where
  "escapeHtmlOf (JStr s) = Inr (escapeHtml s)"
| "escapeHtmlOf v = Inl TypeError"

fun escapeHtmlInObject :: "json \<Rightarrow> json" where
  "escapeHtmlInObject (JStr s) = JStr (escapeHtml s)"
| "escapeHtmlInObject (JArr xs) = JArr (map escapeHtmlInObject xs)"
| "escapeHtmlInObject (JObj kvs) = JObj (map (\<lambda>(k, v). (k, escapeHtmlInObject v)) kvs)"
| "escapeHtmlInObject v = v"

text \<open>
  The patterns of \<open>containsUnsafeContent\<close> carry the flag \<open>i\<close> and not the flag \<open>u\<close>: a
  character of the input matches a pattern character when both have the same upper
  case, and a character beyond ASCII never matches an ASCII one. \<open>\w\<close> is
  \<open>[A-Za-z0-9_]\<close>.
\<close>

definition upperAscii :: "nat \<Rightarrow> nat" where
  "upperAscii c = (if 97 \<le> c \<and> c \<le> 122 then c - 32 else c)"

text \<open>
  \<open>/pat/i.test(s)\<close> for a pattern of literal characters: the pattern matches at the
  head of the string, or somewhere in its tail.
\<close>

fun startsWithCI :: "jsstring \<Rightarrow> jsstring \<Rightarrow> bool" where
  "startsWithCI [] s = True"
| "startsWithCI (p # ps) [] = False"
| "startsWithCI (p # ps) (c # cs) = (upperAscii p = upperAscii c \<and> startsWithCI ps cs)"

fun testLiteralCI :: "jsstring \<Rightarrow> jsstring \<Rightarrow> bool" where
  "testLiteralCI pat [] = (pat = [])"
| "testLiteralCI pat (c # cs) = (startsWithCI pat (c # cs) \<or> testLiteralCI pat cs)"

definition isWordChar :: "nat \<Rightarrow> bool" where
  "isWordChar c \<longleftrightarrow> (48 \<le> c \<and> c \<le> 57) \<or> (65 \<le> c \<and> c \<le> 90) \<or> (97 \<le> c \<and> c \<le> 122) \<or> c = 95"

text \<open>
  \<open>/on\w+\s*=/i\<close> matched at the head of a string. Word characters, white space and
  \<open>=\<close> are disjoint classes, so a match has to take the whole run of word characters
  after \<open>on\<close> (at least one), then the whole run of white space, and then find \<open>=\<close>.
\<close>

definition eventHandlerAt :: "jsstring \<Rightarrow> bool" where
  "eventHandlerAt s =
     (case s of
        a # b # rest \<Rightarrow>
          upperAscii a = 79 \<and> upperAscii b = 78 \<and>
          (let afterWord = dropWhile isWordChar rest in
             afterWord \<noteq> rest \<and>
             (case dropWhile isWhiteSpace afterWord of e # _ \<Rightarrow> e = 61 | [] \<Rightarrow> False))
      | _ \<Rightarrow> False)"

fun testEventHandler :: "jsstring \<Rightarrow> bool" where
  "testEventHandler [] = False"
| "testEventHandler (c # cs) = (eventHandlerAt (c # cs) \<or> testEventHandler cs)"

definition containsUnsafeContent :: "jsstring \<Rightarrow> bool" where
  "containsUnsafeContent str =
     (testLiteralCI (js ''<script'') str \<or>
      testLiteralCI (js ''<iframe'') str \<or>
      testLiteralCI (js ''<object'') str \<or>
      testLiteralCI (js ''<embed'') str \<or>
      testLiteralCI (js ''javascript:'') str \<or>
      testEventHandler str)"

section \<open>config_generation/templates/TemplateDefinition.ts\<close>

record SectionTemplate =
  st_id :: jsstring
  st_type :: jsstring
  st_props :: json

record PageTemplate =
  pt_id :: jsstring
  pt_path :: jsstring
  pt_titleTemplate :: jsstring
  pt_sections :: "SectionTemplate list"

record ThemePalette =
  pal_primary :: jsstring
  pal_accent :: jsstring
  pal_background :: jsstring
  pal_surface :: jsstring
  pal_text :: jsstring
  pal_mutedText :: jsstring

record Typography =
  typ_fontFamily :: jsstring
  typ_scale :: jsstring

text \<open>\<open>Omit<ThemeConfig, 'themeId'>\<close>: the theme defaults of a template.\<close>

record ThemeDefaults =
  td_palette :: ThemePalette
  td_typography :: Typography
  td_radius :: jsstring
  td_spacing :: jsstring

record TemplateDefinition =
  templateId :: jsstring
  templateVersion :: int
  tpl_name :: jsstring
  tpl_description :: jsstring
  defaults_theme :: ThemeDefaults
  seo_titleSuffix :: jsstring
  seo_descriptionTemplate :: jsstring
  tpl_pages :: "PageTemplate list"

text \<open>The \<open>context\<close> argument of \<open>resolveTokens\<close>; \<open>logoUrl\<close> is optional.\<close>

record TokenContext =
  ctx_brandName :: jsstring
  ctx_industryLabel :: jsstring
  ctx_logoUrl :: "jsstring option"
  ctx_slug :: jsstring

text \<open>
  \<open>String.prototype.replace\<close> with a replacement string reads \<open>$\<close> patterns in it:
  \<open>$$\<close> is a dollar sign, \<open>$&\<close> the matched text, \<open>$`\<close> the text before the match and
  \<open>$'\<close> the text after it. The patterns of \<open>resolveTokens\<close> have no capture groups, so
  \<open>$1\<close> and \<open>$<name>\<close> stay as they are.
\<close>

fun expandReplacement :: "jsstring \<Rightarrow> jsstring \<Rightarrow> jsstring \<Rightarrow> jsstring \<Rightarrow> jsstring" where
  "expandReplacement matched textBefore textAfter [] = []"
| "expandReplacement matched textBefore textAfter [c] = [c]"
| "expandReplacement matched textBefore textAfter (c # d # r) =
     (if c = 36 \<and> d = 36 then 36 # expandReplacement matched textBefore textAfter r
      else if c = 36 \<and> d = 38 then matched @ expandReplacement matched textBefore textAfter r
      else if c = 36 \<and> d = 96 then textBefore @ expandReplacement matched textBefore textAfter r
      else if c = 36 \<and> d = 39 then textAfter @ expandReplacement matched textBefore textAfter r
      else c # expandReplacement matched textBefore textAfter (d # r))"

text \<open>
  \<open>s.replace(/pat/g, repl)\<close> for a non-empty pattern of literal characters: the matches
  are found from left to right and do not overlap. \<open>textBefore\<close> is the part of the string
  already passed, \<open>skip\<close> the number of code units of the current match still to pass.
\<close>

fun replaceFrom :: "jsstring \<Rightarrow> jsstring \<Rightarrow> jsstring \<Rightarrow> nat \<Rightarrow> jsstring \<Rightarrow> jsstring" where
  "replaceFrom pat repl textBefore skip [] = []"
| "replaceFrom pat repl textBefore skip (c # cs) =
     (if 0 < skip then replaceFrom pat repl (textBefore @ [c]) (skip - 1) cs
      else if prefix pat (c # cs) then
        expandReplacement pat textBefore (drop (length pat) (c # cs)) repl @
        replaceFrom pat repl (textBefore @ [c]) (length pat - 1) cs
      else c # replaceFrom pat repl (textBefore @ [c]) 0 cs)"

definition replaceAllLiteral :: "jsstring \<Rightarrow> jsstring \<Rightarrow> jsstring \<Rightarrow> jsstring" where
  "replaceAllLiteral pat repl s = replaceFrom pat repl [] 0 s"

definition resolveTokens :: "jsstring \<Rightarrow> TokenContext \<Rightarrow> jsstring" where
  "resolveTokens template context =
     replaceAllLiteral (js ''{{slug}}'') (ctx_slug context)
       (replaceAllLiteral (js ''{{logoUrl}}'')
          (case ctx_logoUrl context of Some u \<Rightarrow> u | None \<Rightarrow> [])
          (replaceAllLiteral (js ''{{industryLabel}}'') (ctx_industryLabel context)
             (replaceAllLiteral (js ''{{brandName}}'') (ctx_brandName context) template)))"

text \<open>The keys \<open>"0"\<close>, \<open>"1"\<close>, ... that \<open>Object.entries\<close> gives the elements of an array.\<close>

definition indexKeys :: "nat \<Rightarrow> jsstring list" where
  "indexKeys n = map decimal [0..<n]"

text \<open>
  \<open>resolveSectionProps(props, context)\<close> loops over \<open>Object.entries(props)\<close> and builds a
  fresh object. \<open>resolveValue\<close> is the body of the loop for one value; \<open>resolveItem\<close>
  is the arrow function mapped over an array value, which only descends into items
  whose \<open>typeof\<close> is \<open>object\<close> (objects, arrays and \<open>null\<close>) and leaves every other item,
  a string included, as it is. \<open>Object.entries\<close> throws a TypeError on \<open>null\<close> and
  \<open>undefined\<close>, lists the elements of an array under their indices and the characters
  of a string likewise, and finds nothing in a number or a boolean.
\<close>

fun resolveSectionProps :: "json \<Rightarrow> TokenContext \<Rightarrow> error + json"
  and resolveValue :: "json \<Rightarrow> TokenContext \<Rightarrow> error + json"
  and resolveItem :: "json \<Rightarrow> TokenContext \<Rightarrow> error + json"
  and resolveValues :: "json list \<Rightarrow> TokenContext \<Rightarrow> error + json list"
  and resolveItems :: "json list \<Rightarrow> TokenContext \<Rightarrow> error + json list"
  and resolveEntries :: "(jsstring \<times> json) list \<Rightarrow> TokenContext \<Rightarrow> error + (jsstring \<times> json) list"
where
  "resolveSectionProps JUndefined context = Inl TypeError"
| "resolveSectionProps JNull context = Inl TypeError"
| "resolveSectionProps (JBool b) context = Inr (JObj [])"
| "resolveSectionProps (JNum n) context = Inr (JObj [])"
| "resolveSectionProps (JStr s) context =
     Inr (JObj (zip (indexKeys (length s)) (map (\<lambda>c. JStr (resolveTokens [c] context)) s)))"
| "resolveSectionProps (JArr xs) context =
     (case resolveValues xs context of
        Inl e \<Rightarrow> Inl e
      | Inr vs \<Rightarrow> Inr (JObj (zip (indexKeys (length xs)) vs)))"
| "resolveSectionProps (JObj kvs) context =
     (case resolveEntries kvs context of Inl e \<Rightarrow> Inl e | Inr r \<Rightarrow> Inr (JObj r))"
| "resolveValue (JStr s) context = Inr (JStr (resolveTokens s context))"
| "resolveValue (JArr xs) context =
     (case resolveItems xs context of Inl e \<Rightarrow> Inl e | Inr r \<Rightarrow> Inr (JArr r))"
| "resolveValue (JObj kvs) context = resolveSectionProps (JObj kvs) context"
| "resolveValue JUndefined context = Inr JUndefined"
| "resolveValue JNull context = Inr JNull"
| "resolveValue (JBool b) context = Inr (JBool b)"
| "resolveValue (JNum n) context = Inr (JNum n)"
| "resolveItem JNull context = resolveSectionProps JNull context"
| "resolveItem (JArr xs) context = resolveSectionProps (JArr xs) context"
| "resolveItem (JObj kvs) context = resolveSectionProps (JObj kvs) context"
| "resolveItem JUndefined context = Inr JUndefined"
| "resolveItem (JBool b) context = Inr (JBool b)"
| "resolveItem (JNum n) context = Inr (JNum n)"
| "resolveItem (JStr s) context = Inr (JStr s)"
| "resolveValues [] context = Inr []"
| "resolveValues (v # vs) context =
     (case resolveValue v context of
        Inl e \<Rightarrow> Inl e
      | Inr r \<Rightarrow> (case resolveValues vs context of Inl e \<Rightarrow> Inl e | Inr rs \<Rightarrow> Inr (r # rs)))"
| "resolveItems [] context = Inr []"
| "resolveItems (x # xs) context =
     (case resolveItem x context of
        Inl e \<Rightarrow> Inl e
      | Inr r \<Rightarrow> (case resolveItems xs context of Inl e \<Rightarrow> Inl e | Inr rs \<Rightarrow> Inr (r # rs)))"
| "resolveEntries [] context = Inr []"
| "resolveEntries ((k, v) # kvs) context =
     (case resolveValue v context of
        Inl e \<Rightarrow> Inl e
      | Inr r \<Rightarrow>
          (case resolveEntries kvs context of Inl e \<Rightarrow> Inl e | Inr rs \<Rightarrow> Inr ((k, r) # rs)))"

section \<open>The built-in templates\<close>

text \<open>
  \<open>definitions/ITServicesTemplate.ts\<close> and \<open>definitions/DefaultTemplate.ts\<close>, as data.
\<close>

definition ITServicesTemplate :: TemplateDefinition where
  "ITServicesTemplate =
    \<lparr>templateId = js ''it_services'',
     templateVersion = 1,
     tpl_name = js ''IT Services'',
     tpl_description = js ''Modern template for IT services and tech companies'',
     defaults_theme =
       \<lparr>td_palette =
          \<lparr>pal_primary = js ''#025add'', pal_accent = js ''#4820a7'',
           pal_background = js ''#ffffff'', pal_surface = js ''#f5f7ff'',
           pal_text = js ''#0b1220'', pal_mutedText = js ''#5c667a''\<rparr>,
        td_typography =
          \<lparr>typ_fontFamily =
             js ''Manrope, system-ui, -apple-system, Segoe UI, Roboto, Arial, sans-serif'',
           typ_scale = js ''md''\<rparr>,
        td_radius = js ''md'', td_spacing = js ''md''\<rparr>,
     seo_titleSuffix =
       js ''IT-'' @ [1091, 1089, 1083, 1091, 1075, 1080],
     seo_descriptionTemplate =
       [1056, 1072, 1079, 1088, 1072, 1073, 1086, 1090, 1082, 1072] @ js '' '' @
       [1089, 1072, 1081, 1090, 1086, 1074] @ js '' '' @ [1080] @ js '' '' @
       [1094, 1080, 1092, 1088, 1086, 1074, 1099, 1093] @ js '' '' @
       [1087, 1088, 1086, 1076, 1091, 1082, 1090, 1086, 1074] @ js '' '' @ [1076, 1083, 1103] @
       js '' '' @ [1073, 1080, 1079, 1085, 1077, 1089, 1072] @ js ''.'',
     tpl_pages =
       [\<lparr>pt_id = js ''home'', pt_path = js ''/'',
          pt_titleTemplate = [1043, 1083, 1072, 1074, 1085, 1072, 1103],
          pt_sections =
            [\<lparr>st_id = js ''hero_1'', st_type = js ''hero'',
               st_props =
                 JObj
                  [(js ''headline'', JStr
                       (js ''{{brandName}} '' @ [8212] @ js '' IT-'' @
                        [1091, 1089, 1083, 1091, 1075, 1080] @ js '' '' @ [1076, 1083, 1103] @
                        js '' '' @ [1088, 1086, 1089, 1090, 1072] @ js '' '' @
                        [1073, 1080, 1079, 1085, 1077, 1089, 1072])),
                   (js ''subheadline'', JStr
                       ([1057, 1072, 1081, 1090, 1099] @ js '', '' @
                        [1076, 1080, 1079, 1072, 1081, 1085] @ js '' '' @ [1080] @ js '' '' @
                        [1088, 1072, 1079, 1088, 1072, 1073, 1086, 1090, 1082, 1072] @
                        js '' '' @ [1087, 1086, 1076] @ js '' '' @ [1082, 1083, 1102, 1095] @
                        js ''. '' @ [1041, 1099, 1089, 1090, 1088, 1099, 1081] @ js '' '' @
                        [1089, 1090, 1072, 1088, 1090] @ js '', '' @
                        [1087, 1086, 1085, 1103, 1090, 1085, 1099, 1081] @ js '' '' @
                        [1087, 1088, 1086, 1094, 1077, 1089, 1089] @ js ''.'')),
                   (js ''primaryCta'', JObj
                      [(js ''text'', JStr
                           ([1055, 1086, 1083, 1091, 1095, 1080, 1090, 1100] @ js '' '' @
                            [1082, 1086, 1085, 1089, 1091, 1083, 1100, 1090, 1072, 1094, 1080, 1102])),
                       (js ''href'', JStr
                           (js ''#contact''))]),
                   (js ''secondaryCta'', JObj
                      [(js ''text'', JStr
                           ([1055, 1086, 1089, 1084, 1086, 1090, 1088, 1077, 1090, 1100] @
                            js '' '' @ [1082, 1077, 1081, 1089, 1099])),
                       (js ''href'', JStr
                           (js ''#cases''))]),
                   (js ''logoAssetId'', JStr
                       (js ''{{logoAssetId}}''))]\<rparr>,
             \<lparr>st_id = js ''services_1'', st_type = js ''features'',
               st_props =
                 JObj
                  [(js ''title'', JStr
                       ([1063, 1090, 1086] @ js '' '' @ [1084, 1099] @ js '' '' @
                        [1076, 1077, 1083, 1072, 1077, 1084])),
                   (js ''items'', JArr
                      [JObj
                        [(js ''title'', JStr
                             ([1057, 1072, 1081, 1090, 1099])),
                         (js ''text'', JStr
                             ([1051, 1077, 1085, 1076, 1080, 1085, 1075, 1080] @ js '', '' @
                              [1082, 1086, 1088, 1087, 1086, 1088, 1072, 1090, 1080, 1074, 1085, 1099, 1077] @
                              js '', '' @ [1084, 1072, 1075, 1072, 1079, 1080, 1085, 1099] @
                              js ''.''))],
                       JObj
                        [(js ''title'', JStr
                             ([1044, 1080, 1079, 1072, 1081, 1085])),
                         (js ''text'', JStr
                             ([1051, 1086, 1075, 1086, 1090, 1080, 1087, 1099] @ js '', '' @
                              [1086, 1073, 1083, 1086, 1078, 1082, 1080] @ js '', UI/UX.''))],
                       JObj
                        [(js ''title'', JStr
                             ([1055, 1086, 1076, 1076, 1077, 1088, 1078, 1082, 1072])),
                         (js ''text'', JStr
                             ([1057, 1086, 1087, 1088, 1086, 1074, 1086, 1078, 1076, 1077, 1085, 1080, 1077] @
                              js '' '' @ [1080] @ js '' '' @
                              [1076, 1086, 1088, 1072, 1073, 1086, 1090, 1082, 1080] @ js ''.''))]])]\<rparr>,
             \<lparr>st_id = js ''about_1'', st_type = js ''about'',
               st_props =
                 JObj
                  [(js ''title'', JStr
                       ([1054] @ js '' '' @ [1085, 1072, 1089])),
                   (js ''text'', JStr
                       ([1052, 1099] @ js '' '' @ [8212] @ js '' {{brandName}}, '' @
                        [1082, 1086, 1084, 1072, 1085, 1076, 1072] @ js '' '' @
                        [1087, 1088, 1086, 1092, 1077, 1089, 1089, 1080, 1086, 1085, 1072, 1083, 1086, 1074] @
                        js '' '' @ [1074] @ js '' '' @ [1089, 1092, 1077, 1088, 1077] @
                        js '' {{industryLabel}}. '' @
                        [1055, 1086, 1084, 1086, 1075, 1072, 1077, 1084] @ js '' '' @
                        [1073, 1080, 1079, 1085, 1077, 1089, 1091] @ js '' '' @
                        [1088, 1072, 1089, 1090, 1080] @ js '' '' @
                        [1095, 1077, 1088, 1077, 1079] @ js '' '' @
                        [1082, 1072, 1095, 1077, 1089, 1090, 1074, 1077, 1085, 1085, 1099, 1077] @
                        js '' '' @ [1094, 1080, 1092, 1088, 1086, 1074, 1099, 1077] @ js '' '' @
                        [1088, 1077, 1096, 1077, 1085, 1080, 1103] @ js ''.''))]\<rparr>,
             \<lparr>st_id = js ''contact_1'', st_type = js ''contact'',
               st_props =
                 JObj
                  [(js ''title'', JStr
                       ([1057, 1074, 1103, 1079, 1072, 1090, 1100, 1089, 1103] @ js '' '' @
                        [1089] @ js '' '' @ [1085, 1072, 1084, 1080])),
                   (js ''subtitle'', JStr
                       ([1054, 1089, 1090, 1072, 1074, 1100, 1090, 1077] @ js '' '' @
                        [1079, 1072, 1103, 1074, 1082, 1091] @ js '' '' @ [8212] @ js '' '' @
                        [1084, 1099] @ js '' '' @ [1086, 1090, 1074, 1077, 1090, 1080, 1084] @
                        js '' '' @ [1074] @ js '' '' @
                        [1090, 1077, 1095, 1077, 1085, 1080, 1077] @ js '' '' @
                        [1076, 1085, 1103] @ js ''.'')),
                   (js ''fields'', JArr
                      [JStr
                         (js ''name''),
                       JStr
                         (js ''phone''),
                       JStr
                         (js ''message'')])]\<rparr>]\<rparr>]\<rparr>"

definition DefaultTemplate :: TemplateDefinition where
  "DefaultTemplate =
    \<lparr>templateId = js ''default'',
     templateVersion = 1,
     tpl_name = js ''Default Business'',
     tpl_description = js ''Universal template for any type of business'',
     defaults_theme =
       \<lparr>td_palette =
          \<lparr>pal_primary = js ''#2E4057'', pal_accent = js ''#048A81'',
           pal_background = js ''#ffffff'', pal_surface = js ''#f8f9fa'',
           pal_text = js ''#2C3E50'', pal_mutedText = js ''#6c757d''\<rparr>,
        td_typography =
          \<lparr>typ_fontFamily =
             js ''Roboto, system-ui, -apple-system, Arial, sans-serif'',
           typ_scale = js ''md''\<rparr>,
        td_radius = js ''sm'', td_spacing = js ''md''\<rparr>,
     seo_titleSuffix =
       [1055, 1088, 1086, 1092, 1077, 1089, 1089, 1080, 1086, 1085, 1072, 1083, 1100, 1085] @
       [1099, 1077] @ js '' '' @ [1091, 1089, 1083, 1091, 1075, 1080],
     seo_descriptionTemplate =
       [1050, 1072, 1095, 1077, 1089, 1090, 1074, 1077, 1085, 1085, 1099, 1081] @ js '' '' @
       [1089, 1077, 1088, 1074, 1080, 1089] @ js '' '' @ [1080] @ js '' '' @
       [1087, 1088, 1086, 1092, 1077, 1089, 1089, 1080, 1086, 1085, 1072, 1083, 1080, 1079] @
       [1084] @ js ''.'',
     tpl_pages =
       [\<lparr>pt_id = js ''home'', pt_path = js ''/'',
          pt_titleTemplate = [1043, 1083, 1072, 1074, 1085, 1072, 1103],
          pt_sections =
            [\<lparr>st_id = js ''hero_1'', st_type = js ''hero'',
               st_props =
                 JObj
                  [(js ''headline'', JStr
                       ([1044, 1086, 1073, 1088, 1086] @ js '' '' @
                        [1087, 1086, 1078, 1072, 1083, 1086, 1074, 1072, 1090, 1100] @
                        js '' '' @ [1074] @ js '' {{brandName}}'')),
                   (js ''subheadline'', JStr
                       ([1055, 1088, 1086, 1092, 1077, 1089, 1089, 1080, 1086, 1085, 1072, 1083, 1100, 1085] @
                        [1099, 1077] @ js '' '' @ [1091, 1089, 1083, 1091, 1075, 1080] @
                        js '', '' @ [1082, 1086, 1090, 1086, 1088, 1099, 1084] @ js '' '' @
                        [1084, 1086, 1078, 1085, 1086] @ js '' '' @
                        [1076, 1086, 1074, 1077, 1088, 1103, 1090, 1100] @ js ''.'')),
                   (js ''primaryCta'', JObj
                      [(js ''text'', JStr
                           ([1059, 1079, 1085, 1072, 1090, 1100] @ js '' '' @
                            [1073, 1086, 1083, 1100, 1096, 1077])),
                       (js ''href'', JStr
                           (js ''#about''))]),
                   (js ''logoAssetId'', JStr
                       (js ''{{logoAssetId}}''))]\<rparr>,
             \<lparr>st_id = js ''services_1'', st_type = js ''features'',
               st_props =
                 JObj
                  [(js ''title'', JStr
                       ([1053, 1072, 1096, 1080] @ js '' '' @
                        [1091, 1089, 1083, 1091, 1075, 1080])),
                   (js ''items'', JArr
                      [JObj
                        [(js ''title'', JStr
                             ([1055, 1088, 1086, 1092, 1077, 1089, 1089, 1080, 1086, 1085, 1072, 1083, 1100, 1085] @
                              [1099, 1081] @ js '' '' @ [1089, 1077, 1088, 1074, 1080, 1089])),
                         (js ''text'', JStr
                             ([1069, 1082, 1089, 1087, 1077, 1088, 1090, 1085, 1099, 1077] @
                              js '' '' @ [1088, 1077, 1096, 1077, 1085, 1080, 1103] @ js '' '' @
                              [1076, 1083, 1103] @ js '' '' @ [1074, 1072, 1096, 1080, 1093] @
                              js '' '' @ [1079, 1072, 1076, 1072, 1095] @ js ''.''))],
                       JObj
                        [(js ''title'', JStr
                             ([1050, 1083, 1080, 1077, 1085, 1090, 1089, 1082, 1072, 1103] @
                              js '' '' @ [1087, 1086, 1076, 1076, 1077, 1088, 1078, 1082, 1072])),
                         (js ''text'', JStr
                             ([1055, 1088, 1086, 1092, 1077, 1089, 1089, 1080, 1086, 1085, 1072, 1083, 1100, 1085] @
                              [1072, 1103] @ js '' '' @
                              [1087, 1086, 1076, 1076, 1077, 1088, 1078, 1082, 1072] @
                              js '' '' @ [1082, 1086, 1075, 1076, 1072] @ js '' '' @
                              [1074, 1072, 1084] @ js '' '' @ [1085, 1091, 1078, 1085, 1086] @
                              js ''.''))],
                       JObj
                        [(js ''title'', JStr
                             ([1043, 1072, 1088, 1072, 1085, 1090, 1080, 1103] @ js '' '' @
                              [1082, 1072, 1095, 1077, 1089, 1090, 1074, 1072])),
                         (js ''text'', JStr
                             ([1057, 1090, 1088, 1077, 1084, 1083, 1077, 1085, 1080, 1077] @
                              js '' '' @ [1082] @ js '' '' @
                              [1089, 1086, 1074, 1077, 1088, 1096, 1077, 1085, 1089, 1090, 1074, 1091] @
                              js '' '' @ [1074, 1086] @ js '' '' @ [1074, 1089, 1077, 1084] @
                              js ''.''))]])]\<rparr>,
             \<lparr>st_id = js ''about_1'', st_type = js ''about'',
               st_props =
                 JObj
                  [(js ''title'', JStr
                       ([1054] @ js '' '' @ [1082, 1086, 1084, 1087, 1072, 1085, 1080, 1080] @
                        js '' {{brandName}}'')),
                   (js ''text'', JStr
                       ([1052, 1099] @ js '' '' @
                        [1087, 1088, 1077, 1076, 1086, 1089, 1090, 1072, 1074, 1083, 1103, 1077, 1084] @
                        js '' '' @
                        [1082, 1072, 1095, 1077, 1089, 1090, 1074, 1077, 1085, 1085, 1099, 1081] @
                        js '' '' @ [1089, 1077, 1088, 1074, 1080, 1089] @ js '' '' @ [1089] @
                        js '' '' @
                        [1087, 1088, 1086, 1092, 1077, 1089, 1089, 1080, 1086, 1085, 1072, 1083, 1080, 1079] @
                        [1084, 1086, 1084] @ js '' '' @ [1080] @ js '' '' @
                        [1086, 1087, 1099, 1090, 1086, 1084] @ js '' '' @ [1074] @ js '' '' @
                        [1089, 1092, 1077, 1088, 1077] @ js '' {{industryLabel}}.''))]\<rparr>,
             \<lparr>st_id = js ''contact_1'', st_type = js ''contact'',
               st_props =
                 JObj
                  [(js ''title'', JStr
                       ([1057, 1074, 1103, 1078, 1080, 1090, 1077, 1089, 1100] @ js '' '' @
                        [1089] @ js '' '' @ [1085, 1072, 1084, 1080])),
                   (js ''subtitle'', JStr
                       ([1052, 1099] @ js '' '' @ [1073, 1091, 1076, 1077, 1084] @ js '' '' @
                        [1088, 1072, 1076, 1099] @ js '' '' @
                        [1086, 1090, 1074, 1077, 1090, 1080, 1090, 1100] @ js '' '' @
                        [1085, 1072] @ js '' '' @ [1074, 1072, 1096, 1080] @ js '' '' @
                        [1074, 1086, 1087, 1088, 1086, 1089, 1099] @ js ''.'')),
                   (js ''fields'', JArr
                      [JStr
                         (js ''name''),
                       JStr
                         (js ''email''),
                       JStr
                         (js ''message'')])]\<rparr>]\<rparr>]\<rparr>"

subsection \<open>TemplateRegistry and TemplateLoader\<close>

record TemplateMapping =
  tm_industryCode :: jsstring
  tm_templateId :: jsstring
  tm_templateVersion :: int

definition TEMPLATE_MAPPINGS :: "TemplateMapping list" where
  "TEMPLATE_MAPPINGS =
    [\<lparr>tm_industryCode = js ''tech'', tm_templateId = js ''it_services'', tm_templateVersion = 1\<rparr>,
     \<lparr>tm_industryCode = js ''finance'', tm_templateId = js ''finance_professional'',
        tm_templateVersion = 1\<rparr>,
     \<lparr>tm_industryCode = js ''healthcare'', tm_templateId = js ''healthcare_trust'',
        tm_templateVersion = 1\<rparr>,
     \<lparr>tm_industryCode = js ''retail'', tm_templateId = js ''retail_vibrant'',
        tm_templateVersion = 1\<rparr>,
     \<lparr>tm_industryCode = js ''education'', tm_templateId = js ''education_inspire'',
        tm_templateVersion = 1\<rparr>,
     \<lparr>tm_industryCode = js ''real-estate'', tm_templateId = js ''realestate_premium'',
        tm_templateVersion = 1\<rparr>,
     \<lparr>tm_industryCode = js ''consulting'', tm_templateId = js ''consulting_professional'',
        tm_templateVersion = 1\<rparr>,
     \<lparr>tm_industryCode = js ''restaurant'', tm_templateId = js ''restaurant_delicious'',
        tm_templateVersion = 1\<rparr>,
     \<lparr>tm_industryCode = js ''other'', tm_templateId = js ''default'', tm_templateVersion = 1\<rparr>]"

definition DEFAULT_TEMPLATE :: TemplateMapping where
  "DEFAULT_TEMPLATE =
     \<lparr>tm_industryCode = js ''other'', tm_templateId = js ''default'', tm_templateVersion = 1\<rparr>"

definition TemplateRegistry_getByIndustry :: "jsstring \<Rightarrow> TemplateMapping" where
  "TemplateRegistry_getByIndustry industryCode =
     (case find (\<lambda>m. tm_industryCode m = industryCode) TEMPLATE_MAPPINGS of
        Some mapping \<Rightarrow> mapping
      | None \<Rightarrow> DEFAULT_TEMPLATE)"

definition TEMPLATES :: "(jsstring \<times> TemplateDefinition) list" where
  "TEMPLATES = [(js ''it_services'', ITServicesTemplate), (js ''default'', DefaultTemplate)]"

text \<open>
  \<open>TemplateLoader.load\<close>; the generator calls it with a template id of
  \<open>TEMPLATE_MAPPINGS\<close> only.
\<close>

definition TemplateLoader_load :: "jsstring \<Rightarrow> TemplateDefinition" where
  "TemplateLoader_load tid = (case map_of TEMPLATES tid of Some template \<Rightarrow> template | None \<Rightarrow> DefaultTemplate)"

section \<open>domain/entities/SiteConfig.ts\<close>

record ThemeConfig =
  themeId :: jsstring
  th_palette :: ThemePalette
  th_typography :: Typography
  th_radius :: jsstring
  th_spacing :: jsstring

record BrandLogo =
  bl_assetId :: jsstring
  bl_url :: jsstring

record BrandInfo =
  b_name :: jsstring
  b_industryCode :: jsstring
  b_industryLabel :: jsstring
  b_slug :: jsstring
  b_logo :: "BrandLogo option"

record RoutingConfig =
  basePath :: jsstring
  trailingSlash :: bool

text \<open>\<open>ogImageAssetId\<close> is a string or \<open>null\<close>.\<close>

record SEOInfo =
  seo_title :: jsstring
  seo_description :: jsstring
  ogImageAssetId :: "jsstring option"

record SiteInfo =
  s_language :: jsstring
  s_title :: jsstring
  s_description :: jsstring
  s_routing :: RoutingConfig
  s_seo :: SEOInfo

record SectionProps =
  sec_id :: jsstring
  sec_type :: jsstring
  sec_props :: json

record PageConfig =
  page_id :: jsstring
  page_path :: jsstring
  page_title :: jsstring
  page_sections :: "SectionProps list"

record AssetConfig =
  a_assetId :: jsstring
  a_type :: jsstring
  a_mimeType :: jsstring
  a_url :: jsstring
  a_bytes :: int
  a_sha256 :: jsstring

record PublishingConfig =
  p_target :: jsstring
  p_format :: jsstring
  p_entryPageId :: jsstring
  p_maxPages :: int
  p_maxSectionsPerPage :: int

record GeneratorMetadata =
  g_engine :: jsstring
  g_engineVersion :: jsstring
  g_templateId :: jsstring
  g_templateVersion :: int

text \<open>
  The props of a \<open>SiteConfig\<close>. \<open>generatedAt\<close> is a \<open>Date\<close> that the code only prints
  (\<open>toISOString\<close> in \<open>toJSON\<close>); it is held as that ISO-8601 text.
\<close>

record SiteConfig =
  schemaVersion :: int
  configVersion :: jsstring
  configId :: jsstring
  cfg_draftId :: jsstring
  generatedAt :: jsstring
  cfg_generator :: GeneratorMetadata
  cfg_brand :: BrandInfo
  cfg_site :: SiteInfo
  cfg_theme :: ThemeConfig
  cfg_pages :: "PageConfig list"
  cfg_assets :: "AssetConfig list"
  cfg_publishing :: PublishingConfig

text \<open>
  The objects as \<open>JSON.stringify\<close> sees them, with the keys in the order in which the
  object literals of the generator and \<open>SiteConfig.toJSON\<close> write them. An absent
  \<open>brand.logo\<close> is \<open>undefined\<close>.
\<close>

definition sectionJson :: "SectionProps \<Rightarrow> json" where
  "sectionJson s =
     JObj [(js ''id'', JStr (sec_id s)), (js ''type'', JStr (sec_type s)), (js ''props'', sec_props s)]"

definition pageJson :: "PageConfig \<Rightarrow> json" where
  "pageJson p =
     JObj [(js ''id'', JStr (page_id p)), (js ''path'', JStr (page_path p)),
           (js ''title'', JStr (page_title p)),
           (js ''sections'', JArr (map sectionJson (page_sections p)))]"

definition brandJson :: "BrandInfo \<Rightarrow> json" where
  "brandJson b =
     JObj [(js ''name'', JStr (b_name b)),
           (js ''industry'',
              JObj [(js ''code'', JStr (b_industryCode b)), (js ''label'', JStr (b_industryLabel b))]),
           (js ''slug'', JStr (b_slug b)),
           (js ''logo'',
              (case b_logo b of
                 None \<Rightarrow> JUndefined
               | Some l \<Rightarrow> JObj [(js ''assetId'', JStr (bl_assetId l)), (js ''url'', JStr (bl_url l))]))]"

definition siteJson :: "SiteInfo \<Rightarrow> json" where
  "siteJson s =
     JObj [(js ''language'', JStr (s_language s)),
           (js ''title'', JStr (s_title s)),
           (js ''description'', JStr (s_description s)),
           (js ''routing'',
              JObj [(js ''basePath'', JStr (basePath (s_routing s))),
                    (js ''trailingSlash'', JBool (trailingSlash (s_routing s)))]),
           (js ''seo'',
              JObj [(js ''title'', JStr (seo_title (s_seo s))),
                    (js ''description'', JStr (seo_description (s_seo s))),
                    (js ''ogImageAssetId'',
                       (case ogImageAssetId (s_seo s) of None \<Rightarrow> JNull | Some a \<Rightarrow> JStr a))])]"

definition themeJson :: "ThemeConfig \<Rightarrow> json" where
  "themeJson t =
     JObj [(js ''themeId'', JStr (themeId t)),
           (js ''palette'',
              JObj [(js ''primary'', JStr (pal_primary (th_palette t))),
                    (js ''accent'', JStr (pal_accent (th_palette t))),
                    (js ''background'', JStr (pal_background (th_palette t))),
                    (js ''surface'', JStr (pal_surface (th_palette t))),
                    (js ''text'', JStr (pal_text (th_palette t))),
                    (js ''mutedText'', JStr (pal_mutedText (th_palette t)))]),
           (js ''typography'',
              JObj [(js ''fontFamily'', JStr (typ_fontFamily (th_typography t))),
                    (js ''scale'', JStr (typ_scale (th_typography t)))]),
           (js ''radius'', JStr (th_radius t)),
           (js ''spacing'', JStr (th_spacing t))]"

definition assetJson :: "AssetConfig \<Rightarrow> json" where
  "assetJson a =
     JObj [(js ''assetId'', JStr (a_assetId a)), (js ''type'', JStr (a_type a)),
           (js ''mimeType'', JStr (a_mimeType a)), (js ''url'', JStr (a_url a)),
           (js ''bytes'', JNum (a_bytes a)), (js ''sha256'', JStr (a_sha256 a))]"

definition publishingJson :: "PublishingConfig \<Rightarrow> json" where
  "publishingJson p =
     JObj [(js ''target'', JStr (p_target p)),
           (js ''output'',
              JObj [(js ''format'', JStr (p_format p)), (js ''entryPageId'', JStr (p_entryPageId p))]),
           (js ''constraints'',
              JObj [(js ''maxPages'', JNum (p_maxPages p)),
                    (js ''maxSectionsPerPage'', JNum (p_maxSectionsPerPage p))])]"

definition generatorJson :: "GeneratorMetadata \<Rightarrow> json" where
  "generatorJson g =
     JObj [(js ''engine'', JStr (g_engine g)), (js ''engineVersion'', JStr (g_engineVersion g)),
           (js ''templateId'', JStr (g_templateId g)),
           (js ''templateVersion'', JNum (g_templateVersion g))]"

text \<open>\<open>SiteConfig.toJSON()\<close>.\<close>

definition SiteConfig_toJSON :: "SiteConfig \<Rightarrow> json" where
  "SiteConfig_toJSON c =
     JObj [(js ''schemaVersion'', JNum (schemaVersion c)),
           (js ''configVersion'', JStr (configVersion c)),
           (js ''configId'', JStr (configId c)),
           (js ''draftId'', JStr (cfg_draftId c)),
           (js ''generatedAt'', JStr (generatedAt c)),
           (js ''generator'', generatorJson (cfg_generator c)),
           (js ''brand'', brandJson (cfg_brand c)),
           (js ''site'', siteJson (cfg_site c)),
           (js ''theme'', themeJson (cfg_theme c)),
           (js ''pages'', JArr (map pageJson (cfg_pages c))),
           (js ''assets'', JArr (map assetJson (cfg_assets c))),
           (js ''publishing'', publishingJson (cfg_publishing c))]"

text \<open>The private \<open>validate\<close> of \<open>SiteConfig\<close>; the nested objects are always present.\<close>

definition SiteConfig_create :: "SiteConfig \<Rightarrow> error + SiteConfig" where
  "SiteConfig_create props =
     (if configId props = [] then Inl SiteConfigWithoutConfigId
      else if cfg_draftId props = [] then Inl SiteConfigWithoutDraftId
      else Inr props)"

section \<open>The draft and its value objects\<close>

text \<open>
  \<open>AssetInfo\<close>, \<open>BrandProfile\<close>, \<open>GeneratorInfo\<close> and \<open>SiteDraft\<close> as the generator and
  the use cases read them, through getters whose declared results are strings. Instants
  that the code compares are milliseconds since the epoch; \<open>uploadedAt\<close> is only
  printed. The \<open>preview\<close> and \<open>meta\<close> parts of a draft are read by none of the modelled
  operations and are left out.
\<close>

record AssetInfo =
  ai_assetId :: jsstring
  ai_url :: jsstring
  ai_mimeType :: jsstring
  ai_width :: "int option"
  ai_height :: "int option"
  ai_bytes :: int
  ai_sha256 :: jsstring
  ai_uploadedAt :: jsstring

record BrandProfile =
  bp_schemaVersion :: int
  bp_brandName :: jsstring
  bp_industryCode :: jsstring
  bp_industryLabel :: jsstring
  bp_logo :: "AssetInfo option"

record GeneratorInfo =
  gi_engine :: jsstring
  gi_engineVersion :: jsstring
  gi_templateId :: jsstring
  gi_locale :: "jsstring option"

text \<open>\<open>getLocale()\<close>: \<open>this.props.locale || 'ru-RU'\<close>.\<close>

definition getLocale :: "GeneratorInfo \<Rightarrow> jsstring" where
  "getLocale g =
     (case gi_locale g of Some l \<Rightarrow> if l \<noteq> [] then l else js ''ru-RU'' | None \<Rightarrow> js ''ru-RU'')"

record SiteDraft =
  d_schemaVersion :: int
  d_draftId :: jsstring
  d_status :: jsstring
  d_createdAt :: int
  d_updatedAt :: int
  d_expiresAt :: int
  d_ttlSeconds :: int
  d_brandProfile :: BrandProfile
  d_generator :: GeneratorInfo

text \<open>\<open>isExpired()\<close>: \<open>this.expiresAt < new Date()\<close>, with the clock of the service.\<close>

definition isExpired :: "SiteDraft \<Rightarrow> int \<Rightarrow> bool" where
  "isExpired draft now \<longleftrightarrow> d_expiresAt draft < now"

section \<open>config_generation/SiteConfigGeneratorImpl.ts\<close>

text \<open>
  \<open>generateConfigId\<close>, given the text that \<open>uuidv4()\<close> returned (lower-case
  hexadecimal digits and hyphens).
\<close>

definition generateConfigId :: "jsstring \<Rightarrow> jsstring" where
  "generateConfigId uuid =
     js ''cfg_'' @ substring0 26 (map upperAscii (filter (\<lambda>c. c \<noteq> 45) uuid))"

text \<open>
  \<open>obj.logoAssetId = v\<close> on the object that \<open>resolveSectionProps\<close> returned: the value
  of an existing key is replaced where it stands.
\<close>

fun assignProp :: "jsstring \<Rightarrow> json \<Rightarrow> (jsstring \<times> json) list \<Rightarrow> (jsstring \<times> json) list" where
  "assignProp k v [] = [(k, v)]"
| "assignProp k v ((k', v') # kvs) =
     (if k' = k then (k, v) # kvs else (k', v') # assignProp k v kvs)"

text \<open>\<open>logo?.getAssetId() || null\<close>.\<close>

definition logoAssetIdOrNull :: "AssetInfo option \<Rightarrow> json" where
  "logoAssetIdOrNull logo =
     (case logo of
        Some l \<Rightarrow> if ai_assetId l \<noteq> [] then JStr (ai_assetId l) else JNull
      | None \<Rightarrow> JNull)"

text \<open>The arrow function that \<open>generate\<close> maps over the section templates of a page.\<close>

definition generateSection ::
  "TokenContext \<Rightarrow> AssetInfo option \<Rightarrow> SectionTemplate \<Rightarrow> error + SectionProps" where
  "generateSection tokenContext logo sectionTemplate =
     (case resolveSectionProps (st_props sectionTemplate) tokenContext of
        Inl e \<Rightarrow> Inl e
      | Inr resolved \<Rightarrow>
          (case resolved of
             JObj kvs \<Rightarrow>
               Inr \<lparr>sec_id = st_id sectionTemplate, sec_type = st_type sectionTemplate,
                    sec_props =
                      (if map_of kvs (js ''logoAssetId'') = Some (JStr (js ''{{logoAssetId}}''))
                       then JObj (assignProp (js ''logoAssetId'') (logoAssetIdOrNull logo) kvs)
                       else JObj kvs)\<rparr>
           | other \<Rightarrow>
               Inr \<lparr>sec_id = st_id sectionTemplate, sec_type = st_type sectionTemplate,
                    sec_props = other\<rparr>))"

text \<open>\<open>xs.map(f)\<close> for an \<open>f\<close> that can throw: the first exception ends the loop.\<close>

fun mapE :: "('a \<Rightarrow> error + 'b) \<Rightarrow> 'a list \<Rightarrow> error + 'b list" where
  "mapE f [] = Inr []"
| "mapE f (x # xs) =
     (case f x of
        Inl e \<Rightarrow> Inl e
      | Inr y \<Rightarrow> (case mapE f xs of Inl e \<Rightarrow> Inl e | Inr ys \<Rightarrow> Inr (y # ys)))"

definition bindE :: "error + 'a \<Rightarrow> ('a \<Rightarrow> error + 'b) \<Rightarrow> error + 'b" where
  "bindE m f = (case m of Inl e \<Rightarrow> Inl e | Inr x \<Rightarrow> f x)"

definition generatePage ::
  "TokenContext \<Rightarrow> AssetInfo option \<Rightarrow> PageTemplate \<Rightarrow> error + PageConfig" where
  "generatePage tokenContext logo pageTemplate =
     bindE (mapE (generateSection tokenContext logo) (pt_sections pageTemplate))
       (\<lambda>sections.
          Inr \<lparr>page_id = pt_id pageTemplate, page_path = pt_path pageTemplate,
               page_title = resolveTokens (pt_titleTemplate pageTemplate) tokenContext,
               page_sections = sections\<rparr>)"

text \<open>
  \<open>generate(draft)\<close>. \<open>lib/slug.ts\<close> is not among the sources, so \<open>generateSlug\<close> is a
  parameter; the other two parameters are what the environment supplies during the
  call: the text returned by \<open>uuidv4()\<close> and the instant \<open>new Date()\<close>, as ISO-8601 text.
\<close>

definition generate ::
  "(jsstring \<Rightarrow> jsstring) \<Rightarrow> jsstring \<Rightarrow> jsstring \<Rightarrow> SiteDraft \<Rightarrow> error + SiteConfig" where
  "generate generateSlug uuid nowIso draft =
     (let brandProfile = d_brandProfile draft;
          generator = d_generator draft;
          brandName = normalizeBrandName (bp_brandName brandProfile);
          industryCode = bp_industryCode brandProfile;
          industryLabel = bp_industryLabel brandProfile;
          logo = bp_logo brandProfile;
          templateMapping = TemplateRegistry_getByIndustry industryCode;
          template = TemplateLoader_load (tm_templateId templateMapping);
          slug = generateSlug brandName;
          brand =
            \<lparr>b_name = brandName, b_industryCode = industryCode, b_industryLabel = industryLabel,
             b_slug = slug,
             b_logo = map_option (\<lambda>l. \<lparr>bl_assetId = ai_assetId l, bl_url = ai_url l\<rparr>) logo\<rparr>;
          tokenContext =
            \<lparr>ctx_brandName = brandName, ctx_industryLabel = industryLabel,
             ctx_logoUrl = map_option ai_url logo, ctx_slug = slug\<rparr>;
          theme =
            \<lparr>themeId = templateId template @ js ''_default'',
             th_palette = td_palette (defaults_theme template),
             th_typography = td_typography (defaults_theme template),
             th_radius = td_radius (defaults_theme template),
             th_spacing = td_spacing (defaults_theme template)\<rparr>
      in bindE (mapE (generatePage tokenContext logo) (tpl_pages template))
           (\<lambda>pages.
              let site =
                    \<lparr>s_language = getLocale generator,
                     s_title = brandName @ [32, 8212, 32] @ seo_titleSuffix template,
                     s_description = resolveTokens (seo_descriptionTemplate template) tokenContext,
                     s_routing = \<lparr>basePath = js ''/'', trailingSlash = False\<rparr>,
                     s_seo =
                       \<lparr>seo_title = brandName @ [32, 8212, 32] @ seo_titleSuffix template,
                        seo_description =
                          resolveTokens (seo_descriptionTemplate template) tokenContext,
                        ogImageAssetId =
                          (case logo of
                             Some l \<Rightarrow> if ai_assetId l \<noteq> [] then Some (ai_assetId l) else None
                           | None \<Rightarrow> None)\<rparr>\<rparr>;
                  assets =
                    (case logo of
                       Some l \<Rightarrow>
                         [\<lparr>a_assetId = ai_assetId l, a_type = js ''logo'',
                           a_mimeType = ai_mimeType l, a_url = ai_url l, a_bytes = ai_bytes l,
                           a_sha256 = ai_sha256 l\<rparr>]
                     | None \<Rightarrow> []);
                  publishing =
                    \<lparr>p_target = js ''static'', p_format = js ''html'', p_entryPageId = js ''home'',
                     p_maxPages = 10, p_maxSectionsPerPage = 30\<rparr>
              in SiteConfig_create
                   \<lparr>schemaVersion = 1,
                    configVersion = js ''1.0.0'',
                    configId = generateConfigId uuid,
                    cfg_draftId = d_draftId draft,
                    generatedAt = nowIso,
                    cfg_generator =
                      \<lparr>g_engine = gi_engine generator,
                       g_engineVersion = gi_engineVersion generator,
                       g_templateId = templateId template,
                       g_templateVersion = templateVersion template\<rparr>,
                    cfg_brand = brand,
                    cfg_site = site,
                    cfg_theme = theme,
                    cfg_pages = pages,
                    cfg_assets = assets,
                    cfg_publishing = publishing\<rparr>))"

section \<open>lib/etag.ts\<close>

text \<open>
  \<open>hashContent\<close> takes the first 16 characters of the hexadecimal SHA-256 digest that
  Node's \<open>crypto\<close> module computes; that digest function is the parameter \<open>sha256hex\<close>.
\<close>

definition hashContent :: "(jsstring \<Rightarrow> jsstring) \<Rightarrow> jsstring \<Rightarrow> jsstring" where
  "hashContent sha256hex content = substring0 16 (sha256hex content)"

definition generateConfigETag :: "(jsstring \<Rightarrow> jsstring) \<Rightarrow> SiteConfig \<Rightarrow> jsstring" where
  \<open>generateConfigETag sha256hex config =
     (let contentHash = hashContent sha256hex (JSON_stringify (SiteConfig_toJSON config))
      in js ''W/"'' @ configId config @ js '':'' @ contentHash @ js ''"'')\<close>

section \<open>preview/SafePreviewRenderer.ts\<close>

text \<open>
  The renderer as it runs in the default configuration, without the optional Frappe
  adapter (\<open>ENABLE_FRAPPE\<close> is off unless set): \<open>renderHtmlPreview\<close> then always takes
  the built-in renderer. Each template literal of the source is written as the list of
  its pieces, one source line per line.
\<close>

definition ALLOWED_SECTION_TYPES :: "jsstring list" where
  "ALLOWED_SECTION_TYPES =
    [js ''hero'', js ''features'', js ''about'', js ''contact'', js ''services'', js ''gallery'',
     js ''testimonials'', js ''pricing'', js ''faq'', js ''team'', js ''footer'']"

definition isSectionAllowed :: "SectionProps \<Rightarrow> bool" where
  "isSectionAllowed section \<longleftrightarrow> sec_type section \<in> set ALLOWED_SECTION_TYPES"

definition sanitizeSection :: "SectionProps \<Rightarrow> error + SectionProps" where
  "sanitizeSection section =
     (let jsonString = JSON_stringify (sectionJson section)
      in if containsUnsafeContent jsonString then Inl (UnsafeContent (sec_id section))
         else Inr (section\<lparr>sec_props := escapeHtmlInObject (sec_props section)\<rparr>))"

definition radiusMap :: "(jsstring \<times> jsstring) list" where
  "radiusMap =
    [(js ''none'', js ''0''), (js ''sm'', js ''4px''), (js ''md'', js ''8px''), (js ''lg'', js ''16px''),
     (js ''full'', js ''9999px'')]"

text \<open>\<open>radiusMap[radius] || '8px'\<close>, for a radius of the declared union type or any other
  name that \<open>Object.prototype\<close> does not define.\<close>

definition getRadiusValue :: "jsstring \<Rightarrow> jsstring" where
  "getRadiusValue radius = (case map_of radiusMap radius of Some v \<Rightarrow> v | None \<Rightarrow> js ''8px'')"

text \<open>
  One call-to-action link of the hero section:
  \<open>cta ? `<a href="${escapeHtml(cta.href)}" class="cta-button">${escapeHtml(cta.text)}</a>` : ''\<close>.
\<close>

definition renderCta :: "json \<Rightarrow> error + jsstring" where
  \<open>renderCta cta =
     (if truthy cta then
        bindE (getProp cta (js ''href'')) (\<lambda>href.
        bindE (escapeHtmlOf href) (\<lambda>escapedHref.
        bindE (getProp cta (js ''text'')) (\<lambda>txt.
        bindE (escapeHtmlOf txt) (\<lambda>escapedText.
          Inr (concat
            [js ''<a href="'', escapedHref, js ''" class="cta-button">'', escapedText,
             js ''</a>''])))))
      else Inr [])\<close>

definition renderHeroSection :: "json \<Rightarrow> BrandInfo \<Rightarrow> error + jsstring" where
  \<open>renderHeroSection props brand =
     bindE (getProp props (js ''headline'')) (\<lambda>h.
     bindE (escapeHtmlOf (orElse h (JStr []))) (\<lambda>headline.
     bindE (getProp props (js ''subheadline'')) (\<lambda>sh.
     bindE (escapeHtmlOf (orElse sh (JStr []))) (\<lambda>subheadline.
     bindE (getProp props (js ''primaryCta'')) (\<lambda>primaryCta.
     bindE (getProp props (js ''secondaryCta'')) (\<lambda>secondaryCta.
       let logoUrl =
             (case b_logo brand of
                Some l \<Rightarrow> if bl_url l \<noteq> [] then escapeHtml (bl_url l) else []
              | None \<Rightarrow> [])
       in
       bindE (renderCta primaryCta) (\<lambda>primaryHtml.
       bindE (renderCta secondaryCta) (\<lambda>secondaryHtml.
         Inr (concat
           [[10] @
            js ''  <section class="hero">'' @ [10] @
            js ''    <div class="container">'' @ [10] @
            js ''      '',
            (if logoUrl \<noteq> []
             then js ''<img src="'' @ logoUrl @
                  js ''" alt="Logo" style="height: 80px; margin-bottom: 2rem;">''
             else []),
            [10] @
            js ''      <h1>'',
            headline,
            js ''</h1>'' @ [10] @
            js ''      <p>'',
            subheadline,
            js ''</p>'' @ [10] @
            js ''      <div>'' @ [10] @
            js ''        '',
            primaryHtml,
            [10] @
            js ''        '',
            secondaryHtml,
            [10] @
            js ''      </div>'' @ [10] @
            js ''    </div>'' @ [10] @
            js ''  </section>''])))))))))\<close>

text \<open>The arrow function mapped over \<open>items\<close> in \<open>renderFeaturesSection\<close>.\<close>

definition renderFeatureItem :: "json \<Rightarrow> error + jsstring" where
  \<open>renderFeatureItem item =
     bindE (getProp item (js ''title'')) (\<lambda>t.
     bindE (escapeHtmlOf (orElse t (JStr []))) (\<lambda>itemTitle.
     bindE (getProp item (js ''text'')) (\<lambda>tx.
     bindE (getProp item (js ''description'')) (\<lambda>d.
     bindE (escapeHtmlOf (orElse (orElse tx d) (JStr []))) (\<lambda>itemText.
       Inr (concat
             [[10] @
              js ''        <div class="feature-card">'' @ [10] @
              js ''          <h3>'',
              itemTitle,
              js ''</h3>'' @ [10] @
              js ''          <p>'',
              itemText,
              js ''</p>'' @ [10] @
              js ''        </div>'' @ [10] @
              js ''      '']))))))\<close>

definition renderFeaturesSection :: "json \<Rightarrow> error + jsstring" where
  \<open>renderFeaturesSection props =
     bindE (getProp props (js ''title'')) (\<lambda>t.
     bindE (escapeHtmlOf (orElse t (JStr []))) (\<lambda>title.
     bindE (getProp props (js ''items'')) (\<lambda>its.
       let items = (case its of JArr xs \<Rightarrow> xs | _ \<Rightarrow> []) in
       bindE (mapE renderFeatureItem items) (\<lambda>itemHtmls.
         let itemsHtml = concat itemHtmls in
         Inr (concat
               [[10] @
                js ''  <section class="section">'' @ [10] @
                js ''    <div class="container">'' @ [10] @
                js ''      <h2 class="section-title">'',
                title,
                js ''</h2>'' @ [10] @
                js ''      <div class="features-grid">'' @ [10] @
                js ''        '',
                itemsHtml,
                [10] @
                js ''      </div>'' @ [10] @
                js ''    </div>'' @ [10] @
                js ''  </section>''])))))\<close>

definition renderAboutSection :: "json \<Rightarrow> error + jsstring" where
  \<open>renderAboutSection props =
     bindE (getProp props (js ''title'')) (\<lambda>t.
     bindE (escapeHtmlOf (orElse t (JStr []))) (\<lambda>title.
     bindE (getProp props (js ''text'')) (\<lambda>tx.
     bindE (getProp props (js ''body'')) (\<lambda>b.
     bindE (escapeHtmlOf (orElse (orElse tx b) (JStr []))) (\<lambda>aboutText.
       Inr (concat
             [[10] @
              js ''  <section class="section about">'' @ [10] @
              js ''    <div class="container">'' @ [10] @
              js ''      <h2 class="section-title">'',
              title,
              js ''</h2>'' @ [10] @
              js ''      <p>'',
              aboutText,
              js ''</p>'' @ [10] @
              js ''    </div>'' @ [10] @
              js ''  </section>'']))))))\<close>

definition renderContactSection :: "json \<Rightarrow> error + jsstring" where
  \<open>renderContactSection props =
     bindE (getProp props (js ''title'')) (\<lambda>t.
     bindE (escapeHtmlOf (orElse t (JStr []))) (\<lambda>title.
     bindE (getProp props (js ''subtitle'')) (\<lambda>st.
     bindE (escapeHtmlOf (orElse st (JStr []))) (\<lambda>subtitle.
       Inr (concat
             [[10] @
              js ''  <section class="section contact">'' @ [10] @
              js ''    <div class="container">'' @ [10] @
              js ''      <h2 class="section-title">'',
              title,
              js ''</h2>'' @ [10] @
              js ''      <p class="contact-subtitle">'',
              subtitle,
              js ''</p>'' @ [10] @
              js ''      <p style="color: #6c757d;">'' @ [1060, 1086, 1088, 1084, 1072] @
                js '' '' @ [1086, 1073, 1088, 1072, 1090, 1085, 1086, 1081] @ js '' '' @
                [1089, 1074, 1103, 1079, 1080] @ js '' '' @ [1073, 1091, 1076, 1077, 1090] @
                js '' '' @ [1076, 1086, 1073, 1072, 1074, 1083, 1077, 1085, 1072] @ js '' '' @
                [1087, 1086, 1089, 1083, 1077] @ js '' '' @
                [1087, 1091, 1073, 1083, 1080, 1082, 1072, 1094, 1080, 1080] @ js ''.</p>'' @ [10] @
              js ''    </div>'' @ [10] @
              js ''  </section>''])))))\<close>

definition renderFooterSection :: "json \<Rightarrow> error + jsstring" where
  \<open>renderFooterSection props =
     bindE (getProp props (js ''copyright'')) (\<lambda>c.
     bindE (escapeHtmlOf (orElse c (JStr []))) (\<lambda>copyright.
       Inr (concat
             [[10] @
              js ''  <footer>'' @ [10] @
              js ''    <div class="container">'' @ [10] @
              js ''      <p>'',
              copyright,
              js ''</p>'' @ [10] @
              js ''    </div>'' @ [10] @
              js ''  </footer>''])))\<close>

definition renderSection :: "SectionProps \<Rightarrow> BrandInfo \<Rightarrow> ThemeConfig \<Rightarrow> error + jsstring" where
  "renderSection section brand theme =
     bindE (sanitizeSection section) (\<lambda>safeSection.
       let props = sec_props safeSection in
       if sec_type section = js ''hero'' then renderHeroSection props brand
       else if sec_type section = js ''features'' \<or> sec_type section = js ''services''
         then renderFeaturesSection props
       else if sec_type section = js ''about'' then renderAboutSection props
       else if sec_type section = js ''contact'' then renderContactSection props
       else if sec_type section = js ''footer'' then renderFooterSection props
       else Inr [])"

text \<open>\<open>pages.find(p => p.id === 'home') || pages[0]\<close>, then \<open>homePage?.sections || []\<close>.\<close>

definition homeSections :: "PageConfig list \<Rightarrow> SectionProps list" where
  "homeSections pages =
     (case find (\<lambda>p. page_id p = js ''home'') pages of
        Some homePage \<Rightarrow> page_sections homePage
      | None \<Rightarrow> (case pages of [] \<Rightarrow> [] | homePage # _ \<Rightarrow> page_sections homePage))"

definition buildHtmlDocument :: "BrandInfo \<Rightarrow> ThemeConfig \<Rightarrow> PageConfig list \<Rightarrow> error + jsstring" where
  \<open>buildHtmlDocument brand theme pages =
     (let brandName = escapeHtml (b_name brand);
          palette = th_palette theme;
          sections = homeSections pages
      in bindE (mapE (\<lambda>section. renderSection section brand theme)
                  (filter isSectionAllowed sections))
           (\<lambda>rendered.
              let sectionsHtml = joinWith [10] rendered in
              Inr (concat
                   [js ''<!DOCTYPE html>'' @ [10] @
                    js ''<html lang="ru">'' @ [10] @
                    js ''<head>'' @ [10] @
                    js ''  <meta charset="UTF-8">'' @ [10] @
                    js ''  <meta name="viewport" content="width=device-width, initial-scale=1.0">'' @ [10] @
                    js ''  <title>'',
                    brandName,
                    js ''</title>'' @ [10] @
                    js ''  <style>'' @ [10] @
                    js ''    * {'' @ [10] @
                    js ''      margin: 0;'' @ [10] @
                    js ''      padding: 0;'' @ [10] @
                    js ''      box-sizing: border-box;'' @ [10] @
                    js ''    }'' @ [10] @
                    js ''    '' @ [10] @
                    js ''    body {'' @ [10] @
                    js ''      font-family: '',
                    typ_fontFamily (th_typography theme),
                    js '';'' @ [10] @
                    js ''      line-height: 1.6;'' @ [10] @
                    js ''      color: '',
                    pal_text palette,
                    js '';'' @ [10] @
                    js ''      background: '',
                    pal_background palette,
                    js '';'' @ [10] @
                    js ''    }'' @ [10] @
                    js ''    '' @ [10] @
                    js ''    .container {'' @ [10] @
                    js ''      max-width: 1200px;'' @ [10] @
                    js ''      margin: 0 auto;'' @ [10] @
                    js ''      padding: 0 20px;'' @ [10] @
                    js ''    }'' @ [10] @
                    js ''    '' @ [10] @
                    js ''    .section {'' @ [10] @
                    js ''      padding: 4rem 0;'' @ [10] @
                    js ''    }'' @ [10] @
                    js ''    '' @ [10] @
                    js ''    .hero {'' @ [10] @
                    js ''      background: linear-gradient(135deg, '',
                    pal_primary palette,
                    js '', '',
                    pal_accent palette,
                    js '');'' @ [10] @
                    js ''      color: white;'' @ [10] @
                    js ''      text-align: center;'' @ [10] @
                    js ''      padding: 6rem 0;'' @ [10] @
                    js ''    }'' @ [10] @
                    js ''    '' @ [10] @
                    js ''    .hero h1 {'' @ [10] @
                    js ''      font-size: 3rem;'' @ [10] @
                    js ''      margin-bottom: 1rem;'' @ [10] @
                    js ''    }'' @ [10] @
                    js ''    '' @ [10] @
                    js ''    .hero p {'' @ [10] @
                    js ''      font-size: 1.25rem;'' @ [10] @
                    js ''      margin-bottom: 2rem;'' @ [10] @
                    js ''      opacity: 0.9;'' @ [10] @
                    js ''    }'' @ [10] @
                    js ''    '' @ [10] @
                    js ''    .cta-button {'' @ [10] @
                    js ''      display: inline-block;'' @ [10] @
                    js ''      padding: 1rem 2rem;'' @ [10] @
                    js ''      background: white;'' @ [10] @
                    js ''      color: '',
                    pal_primary palette,
                    js '';'' @ [10] @
                    js ''      text-decoration: none;'' @ [10] @
                    js ''      border-radius: '',
                    getRadiusValue (th_radius theme),
                    js '';'' @ [10] @
                    js ''      font-weight: bold;'' @ [10] @
                    js ''      margin: 0 0.5rem;'' @ [10] @
                    js ''      transition: transform 0.2s;'' @ [10] @
                    js ''    }'' @ [10] @
                    js ''    '' @ [10] @
                    js ''    .cta-button:hover {'' @ [10] @
                    js ''      transform: scale(1.05);'' @ [10] @
                    js ''    }'' @ [10] @
                    js ''    '' @ [10] @
                    js ''    .section-title {'' @ [10] @
                    js ''      text-align: center;'' @ [10] @
                    js ''      font-size: 2.5rem;'' @ [10] @
                    js ''      margin-bottom: 3rem;'' @ [10] @
                    js ''      color: '',
                    pal_primary palette,
                    js '';'' @ [10] @
                    js ''    }'' @ [10] @
                    js ''    '' @ [10] @
                    js ''    .features-grid {'' @ [10] @
                    js ''      display: grid;'' @ [10] @
                    js ''      grid-template-columns: repeat(auto-fit, minmax(300px, 1fr));'' @ [10] @
                    js ''      gap: 2rem;'' @ [10] @
                    js ''    }'' @ [10] @
                    js ''    '' @ [10] @
                    js ''    .feature-card {'' @ [10] @
                    js ''      padding: 2rem;'' @ [10] @
                    js ''      background: '',
                    pal_surface palette,
                    js '';'' @ [10] @
                    js ''      border-radius: '',
                    getRadiusValue (th_radius theme),
                    js '';'' @ [10] @
                    js ''      box-shadow: 0 2px 10px rgba(0,0,0,0.05);'' @ [10] @
                    js ''    }'' @ [10] @
                    js ''    '' @ [10] @
                    js ''    .feature-card h3 {'' @ [10] @
                    js ''      color: '',
                    pal_primary palette,
                    js '';'' @ [10] @
                    js ''      margin-bottom: 1rem;'' @ [10] @
                    js ''    }'' @ [10] @
                    js ''    '' @ [10] @
                    js ''    .about {'' @ [10] @
                    js ''      background: '',
                    pal_surface palette,
                    js '';'' @ [10] @
                    js ''    }'' @ [10] @
                    js ''    '' @ [10] @
                    js ''    .about p {'' @ [10] @
                    js ''      text-align: center;'' @ [10] @
                    js ''      font-size: 1.125rem;'' @ [10] @
                    js ''      max-width: 800px;'' @ [10] @
                    js ''      margin: 0 auto;'' @ [10] @
                    js ''      color: '',
                    pal_mutedText palette,
                    js '';'' @ [10] @
                    js ''    }'' @ [10] @
                    js ''    '' @ [10] @
                    js ''    .contact {'' @ [10] @
                    js ''      text-align: center;'' @ [10] @
                    js ''    }'' @ [10] @
                    js ''    '' @ [10] @
                    js ''    .contact-subtitle {'' @ [10] @
                    js ''      color: '',
                    pal_mutedText palette,
                    js '';'' @ [10] @
                    js ''      margin-bottom: 2rem;'' @ [10] @
                    js ''    }'' @ [10] @
                    js ''    '' @ [10] @
                    js ''    footer {'' @ [10] @
                    js ''      background: '',
                    pal_primary palette,
                    js '';'' @ [10] @
                    js ''      color: white;'' @ [10] @
                    js ''      text-align: center;'' @ [10] @
                    js ''      padding: 2rem 0;'' @ [10] @
                    js ''      margin-top: 4rem;'' @ [10] @
                    js ''    }'' @ [10] @
                    js ''  </style>'' @ [10] @
                    js ''</head>'' @ [10] @
                    js ''<body>'' @ [10] @
                    js ''  '',
                    sectionsHtml,
                    [10] @
                    js ''</body>'' @ [10] @
                    js ''</html>''])))\<close>

text \<open>The model of the JSON preview: \<open>{schemaVersion, brand, theme, pages}\<close>.\<close>

record PreviewModel =
  pm_schemaVersion :: int
  pm_brand :: BrandInfo
  pm_theme :: ThemeConfig
  pm_pages :: "PageConfig list"

datatype PreviewFormat = Html | Json

datatype PreviewOutput =
    PreviewHtmlOutput (po_content: jsstring) (po_generatedAt: jsstring) (po_etag: jsstring)
  | PreviewJsonOutput (po_model: PreviewModel) (po_generatedAt: jsstring) (po_etag: jsstring)

definition renderJsonPreview :: "SiteConfig \<Rightarrow> jsstring \<Rightarrow> jsstring \<Rightarrow> error + PreviewOutput" where
  "renderJsonPreview configJson generatedAtIso etag =
     bindE (mapE (\<lambda>page.
                    bindE (mapE sanitizeSection (filter isSectionAllowed (page_sections page)))
                      (\<lambda>sections. Inr (page\<lparr>page_sections := sections\<rparr>)))
              (cfg_pages configJson))
       (\<lambda>safePages.
          Inr (PreviewJsonOutput
                 \<lparr>pm_schemaVersion = schemaVersion configJson, pm_brand = cfg_brand configJson,
                  pm_theme = cfg_theme configJson, pm_pages = safePages\<rparr>
                 generatedAtIso etag))"

definition renderHtmlPreview :: "SiteConfig \<Rightarrow> jsstring \<Rightarrow> jsstring \<Rightarrow> error + PreviewOutput" where
  "renderHtmlPreview configJson generatedAtIso etag =
     bindE (buildHtmlDocument (cfg_brand configJson) (cfg_theme configJson) (cfg_pages configJson))
       (\<lambda>html. Inr (PreviewHtmlOutput html generatedAtIso etag))"

text \<open>
  \<open>render(config, format)\<close>; \<open>nowIso\<close> is \<open>new Date().toISOString()\<close> at the call.
\<close>

definition render ::
  "(jsstring \<Rightarrow> jsstring) \<Rightarrow> jsstring \<Rightarrow> SiteConfig \<Rightarrow> PreviewFormat \<Rightarrow> error + PreviewOutput" where
  "render sha256hex nowIso config format =
     (let etag = generateConfigETag sha256hex config
      in if format = Json then renderJsonPreview config nowIso etag
         else renderHtmlPreview config nowIso etag)"


section \<open>The environment of a call\<close>

text \<open>
  What the modelled code takes from outside the repository's sources under \<open>src\<close>:
  \<^item> \<open>parseDraft\<close>: \<open>JSON.parse\<close> followed by the reconstruction of the value objects of
    a draft in \<open>SiteDraft.fromJSON\<close> (\<open>None\<close> when either throws);
  \<^item> \<open>generateSlug\<close> of \<open>lib/slug.ts\<close>, which is not among the sources;
  \<^item> \<open>sha256hex\<close>: the hexadecimal SHA-256 digest of Node's \<open>crypto\<close>;
  \<^item> \<open>toISOString\<close> of \<open>Date\<close>.
  A \<open>Call\<close> holds what the environment supplies while one request runs: the time of
  the Redis server at which the commands of the request are served, the clock of the
  service (both in milliseconds), the text returned by \<open>uuidv4()\<close>, the instants printed
  into the config and into the preview, and the random tails of the identifiers that
  \<open>Project.generateId\<close> and \<open>ProjectConfig.generateId\<close> build.
\<close>

record Env =
  parseDraft :: "jsstring \<Rightarrow> SiteDraft option"
  generateSlug :: "jsstring \<Rightarrow> jsstring"
  sha256hex :: "jsstring \<Rightarrow> jsstring"
  toISOString :: "int \<Rightarrow> jsstring"

record Call =
  redisTime :: int
  clock :: int
  uuid :: jsstring
  generatedAtIso :: jsstring
  renderedAtIso :: jsstring
  projectIdTail :: jsstring
  configIdTail :: jsstring

section \<open>Redis\<close>

text \<open>
  The commands of Redis that the service sends, on a store that maps a key to its value
  and to the instant at which it expires, if any. A key whose instant has passed is
  gone, whether or not the server has already removed it.
\<close>

record RedisEntry =
  re_value :: jsstring
  re_expireAt :: "int option"

type_synonym redis = "jsstring \<Rightarrow> RedisEntry option"

definition redisLive :: "redis \<Rightarrow> int \<Rightarrow> jsstring \<Rightarrow> RedisEntry option" where
  "redisLive r now key =
     (case r key of
        None \<Rightarrow> None
      | Some e \<Rightarrow>
          (case re_expireAt e of
             None \<Rightarrow> Some e
           | Some t \<Rightarrow> if t < now then None else Some e))"

text \<open>\<open>GET key\<close>.\<close>

definition redis_get :: "redis \<Rightarrow> int \<Rightarrow> jsstring \<Rightarrow> jsstring option" where
  "redis_get r now key = map_option re_value (redisLive r now key)"

text \<open>\<open>SET key value EX seconds NX\<close>: the reply is \<open>OK\<close> (\<open>True\<close>) or nil.\<close>

definition redis_set_ex_nx :: "redis \<Rightarrow> int \<Rightarrow> jsstring \<Rightarrow> jsstring \<Rightarrow> int \<Rightarrow> bool \<times> redis" where
  "redis_set_ex_nx r now key v seconds =
     (case redisLive r now key of
        Some _ \<Rightarrow> (False, r)
      | None \<Rightarrow> (True, r(key \<mapsto> \<lparr>re_value = v, re_expireAt = Some (now + seconds * 1000)\<rparr>)))"

text \<open>\<open>EXPIRE key seconds\<close>; a timeout that is not positive deletes the key.\<close>

definition redis_expire :: "redis \<Rightarrow> int \<Rightarrow> jsstring \<Rightarrow> int \<Rightarrow> redis" where
  "redis_expire r now key seconds =
     (case redisLive r now key of
        None \<Rightarrow> r
      | Some e \<Rightarrow>
          if seconds \<le> 0 then r(key := None)
          else r(key \<mapsto> e\<lparr>re_expireAt := Some (now + seconds * 1000)\<rparr>))"

text \<open>\<open>DEL key\<close>.\<close>

definition redis_del :: "redis \<Rightarrow> jsstring \<Rightarrow> redis" where
  "redis_del r key = r(key := None)"


section \<open>DraftId and the Redis draft repository\<close>

definition isHexDigit :: "nat \<Rightarrow> bool" where
  "isHexDigit c \<longleftrightarrow> (48 \<le> c \<and> c \<le> 57) \<or> (65 \<le> c \<and> c \<le> 70) \<or> (97 \<le> c \<and> c \<le> 102)"

text \<open>
  The pattern of \<open>DraftId.isValid\<close>, one test per character:
  \<open>/^[0-9a-f]{8}-[0-9a-f]{4}-4[0-9a-f]{3}-[89ab][0-9a-f]{3}-[0-9a-f]{12}$/i\<close>.
\<close>

definition uuidPattern :: "(nat \<Rightarrow> bool) list" where
  "uuidPattern =
     replicate 8 isHexDigit @ [\<lambda>c. c = 45] @ replicate 4 isHexDigit @ [\<lambda>c. c = 45] @
     [\<lambda>c. c = 52] @ replicate 3 isHexDigit @ [\<lambda>c. c = 45] @
     [\<lambda>c. c = 56 \<or> c = 57 \<or> upperAscii c = 65 \<or> upperAscii c = 66] @ replicate 3 isHexDigit @
     [\<lambda>c. c = 45] @ replicate 12 isHexDigit"

definition DraftId_isValid :: "jsstring \<Rightarrow> bool" where
  "DraftId_isValid v \<longleftrightarrow> list_all2 (\<lambda>p c. p c) uuidPattern v"

definition DraftId_fromString :: "jsstring \<Rightarrow> error + jsstring" where
  "DraftId_fromString ident = (if DraftId_isValid ident then Inr ident else Inl (InvalidDraftId ident))"

text \<open>
  The constructor of \<open>SiteDraft\<close>. Its first check is
  \<open>!brandProfile.brandName || brandProfile.brandName.trim().length === 0\<close>. The class
  \<open>BrandProfile\<close> keeps its data in the private field \<open>props\<close> and declares no property
  \<open>brandName\<close> (the name is read with \<open>getBrandName()\<close>), so \<open>brandProfile.brandName\<close> is
  \<open>undefined\<close> for every brand profile: the constructor throws \<open>Brand name is required\<close>
  for every draft, before it looks at \<open>ttlSeconds\<close>.
\<close>

definition BrandProfile_brandName :: "BrandProfile \<Rightarrow> jsstring option" where
  "BrandProfile_brandName brandProfile = None"

definition SiteDraft_new :: "SiteDraft \<Rightarrow> error + SiteDraft" where
  "SiteDraft_new d =
     (case BrandProfile_brandName (d_brandProfile d) of
        None \<Rightarrow> Inl BrandNameRequired
      | Some n \<Rightarrow>
          if n = [] \<or> js_trim n = [] then Inl BrandNameRequired
          else if d_ttlSeconds d \<le> 0 then Inl TtlMustBePositive
          else Inr d)"

text \<open>\<open>SiteDraft.fromJSON(JSON.parse(data))\<close>; \<open>None\<close> when it throws.\<close>

definition deserialize :: "Env \<Rightarrow> jsstring \<Rightarrow> SiteDraft option" where
  "deserialize env data =
     (case parseDraft env data of
        None \<Rightarrow> None
      | Some d \<Rightarrow> (case SiteDraft_new d of Inl _ \<Rightarrow> None | Inr d' \<Rightarrow> Some d'))"

definition buildKey :: "jsstring \<Rightarrow> jsstring" where
  "buildKey ident = js ''draft:'' @ ident"

text \<open>
  \<open>findById(id, refreshTtl)\<close> of \<open>SiteDraftRepositoryRedis\<close>: the result and the store
  after the call. Data that do not deserialize are deleted.
\<close>

definition findById :: "Env \<Rightarrow> redis \<Rightarrow> int \<Rightarrow> jsstring \<Rightarrow> bool \<Rightarrow> SiteDraft option \<times> redis" where
  "findById env r now ident refreshTtl =
     (let key = buildKey ident in
      case redis_get r now key of
        None \<Rightarrow> (None, r)
      | Some data \<Rightarrow>
          if data = [] then (None, r)
          else
            let r1 =
                  (if refreshTtl then
                     (case deserialize env data of
                        Some draft \<Rightarrow> redis_expire r now key (d_ttlSeconds draft)
                      | None \<Rightarrow> r)
                   else r)
            in (case deserialize env data of
                  Some draft \<Rightarrow> (Some draft, r1)
                | None \<Rightarrow> (None, redis_del r1 key)))"

definition delete_draft :: "redis \<Rightarrow> jsstring \<Rightarrow> redis" where
  "delete_draft r ident = redis_del r (buildKey ident)"


section \<open>The use cases GetPreview and GetDraft\<close>





section \<open>Projects: the entities and the PostgreSQL repository\<close>

record ProjectOwner =
  userId :: jsstring
  tenantId :: "jsstring option"

record Project =
  projectId :: jsstring
  prj_owner :: ProjectOwner
  prj_draftId :: jsstring
  prj_createdAt :: int
  prj_updatedAt :: int
  prj_status :: jsstring

text \<open>The checks of the constructor of \<open>Project\<close>.\<close>

definition Project_new :: "Project \<Rightarrow> error + Project" where
  "Project_new p =
     (if projectId p = [] \<or> \<not> prefix (js ''prj_'') (projectId p) then Inl InvalidProjectIdFormat
      else if userId (prj_owner p) = [] then Inl OwnerUserIdRequired
      else Inr p)"

text \<open>
  \<open>Project.fromDraft(draftId, owner)\<close>; \<open>generateId\<close> puts a time stamp and random
  digits after \<open>prj_\<close>.
\<close>

definition Project_fromDraft :: "Call \<Rightarrow> jsstring \<Rightarrow> ProjectOwner \<Rightarrow> error + Project" where
  "Project_fromDraft call draftId owner =
     Project_new
       \<lparr>projectId = js ''prj_'' @ projectIdTail call, prj_owner = owner, prj_draftId = draftId,
        prj_createdAt = clock call, prj_updatedAt = clock call, prj_status = js ''DRAFT''\<rparr>"

record ProjectConfig =
  pc_configId :: jsstring
  pc_projectId :: jsstring
  pc_schemaVersion :: int
  pc_configVersion :: jsstring
  pc_templateId :: jsstring
  pc_templateVersion :: int
  pc_configJson :: json
  pc_configHash :: jsstring
  pc_createdAt :: int

definition ProjectConfig_new :: "ProjectConfig \<Rightarrow> error + ProjectConfig" where
  "ProjectConfig_new c =
     (if pc_configId c = [] \<or> \<not> prefix (js ''cfg_'') (pc_configId c) then Inl InvalidConfigIdFormat
      else if pc_projectId c = [] then Inl ProjectIdRequired
      else Inr c)"

text \<open>\<open>ProjectConfig.hashConfig\<close>: the whole digest of the JSON text.\<close>

definition hashConfig :: "Env \<Rightarrow> json \<Rightarrow> jsstring" where
  "hashConfig env configJson = sha256hex env (JSON_stringify configJson)"

text \<open>
  \<open>ProjectConfig.fromSiteConfig(projectId, siteConfig)\<close>: the stored config gets an
  identifier of its own, not the \<open>configId\<close> of the site config.
\<close>

definition ProjectConfig_fromSiteConfig ::
  "Env \<Rightarrow> Call \<Rightarrow> jsstring \<Rightarrow> SiteConfig \<Rightarrow> error + ProjectConfig" where
  "ProjectConfig_fromSiteConfig env call pid siteConfig =
     (let configJson = SiteConfig_toJSON siteConfig in
      ProjectConfig_new
        \<lparr>pc_configId = js ''cfg_'' @ configIdTail call,
         pc_projectId = pid,
         pc_schemaVersion = schemaVersion siteConfig,
         pc_configVersion = configVersion siteConfig,
         pc_templateId = g_templateId (cfg_generator siteConfig),
         pc_templateVersion = g_templateVersion (cfg_generator siteConfig),
         pc_configJson = configJson,
         pc_configHash = hashConfig env configJson,
         pc_createdAt = clock call\<rparr>)"

subsection \<open>The tables of migrations/001_create_projects_tables.sql\<close>

record ProjectRow =
  project_id :: jsstring
  owner_user_id :: jsstring
  owner_tenant_id :: "jsstring option"
  draft_id :: jsstring
  created_at :: int
  updated_at :: int
  status :: jsstring

record ConfigRow =
  config_id :: jsstring
  cr_project_id :: jsstring
  schema_version :: int
  config_version :: jsstring
  template_id :: jsstring
  template_version :: int
  config_json :: json
  config_hash :: jsstring
  cr_created_at :: int

record Db =
  projects :: "ProjectRow list"
  project_configs :: "ConfigRow list"

definition projectStatuses :: "jsstring list" where
  "projectStatuses = [js ''DRAFT'', js ''READY'', js ''PUBLISHED'', js ''ARCHIVED'']"

text \<open>
  \<open>INSERT INTO projects\<close> under the constraints of the table: the primary key, the
  unique \<open>draft_id\<close> and the check of \<open>status\<close>. A violation is the error of
  PostgreSQL, named by its code and its constraint.
\<close>

definition insertProject :: "Db \<Rightarrow> ProjectRow \<Rightarrow> error + Db" where
  "insertProject db row =
     (if \<exists>p \<in> set (projects db). project_id p = project_id row
        then Inl (PgError (js ''23505'') (js ''projects_pkey''))
      else if \<exists>p \<in> set (projects db). draft_id p = draft_id row
        then Inl (PgError (js ''23505'') (js ''projects_draft_id_unique''))
      else if status row \<notin> set projectStatuses
        then Inl (PgError (js ''23514'') (js ''projects_status_check''))
      else Inr (db\<lparr>projects := projects db @ [row]\<rparr>))"

text \<open>\<open>INSERT INTO project_configs\<close>: the primary key and the foreign key.\<close>

definition insertConfig :: "Db \<Rightarrow> ConfigRow \<Rightarrow> error + Db" where
  "insertConfig db row =
     (if \<exists>c \<in> set (project_configs db). config_id c = config_id row
        then Inl (PgError (js ''23505'') (js ''project_configs_pkey''))
      else if \<not> (\<exists>p \<in> set (projects db). project_id p = cr_project_id row)
        then Inl (PgError (js ''23503'') (js ''fk_project_configs_project''))
      else Inr (db\<lparr>project_configs := project_configs db @ [row]\<rparr>))"

text \<open>
  \<open>createProjectWithConfig\<close>: both rows in one transaction. An error rolls the
  transaction back, so the tables stay as they were; the violation of the unique
  \<open>draft_id\<close> is thrown again as a plain \<open>Error\<close>, every other error as it is.
\<close>

definition createProjectWithConfig ::
  "Db \<Rightarrow> Project \<Rightarrow> ProjectConfig \<Rightarrow> (error + Project \<times> ProjectConfig) \<times> Db" where
  "createProjectWithConfig db project config =
     (case bindE
             (insertProject db
                \<lparr>project_id = projectId project,
                 owner_user_id = userId (prj_owner project),
                 owner_tenant_id =
                   (case tenantId (prj_owner project) of
                      Some t \<Rightarrow> if t \<noteq> [] then Some t else None
                    | None \<Rightarrow> None),
                 draft_id = prj_draftId project,
                 created_at = prj_createdAt project,
                 updated_at = prj_updatedAt project,
                 status = prj_status project\<rparr>)
             (\<lambda>db1.
                insertConfig db1
                  \<lparr>config_id = pc_configId config,
                   cr_project_id = pc_projectId config,
                   schema_version = pc_schemaVersion config,
                   config_version = pc_configVersion config,
                   template_id = pc_templateId config,
                   template_version = pc_templateVersion config,
                   config_json = pc_configJson config,
                   config_hash = pc_configHash config,
                   cr_created_at = pc_createdAt config\<rparr>) of
        Inr db2 \<Rightarrow> (Inr (project, config), db2)
      | Inl e \<Rightarrow>
          (if e = PgError (js ''23505'') (js ''projects_draft_id_unique'')
           then (Inl (DraftAlreadyCommittedMessage (prj_draftId project)), db)
           else (Inl e, db)))"

definition mapRowToProject :: "ProjectRow \<Rightarrow> error + Project" where
  "mapRowToProject row =
     bindE (DraftId_fromString (draft_id row)) (\<lambda>draftId.
       Project_new
         \<lparr>projectId = project_id row,
          prj_owner = \<lparr>userId = owner_user_id row, tenantId = owner_tenant_id row\<rparr>,
          prj_draftId = draftId,
          prj_createdAt = created_at row,
          prj_updatedAt = updated_at row,
          prj_status = status row\<rparr>)"

definition mapRowToConfig :: "ConfigRow \<Rightarrow> error + ProjectConfig" where
  "mapRowToConfig row =
     ProjectConfig_new
       \<lparr>pc_configId = config_id row,
        pc_projectId = cr_project_id row,
        pc_schemaVersion = schema_version row,
        pc_configVersion = config_version row,
        pc_templateId = template_id row,
        pc_templateVersion = template_version row,
        pc_configJson = config_json row,
        pc_configHash = config_hash row,
        pc_createdAt = cr_created_at row\<rparr>"

text \<open>\<open>SELECT * FROM projects WHERE draft_id = $1\<close>, first row.\<close>

definition findProjectByDraftId :: "Db \<Rightarrow> jsstring \<Rightarrow> error + Project option" where
  "findProjectByDraftId db draftId =
     (case find (\<lambda>p. draft_id p = draftId) (projects db) of
        None \<Rightarrow> Inr None
      | Some row \<Rightarrow> bindE (mapRowToProject row) (\<lambda>p. Inr (Some p)))"

text \<open>
  The row that \<open>ORDER BY created_at DESC LIMIT 1\<close> picks: one with the latest
  \<open>created_at\<close> (among several such rows SQL leaves the choice open; the model takes the
  first in table order).
\<close>

fun latestConfig :: "ConfigRow list \<Rightarrow> ConfigRow option" where
  "latestConfig [] = None"
| "latestConfig (c # cs) =
     (case latestConfig cs of
        None \<Rightarrow> Some c
      | Some d \<Rightarrow> if cr_created_at c \<ge> cr_created_at d then Some c else Some d)"

definition getProjectConfig :: "Db \<Rightarrow> jsstring \<Rightarrow> error + ProjectConfig option" where
  "getProjectConfig db pid =
     (case latestConfig (filter (\<lambda>c. cr_project_id c = pid) (project_configs db)) of
        None \<Rightarrow> Inr None
      | Some row \<Rightarrow> bindE (mapRowToConfig row) (\<lambda>c. Inr (Some c)))"

section \<open>application/usecases/CommitDraftUseCase.ts\<close>

record State =
  redisOf :: redis
  dbOf :: Db

record CommitDraftInput =
  in_draftId :: jsstring
  in_owner :: ProjectOwner

datatype CommitStatus = MIGRATED | ALREADY_COMMITTED

record CommitDraftOutput =
  out_draftId :: jsstring
  out_projectId :: jsstring
  out_configId :: jsstring
  out_status :: CommitStatus
  out_project :: Project
  out_config :: "ProjectConfig option"

definition commitLockTtl :: int where
  "commitLockTtl = 30"

text \<open>\<open>SET lockKey 1 EX 30 NX\<close>.\<close>

definition acquireLock :: "redis \<Rightarrow> int \<Rightarrow> jsstring \<Rightarrow> bool \<times> redis" where
  "acquireLock r now lockKey = redis_set_ex_nx r now lockKey (js ''1'') commitLockTtl"

definition releaseLock :: "redis \<Rightarrow> jsstring \<Rightarrow> redis" where
  "releaseLock r lockKey = redis_del r lockKey"

definition lockKeyOf :: "jsstring \<Rightarrow> jsstring" where
  "lockKeyOf draftId = js ''lock:commit:'' @ draftId"

text \<open>
  The \<open>projectRepository\<close> that the use case is constructed with: the PostgreSQL
  repository of the sources, or \<open>null\<close>. \<open>DIContainer\<close> passes \<open>null as any\<close> (its comment
  says that the repository will be implemented later); a method call on \<open>null\<close> throws a
  \<open>TypeError\<close>. With \<open>null\<close> the tables are never read or written.
\<close>

datatype ProjectRepository = ProjectRepositoryPostgres | NullRepository

text \<open>
  The body of the \<open>try\<close> block of \<open>execute\<close>: the result, or the exception thrown, and the
  state at that point.
\<close>

definition commitTry ::
  "Env \<Rightarrow> ProjectRepository \<Rightarrow> Call \<Rightarrow> State \<Rightarrow> CommitDraftInput \<Rightarrow> jsstring \<Rightarrow>
     (error + CommitDraftOutput) \<times> State" where
  "commitTry env projectRepository call s input draftId =
     (let lockKey = lockKeyOf draftId in
      case acquireLock (redisOf s) (redisTime call) lockKey of
        (False, r1) \<Rightarrow> (Inl (CommitLockError (in_draftId input)), s\<lparr>redisOf := r1\<rparr>)
      | (True, r1) \<Rightarrow>
          (case (if projectRepository = NullRepository then Inl TypeError
                 else findProjectByDraftId (dbOf s) draftId) of
             Inl e \<Rightarrow> (Inl e, s\<lparr>redisOf := r1\<rparr>)
           | Inr (Some existingProject) \<Rightarrow>
               (case getProjectConfig (dbOf s) (projectId existingProject) of
                  Inl e \<Rightarrow> (Inl e, s\<lparr>redisOf := r1\<rparr>)
                | Inr existingConfig \<Rightarrow>
                    (Inr \<lparr>out_draftId = in_draftId input,
                          out_projectId = projectId existingProject,
                          out_configId =
                            (case existingConfig of Some c \<Rightarrow> pc_configId c | None \<Rightarrow> []),
                          out_status = ALREADY_COMMITTED,
                          out_project = existingProject,
                          out_config = existingConfig\<rparr>,
                     s\<lparr>redisOf := r1\<rparr>))
           | Inr None \<Rightarrow>
               (case findById env r1 (redisTime call) draftId False of
                  (None, r2) \<Rightarrow> (Inl (DraftNotFoundError (in_draftId input)), s\<lparr>redisOf := r2\<rparr>)
                | (Some draft, r2) \<Rightarrow>
                    if isExpired draft (clock call)
                    then (Inl (DraftExpiredError (in_draftId input)), s\<lparr>redisOf := r2\<rparr>)
                    else
                      (case bindE (generate (generateSlug env) (uuid call) (generatedAtIso call) draft)
                              (\<lambda>siteConfig.
                                 bindE (Project_fromDraft call draftId (in_owner input))
                                   (\<lambda>project.
                                      bindE (ProjectConfig_fromSiteConfig env call (projectId project)
                                               siteConfig)
                                        (\<lambda>projectConfig. Inr (project, projectConfig)))) of
                         Inl e \<Rightarrow> (Inl e, s\<lparr>redisOf := r2\<rparr>)
                       | Inr (project, projectConfig) \<Rightarrow>
                           (case createProjectWithConfig (dbOf s) project projectConfig of
                              (Inl e, db') \<Rightarrow> (Inl e, \<lparr>redisOf = r2, dbOf = db'\<rparr>)
                            | (Inr (savedProject, savedConfig), db') \<Rightarrow>
                                (Inr \<lparr>out_draftId = in_draftId input,
                                      out_projectId = projectId savedProject,
                                      out_configId = pc_configId savedConfig,
                                      out_status = MIGRATED,
                                      out_project = savedProject,
                                      out_config = Some savedConfig\<rparr>,
                                 \<lparr>redisOf = releaseLock (delete_draft r2 draftId) lockKey,
                                  dbOf = db'\<rparr>))))))"

text \<open>
  \<open>execute(input)\<close>: \<open>DraftId.fromString\<close> runs before the \<open>try\<close>; the \<open>catch\<close> clause
  releases the lock and throws the error again.
\<close>

definition CommitDraft ::
  "Env \<Rightarrow> ProjectRepository \<Rightarrow> Call \<Rightarrow> State \<Rightarrow> CommitDraftInput \<Rightarrow>
     (error + CommitDraftOutput) \<times> State" where
  "CommitDraft env projectRepository call s input =
     (case DraftId_fromString (in_draftId input) of
        Inl e \<Rightarrow> (Inl e, s)
      | Inr draftId \<Rightarrow>
          (case commitTry env projectRepository call s input draftId of
             (Inr out, s') \<Rightarrow> (Inr out, s')
           | (Inl e, s') \<Rightarrow> (Inl e, s'\<lparr>redisOf := releaseLock (redisOf s') (lockKeyOf draftId)\<rparr>)))"

section \<open>The double escaping that C10 describes\<close>

text \<open>
  What C10 says the built-in renderer emits, written down from the claim's words so that
  it can be compared with the renderer above: a string of the props is escaped twice,
  and the section builders are applied to the props as the config holds them. The
  builders below are those of the source except that each \<open>escapeHtml\<close> of a value read
  from the props is an \<open>escapeTwice\<close>.
\<close>

definition escapedTwice :: "nat \<Rightarrow> jsstring" where
  \<open>escapedTwice c =
     (if c = 38 then js ''&amp;amp;''
      else if c = 60 then js ''&amp;lt;''
      else if c = 62 then js ''&amp;gt;''
      else if c = 34 then js ''&amp;quot;''
      else if c = 39 then js ''&amp;#039;''
      else [c])\<close>

definition escapeTwice :: "jsstring \<Rightarrow> jsstring" where
  "escapeTwice s = concat (map escapedTwice s)"

fun escapeTwiceOf :: "json \<Rightarrow> error + jsstring" where
  "escapeTwiceOf (JStr s) = Inr (escapeTwice s)"
| "escapeTwiceOf v = Inl TypeError"

definition renderCtaTwice :: "json \<Rightarrow> error + jsstring" where
  \<open>renderCtaTwice cta =
     (if truthy cta then
        bindE (getProp cta (js ''href'')) (\<lambda>href.
        bindE (escapeTwiceOf href) (\<lambda>escapedHref.
        bindE (getProp cta (js ''text'')) (\<lambda>txt.
        bindE (escapeTwiceOf txt) (\<lambda>escapedText.
          Inr (concat
            [js ''<a href="'', escapedHref, js ''" class="cta-button">'', escapedText,
             js ''</a>''])))))
      else Inr [])\<close>

definition renderHeroSectionTwice :: "json \<Rightarrow> BrandInfo \<Rightarrow> error + jsstring" where
  \<open>renderHeroSectionTwice props brand =
     bindE (getProp props (js ''headline'')) (\<lambda>h.
     bindE (escapeTwiceOf (orElse h (JStr []))) (\<lambda>headline.
     bindE (getProp props (js ''subheadline'')) (\<lambda>sh.
     bindE (escapeTwiceOf (orElse sh (JStr []))) (\<lambda>subheadline.
     bindE (getProp props (js ''primaryCta'')) (\<lambda>primaryCta.
     bindE (getProp props (js ''secondaryCta'')) (\<lambda>secondaryCta.
       let logoUrl =
             (case b_logo brand of
                Some l \<Rightarrow> if bl_url l \<noteq> [] then escapeHtml (bl_url l) else []
              | None \<Rightarrow> [])
       in
       bindE (renderCtaTwice primaryCta) (\<lambda>primaryHtml.
       bindE (renderCtaTwice secondaryCta) (\<lambda>secondaryHtml.
         Inr (concat
           [[10] @
            js ''  <section class="hero">'' @ [10] @
            js ''    <div class="container">'' @ [10] @
            js ''      '',
            (if logoUrl \<noteq> []
             then js ''<img src="'' @ logoUrl @
                  js ''" alt="Logo" style="height: 80px; margin-bottom: 2rem;">''
             else []),
            [10] @
            js ''      <h1>'',
            headline,
            js ''</h1>'' @ [10] @
            js ''      <p>'',
            subheadline,
            js ''</p>'' @ [10] @
            js ''      <div>'' @ [10] @
            js ''        '',
            primaryHtml,
            [10] @
            js ''        '',
            secondaryHtml,
            [10] @
            js ''      </div>'' @ [10] @
            js ''    </div>'' @ [10] @
            js ''  </section>''])))))))))\<close>

definition renderFeatureItemTwice :: "json \<Rightarrow> error + jsstring" where
  \<open>renderFeatureItemTwice item =
     bindE (getProp item (js ''title'')) (\<lambda>t.
     bindE (escapeTwiceOf (orElse t (JStr []))) (\<lambda>itemTitle.
     bindE (getProp item (js ''text'')) (\<lambda>tx.
     bindE (getProp item (js ''description'')) (\<lambda>d.
     bindE (escapeTwiceOf (orElse (orElse tx d) (JStr []))) (\<lambda>itemText.
       Inr (concat
             [[10] @
              js ''        <div class="feature-card">'' @ [10] @
              js ''          <h3>'',
              itemTitle,
              js ''</h3>'' @ [10] @
              js ''          <p>'',
              itemText,
              js ''</p>'' @ [10] @
              js ''        </div>'' @ [10] @
              js ''      '']))))))\<close>

definition renderFeaturesSectionTwice :: "json \<Rightarrow> error + jsstring" where
  \<open>renderFeaturesSectionTwice props =
     bindE (getProp props (js ''title'')) (\<lambda>t.
     bindE (escapeTwiceOf (orElse t (JStr []))) (\<lambda>title.
     bindE (getProp props (js ''items'')) (\<lambda>its.
       let items = (case its of JArr xs \<Rightarrow> xs | _ \<Rightarrow> []) in
       bindE (mapE renderFeatureItemTwice items) (\<lambda>itemHtmls.
         let itemsHtml = concat itemHtmls in
         Inr (concat
               [[10] @
                js ''  <section class="section">'' @ [10] @
                js ''    <div class="container">'' @ [10] @
                js ''      <h2 class="section-title">'',
                title,
                js ''</h2>'' @ [10] @
                js ''      <div class="features-grid">'' @ [10] @
                js ''        '',
                itemsHtml,
                [10] @
                js ''      </div>'' @ [10] @
                js ''    </div>'' @ [10] @
                js ''  </section>''])))))\<close>

definition renderAboutSectionTwice :: "json \<Rightarrow> error + jsstring" where
  \<open>renderAboutSectionTwice props =
     bindE (getProp props (js ''title'')) (\<lambda>t.
     bindE (escapeTwiceOf (orElse t (JStr []))) (\<lambda>title.
     bindE (getProp props (js ''text'')) (\<lambda>tx.
     bindE (getProp props (js ''body'')) (\<lambda>b.
     bindE (escapeTwiceOf (orElse (orElse tx b) (JStr []))) (\<lambda>aboutText.
       Inr (concat
             [[10] @
              js ''  <section class="section about">'' @ [10] @
              js ''    <div class="container">'' @ [10] @
              js ''      <h2 class="section-title">'',
              title,
              js ''</h2>'' @ [10] @
              js ''      <p>'',
              aboutText,
              js ''</p>'' @ [10] @
              js ''    </div>'' @ [10] @
              js ''  </section>'']))))))\<close>

definition renderContactSectionTwice :: "json \<Rightarrow> error + jsstring" where
  \<open>renderContactSectionTwice props =
     bindE (getProp props (js ''title'')) (\<lambda>t.
     bindE (escapeTwiceOf (orElse t (JStr []))) (\<lambda>title.
     bindE (getProp props (js ''subtitle'')) (\<lambda>st.
     bindE (escapeTwiceOf (orElse st (JStr []))) (\<lambda>subtitle.
       Inr (concat
             [[10] @
              js ''  <section class="section contact">'' @ [10] @
              js ''    <div class="container">'' @ [10] @
              js ''      <h2 class="section-title">'',
              title,
              js ''</h2>'' @ [10] @
              js ''      <p class="contact-subtitle">'',
              subtitle,
              js ''</p>'' @ [10] @
              js ''      <p style="color: #6c757d;">'' @ [1060, 1086, 1088, 1084, 1072] @
                js '' '' @ [1086, 1073, 1088, 1072, 1090, 1085, 1086, 1081] @ js '' '' @
                [1089, 1074, 1103, 1079, 1080] @ js '' '' @ [1073, 1091, 1076, 1077, 1090] @
                js '' '' @ [1076, 1086, 1073, 1072, 1074, 1083, 1077, 1085, 1072] @ js '' '' @
                [1087, 1086, 1089, 1083, 1077] @ js '' '' @
                [1087, 1091, 1073, 1083, 1080, 1082, 1072, 1094, 1080, 1080] @ js ''.</p>'' @ [10] @
              js ''    </div>'' @ [10] @
              js ''  </section>''])))))\<close>

definition renderFooterSectionTwice :: "json \<Rightarrow> error + jsstring" where
  \<open>renderFooterSectionTwice props =
     bindE (getProp props (js ''copyright'')) (\<lambda>c.
     bindE (escapeTwiceOf (orElse c (JStr []))) (\<lambda>copyright.
       Inr (concat
             [[10] @
              js ''  <footer>'' @ [10] @
              js ''    <div class="container">'' @ [10] @
              js ''      <p>'',
              copyright,
              js ''</p>'' @ [10] @
              js ''    </div>'' @ [10] @
              js ''  </footer>''])))\<close>

definition renderSectionTwice :: "SectionProps \<Rightarrow> BrandInfo \<Rightarrow> ThemeConfig \<Rightarrow> error + jsstring" where
  "renderSectionTwice section brand theme =
     (if containsUnsafeContent (JSON_stringify (sectionJson section))
      then Inl (UnsafeContent (sec_id section))
      else
        let props = sec_props section in
        if sec_type section = js ''hero'' then renderHeroSectionTwice props brand
        else if sec_type section = js ''features'' \<or> sec_type section = js ''services''
          then renderFeaturesSectionTwice props
        else if sec_type section = js ''about'' then renderAboutSectionTwice props
        else if sec_type section = js ''contact'' then renderContactSectionTwice props
        else if sec_type section = js ''footer'' then renderFooterSectionTwice props
        else Inr [])"

text \<open>
  For C6: the config without the sections whose type is outside the whitelist.
\<close>

definition withoutDisallowedSections :: "SiteConfig \<Rightarrow> SiteConfig" where
  "withoutDisallowedSections config =
     config\<lparr>cfg_pages :=
       map (\<lambda>page. page\<lparr>page_sections := filter isSectionAllowed (page_sections page)\<rparr>)
         (cfg_pages config)\<rparr>"

section \<open>Concrete inputs\<close>

text \<open>
  The inputs at which the theorems below are evaluated: a draft of the industry \<open>tech\<close>
  without a logo and with a time to live of one day, under a given brand name, given
  field by field; the brand name of scenario 3 of the spec; and an environment in which
  every stored text parses as the example draft named by that text, every brand name has
  the slug \<open>acme\<close>, and the digest and the printed instants are empty.
\<close>

definition exampleDraftId :: jsstring where
  "exampleDraftId = js ''123e4567-e89b-42d3-a456-426614174000''"

definition exampleDraft :: "jsstring \<Rightarrow> SiteDraft" where
  "exampleDraft brandName =
     \<lparr>d_schemaVersion = 1,
      d_draftId = exampleDraftId,
      d_status = js ''DRAFT'',
      d_createdAt = 0,
      d_updatedAt = 0,
      d_expiresAt = 86400000,
      d_ttlSeconds = 86400,
      d_brandProfile =
        \<lparr>bp_schemaVersion = 1, bp_brandName = brandName, bp_industryCode = js ''tech'',
         bp_industryLabel = [1058, 1077, 1093, 1085, 1086, 1083, 1086, 1075, 1080, 1080],
         bp_logo = None\<rparr>,
      d_generator =
        \<lparr>gi_engine = js ''configurator_site'', gi_engineVersion = js ''0.1.0'',
         gi_templateId = js ''default'', gi_locale = Some (js ''ru-RU'')\<rparr>\<rparr>"

definition xssBrandName :: jsstring where
  "xssBrandName = js ''Tech<script>alert('' @ [39] @ js ''xss'' @ [39] @ js '')</script>Corp''"

definition exampleEnv :: Env where
  "exampleEnv =
     \<lparr>parseDraft = (\<lambda>data. Some (exampleDraft data)),
      generateSlug = (\<lambda>name. js ''acme''),
      sha256hex = (\<lambda>content. []),
      toISOString = (\<lambda>instant. [])\<rparr>"

text \<open>
  A call at the instant 1000 of both clocks; a commit request for the example draft id; a
  Redis store that holds a text under the key of the example draft, with a day to live;
  a store in which another commit holds the lock of that draft; the empty tables; tables
  in which the draft has been committed; and the states made of them.
\<close>

definition exampleCall :: Call where
  "exampleCall =
     \<lparr>redisTime = 1000, clock = 1000, uuid = js ''9f1c2d3e-4b5a-4c6d-8e7f-0a1b2c3d4e5f'',
      generatedAtIso = js ''1970-01-01T00:00:01.000Z'',
      renderedAtIso = js ''1970-01-01T00:00:01.000Z'',
      projectIdTail = js ''1s0abc'', configIdTail = js ''1s0def''\<rparr>"

definition exampleInput :: CommitDraftInput where
  "exampleInput =
     \<lparr>in_draftId = exampleDraftId, in_owner = \<lparr>userId = js ''user_1'', tenantId = None\<rparr>\<rparr>"

definition draftStore :: redis where
  "draftStore =
     (\<lambda>key. if key = buildKey exampleDraftId
            then Some \<lparr>re_value = js ''{}'', re_expireAt = Some 86400000\<rparr> else None)"

definition lockedStore :: redis where
  "lockedStore =
     (\<lambda>key. if key = lockKeyOf exampleDraftId
            then Some \<lparr>re_value = js ''1'', re_expireAt = Some 30000\<rparr> else None)"

definition emptyDb :: Db where
  "emptyDb = \<lparr>projects = [], project_configs = []\<rparr>"

definition committedDb :: Db where
  "committedDb =
     \<lparr>projects =
        [\<lparr>project_id = js ''prj_1'', owner_user_id = js ''user_1'', owner_tenant_id = None,
          draft_id = exampleDraftId, created_at = 0, updated_at = 0, status = js ''DRAFT''\<rparr>],
      project_configs =
        [\<lparr>config_id = js ''cfg_1'', cr_project_id = js ''prj_1'', schema_version = 1,
          config_version = js ''1.0.0'', template_id = js ''it_services'', template_version = 1,
          config_json = JObj [], config_hash = [], cr_created_at = 0\<rparr>]\<rparr>"

definition lockedState :: State where
  "lockedState = \<lparr>redisOf = lockedStore, dbOf = emptyDb\<rparr>"

definition committedState :: State where
  "committedState = \<lparr>redisOf = draftStore, dbOf = committedDb\<rparr>"


definition committedProject :: Project where
  "committedProject =
     \<lparr>projectId = js ''prj_1'', prj_owner = \<lparr>userId = js ''user_1'', tenantId = None\<rparr>,
      prj_draftId = exampleDraftId, prj_createdAt = 0, prj_updatedAt = 0,
      prj_status = js ''DRAFT''\<rparr>"

definition committedConfig :: ProjectConfig where
  "committedConfig =
     \<lparr>pc_configId = js ''cfg_1'', pc_projectId = js ''prj_1'', pc_schemaVersion = 1,
      pc_configVersion = js ''1.0.0'', pc_templateId = js ''it_services'',
      pc_templateVersion = 1, pc_configJson = JObj [], pc_configHash = [], pc_createdAt = 0\<rparr>"

section \<open>Texts without markup\<close>

text \<open>
  Notions used in the proofs only: a text in which none of \<open><\<close>, \<open>=\<close>, \<open>J\<close> and \<open>j\<close> occurs,
  a JSON value all of whose strings and keys are such texts, and a token context all of
  whose values are.
\<close>

definition markupFree :: "jsstring \<Rightarrow> bool" where
  "markupFree s \<longleftrightarrow> 60 \<notin> set s \<and> 61 \<notin> set s \<and> 74 \<notin> set s \<and> 106 \<notin> set s"

fun markupFreeJson :: "json \<Rightarrow> bool" where
  "markupFreeJson (JStr s) = markupFree s"
| "markupFreeJson (JArr xs) = (\<forall>x \<in> set xs. markupFreeJson x)"
| "markupFreeJson (JObj kvs) = (\<forall>(k, v) \<in> set kvs. markupFree k \<and> markupFreeJson v)"
| "markupFreeJson v = True"

definition markupFreeContext :: "TokenContext \<Rightarrow> bool" where
  "markupFreeContext context \<longleftrightarrow>
     markupFree (ctx_brandName context) \<and> markupFree (ctx_industryLabel context) \<and>
     (case ctx_logoUrl context of None \<Rightarrow> True | Some u \<Rightarrow> markupFree u) \<and>
     markupFree (ctx_slug context)"

section \<open>Properties of the value objects\<close>

lemma BrandName_create_Inr_iff:
  "BrandName_create s = Inr b \<longleftrightarrow> b = js_trim s \<and> 1 \<le> length b \<and> length b \<le> 100"
  by (cases "js_trim s")
     (auto simp: BrandName_create_def BrandName_validate_def MIN_LENGTH_def MAX_LENGTH_def Let_def)

text \<open>
  C7, as the spec states it, fails: the brand name that \<open>CreateDraft\<close> and \<open>UpdateDraft\<close>
  store is built by \<open>BrandName.create\<close>, which only trims and checks the length. The
  input \<open>"  Acme\x00  \t\tCo  "\<close> is stored with its NUL, its two spaces and its two
  tabs, not as \<open>"Acme Co"\<close>.
\<close>

theorem BrandName_create_acme_counterexample:
  "BrandName_create ([32, 32] @ js ''Acme'' @ [0, 32, 32, 9, 9] @ js ''Co'' @ [32, 32])
     \<noteq> Inr (js ''Acme Co'')"
  by (simp add: BrandName_create_def BrandName_validate_def js_trim_def js_def isWhiteSpace_def
      MIN_LENGTH_def MAX_LENGTH_def)

text \<open>
  C7, amended: \<open>BrandName.create\<close> succeeds exactly when the trimmed input has between 1
  and 100 code units, and then stores the trimmed input unchanged; an empty or a longer
  result is rejected (nothing is truncated, no control character is dropped, no inner
  white space is collapsed). The input \<open>"  Acme\x00  \t\tCo  "\<close> is stored as
  \<open>"Acme\x00  \t\tCo"\<close>. Dropping the control characters, collapsing white space and
  cutting at 100 code units is what \<open>normalizeBrandName\<close> of the generator does to the
  stored name when a config is generated: it turns that stored name into \<open>"Acme Co"\<close>.
\<close>

theorem BrandName_create_trims_and_validates:
  "(BrandName_create s = Inr b \<longleftrightarrow> b = js_trim s \<and> 1 \<le> length b \<and> length b \<le> 100) \<and>
   (BrandName_create s = Inl BrandNameEmpty \<longleftrightarrow> js_trim s = []) \<and>
   (BrandName_create s = Inl BrandNameTooLong \<longleftrightarrow> 100 < length (js_trim s)) \<and>
   BrandName_create ([32, 32] @ js ''Acme'' @ [0, 32, 32, 9, 9] @ js ''Co'' @ [32, 32])
     = Inr (js ''Acme'' @ [0, 32, 32, 9, 9] @ js ''Co'') \<and>
   normalizeBrandName (js ''Acme'' @ [0, 32, 32, 9, 9] @ js ''Co'') = js ''Acme Co''"
proof -
  have ex1: "BrandName_create ([32, 32] @ js ''Acme'' @ [0, 32, 32, 9, 9] @ js ''Co'' @ [32, 32])
     = Inr (js ''Acme'' @ [0, 32, 32, 9, 9] @ js ''Co'')"
    by (simp add: BrandName_create_def BrandName_validate_def js_trim_def js_def isWhiteSpace_def
        MIN_LENGTH_def MAX_LENGTH_def)
  have ex2: "normalizeBrandName (js ''Acme'' @ [0, 32, 32, 9, 9] @ js ''Co'') = js ''Acme Co''"
    by (simp add: normalizeBrandName_def js_trim_def js_def isWhiteSpace_def isControl_def
        substring0_def)
  have e: "BrandName_create s = Inl BrandNameEmpty \<longleftrightarrow> js_trim s = []"
    by (cases "js_trim s")
       (auto simp: BrandName_create_def BrandName_validate_def MIN_LENGTH_def MAX_LENGTH_def Let_def)
  have l: "BrandName_create s = Inl BrandNameTooLong \<longleftrightarrow> 100 < length (js_trim s)"
    by (cases "js_trim s")
       (auto simp: BrandName_create_def BrandName_validate_def MIN_LENGTH_def MAX_LENGTH_def Let_def)
  note r = BrandName_create_Inr_iff [of s b]
  show ?thesis
    by (intro conjI) (fact r e l ex1 ex2)+
qed

theorem BrandName_create_trims_and_validates_witness:
  "BrandName_create (js '' Acme '') = Inr (js ''Acme'')"
  using BrandName_create_trims_and_validates [of "js '' Acme ''" "js ''Acme''"]
  by (simp add: js_trim_def js_def isWhiteSpace_def)

text \<open>
  \<open>IndustryInfo.create\<close> by itself keeps every non-empty code as it is given and has no
  mapping to \<open>other\<close>.
\<close>

lemma IndustryInfo_create_keeps_code:
  assumes "code \<noteq> []"
  shows "\<exists>i. IndustryInfo_create code lbl = Inr i \<and> ii_code i = code"
  using assms by (simp add: IndustryInfo_create_def IndustryInfo_validate_def Let_def)

lemma industrySchema_codes_eq: "set industrySchema_codes = set industryCodes"
  by (simp add: industrySchema_codes_def industryCodes_def INDUSTRY_MAP_def)

lemma industrySchema_codes_nonempty: "code \<in> set industrySchema_codes \<Longrightarrow> code \<noteq> []"
  by (auto simp: industrySchema_codes_def js_def)

text \<open>
  C8, as the spec states it, fails: a request whose industry code is \<open>unknown\<close>, a code
  outside the closed set, is not given the code \<open>other\<close>. The schema of the request
  refuses it, the controller answers 400, and no \<open>IndustryInfo\<close> is built.
\<close>

theorem unknown_industry_counterexample:
  "js ''unknown'' \<notin> set industryCodes \<and>
   DraftController_industry (js ''unknown'') None = Inl ZodError"
  by (simp add: DraftController_industry_def industrySchema_parse_def industrySchema_codes_def
      industryCodes_def INDUSTRY_MAP_def js_def)

text \<open>
  C8, amended: the codes that the schema of a request accepts are the nine codes of the
  closed set, which are the keys of \<open>INDUSTRY_MAP\<close>. A request with a code outside the
  set is refused with a validation error, whatever its label, and is not mapped to
  \<open>other\<close>; a request with a code of the set gives an \<open>IndustryInfo\<close> with that very
  code. So the code of an \<open>IndustryInfo\<close> built from a request is always in the set.
\<close>

theorem request_industry_code_is_checked:
  "set industrySchema_codes = set industryCodes \<and>
   set industryCodes =
     {js ''tech'', js ''finance'', js ''healthcare'', js ''retail'', js ''education'',
      js ''real-estate'', js ''consulting'', js ''restaurant'', js ''other''} \<and>
   (code \<notin> set industryCodes \<longrightarrow> DraftController_industry code lbl = Inl ZodError) \<and>
   (code \<in> set industryCodes \<longrightarrow>
      (\<exists>i. DraftController_industry code lbl = Inr i \<and> ii_code i = code)) \<and>
   (\<forall>i. DraftController_industry code lbl = Inr i \<longrightarrow>
      ii_code i = code \<and> ii_code i \<in> set industryCodes)"
proof -
  have a: "set industrySchema_codes = set industryCodes"
    by (rule industrySchema_codes_eq)
  have b: "set industryCodes =
     {js ''tech'', js ''finance'', js ''healthcare'', js ''retail'', js ''education'',
      js ''real-estate'', js ''consulting'', js ''restaurant'', js ''other''}"
    by (simp add: industryCodes_def INDUSTRY_MAP_def)
  have c: "DraftController_industry code lbl = Inl ZodError" if "code \<notin> set industryCodes"
    using that by (simp add: DraftController_industry_def industrySchema_parse_def a)
  have d: "\<exists>i. DraftController_industry code lbl = Inr i \<and> ii_code i = code"
    if "code \<in> set industryCodes"
  proof -
    have "code \<in> set industrySchema_codes"
      using that by (simp add: a)
    then show ?thesis
      using IndustryInfo_create_keeps_code [OF industrySchema_codes_nonempty, of code lbl]
      by (simp add: DraftController_industry_def industrySchema_parse_def)
  qed
  have e: "ii_code i = code \<and> ii_code i \<in> set industryCodes"
    if "DraftController_industry code lbl = Inr i" for i
  proof (cases "code \<in> set industryCodes")
    case True
    then show ?thesis
      using d that by auto
  next
    case False
    then show ?thesis
      using c that by simp
  qed
  show ?thesis
    using a b c d e by blast
qed

theorem request_industry_code_is_checked_witness:
  "js ''unknown'' \<notin> set industryCodes \<and>
   DraftController_industry (js ''unknown'') (Some (js ''Unknown'')) = Inl ZodError \<and>
   js ''tech'' \<in> set industryCodes \<and>
   (\<exists>i. DraftController_industry (js ''tech'') None = Inr i \<and> ii_code i = js ''tech'' \<and>
        ii_code i \<in> set industryCodes)"
proof -
  have u: "js ''unknown'' \<notin> set industryCodes"
    by (simp add: industryCodes_def INDUSTRY_MAP_def js_def)
  have t: "js ''tech'' \<in> set industryCodes"
    by (simp add: industryCodes_def INDUSTRY_MAP_def)
  note unknown = request_industry_code_is_checked [of "js ''unknown''" "Some (js ''Unknown'')"]
  note tech = request_industry_code_is_checked [of "js ''tech''" None]
  have a: "DraftController_industry (js ''unknown'') (Some (js ''Unknown'')) = Inl ZodError"
    using unknown [THEN conjunct2, THEN conjunct2, THEN conjunct1] u by (rule mp)
  have "\<exists>i. DraftController_industry (js ''tech'') None = Inr i \<and> ii_code i = js ''tech''"
    using tech [THEN conjunct2, THEN conjunct2, THEN conjunct2, THEN conjunct1] t by (rule mp)
  then obtain i where
    i: "DraftController_industry (js ''tech'') None = Inr i" "ii_code i = js ''tech''"
    by (elim exE conjE)
  have b: "\<exists>i. DraftController_industry (js ''tech'') None = Inr i \<and> ii_code i = js ''tech'' \<and>
        ii_code i \<in> set industryCodes"
    using i t by (intro exI [of _ i] conjI) simp_all
  show ?thesis
    using u a t b by (intro conjI)
qed

section \<open>Escaping in the built-in renderer\<close>

lemma replaceUnit_Nil_iff: "r \<noteq> [] \<Longrightarrow> replaceUnit c r s = [] \<longleftrightarrow> s = []"
  by (cases s) (auto simp: replaceUnit_def)

lemma escapeHtml_Nil_iff: "escapeHtml s = [] \<longleftrightarrow> s = []"
  by (simp add: escapeHtml_def replaceUnit_Nil_iff js_def)

lemma truthy_escapeHtmlInObject: "truthy (escapeHtmlInObject v) = truthy v"
  by (cases v) (simp_all add: escapeHtml_Nil_iff)

lemma map_of_map_value: "map_of (map (\<lambda>(k, v). (k, f v)) kvs) k = map_option f (map_of kvs k)"
  by (induction kvs) auto

lemma getProp_escapeHtmlInObject:
  "getProp (escapeHtmlInObject v) k = map_sum id escapeHtmlInObject (getProp v k)"
  by (cases v) (simp_all add: map_of_map_value split: option.splits)

lemma orElse_escapeHtmlInObject:
  "orElse (escapeHtmlInObject a) (escapeHtmlInObject b) = escapeHtmlInObject (orElse a b)"
  by (simp add: orElse_def truthy_escapeHtmlInObject)

lemma escapeHtml_Nil: "escapeHtml [] = []"
  by (simp add: escapeHtml_def replaceUnit_def)

lemma replaceUnit_append: "replaceUnit c r (a @ b) = replaceUnit c r a @ replaceUnit c r b"
  by (simp add: replaceUnit_def)

lemma replaceUnit_concat: "replaceUnit c r (concat xs) = concat (map (replaceUnit c r) xs)"
  by (induction xs) (simp_all add: replaceUnit_append, simp add: replaceUnit_def)

lemma replaceUnit_as_concat: "replaceUnit c r s = concat (map (\<lambda>x. replaceUnit c r [x]) s)"
  by (simp add: replaceUnit_def)

lemma escapeHtml_append: "escapeHtml (a @ b) = escapeHtml a @ escapeHtml b"
  by (simp add: escapeHtml_def replaceUnit_append)

lemma escapeHtml_as_concat: "escapeHtml s = concat (map (\<lambda>x. escapeHtml [x]) s)"
  by (induction s) (simp add: escapeHtml_def replaceUnit_def, metis append_Cons append_Nil concat.simps(2) escapeHtml_append list.simps(9))

lemma escapeHtml_concat: "escapeHtml (concat xs) = concat (map escapeHtml xs)"
  by (induction xs) (simp add: escapeHtml_def replaceUnit_def, simp add: escapeHtml_append)

lemma escapeHtml_twice_unit: "escapeHtml (escapeHtml [x]) = escapedTwice x"
  by (simp add: escapeHtml_def replaceUnit_def escapedTwice_def js_def)

lemma escapeHtml_twice: "escapeHtml (escapeHtml s) = escapeTwice s"
proof -
  have "escapeHtml (escapeHtml s) = escapeHtml (concat (map (\<lambda>x. escapeHtml [x]) s))"
    using escapeHtml_as_concat [of s] by simp
  also have "\<dots> = concat (map (\<lambda>x. escapeHtml (escapeHtml [x])) s)"
    by (simp add: escapeHtml_concat comp_def)
  finally show ?thesis
    by (simp add: escapeHtml_twice_unit escapeTwice_def)
qed

lemma escapeHtmlOf_escaped: "escapeHtmlOf (escapeHtmlInObject v) = escapeTwiceOf v"
  by (cases v) (simp_all add: escapeHtml_twice)

lemma escapeHtmlOf_orElse:
  "escapeHtmlOf (orElse (escapeHtmlInObject a) (JStr [])) = escapeTwiceOf (orElse a (JStr []))"
  using orElse_escapeHtmlInObject [of a "JStr []"] escapeHtmlOf_escaped [of "orElse a (JStr [])"]
  by (simp add: escapeHtml_Nil)

lemma escapeHtmlOf_orElse2:
  "escapeHtmlOf (orElse (orElse (escapeHtmlInObject a) (escapeHtmlInObject b)) (JStr []))
     = escapeTwiceOf (orElse (orElse a b) (JStr []))"
  by (simp add: orElse_escapeHtmlInObject escapeHtmlOf_orElse)

lemma bindE_getProp_escaped:
  "bindE (getProp (escapeHtmlInObject v) k) f = bindE (getProp v k) (\<lambda>x. f (escapeHtmlInObject x))"
  by (cases "getProp v k") (simp_all add: bindE_def getProp_escapeHtmlInObject)

lemma renderCta_escaped: "renderCta (escapeHtmlInObject cta) = renderCtaTwice cta"
  by (simp add: renderCta_def renderCtaTwice_def truthy_escapeHtmlInObject bindE_getProp_escaped
      escapeHtmlOf_escaped)

lemma renderHeroSection_escaped:
  "renderHeroSection (escapeHtmlInObject props) brand = renderHeroSectionTwice props brand"
  by (simp add: renderHeroSection_def renderHeroSectionTwice_def bindE_getProp_escaped
      escapeHtmlOf_orElse renderCta_escaped)

lemma renderFeatureItem_escaped:
  "renderFeatureItem (escapeHtmlInObject item) = renderFeatureItemTwice item"
  by (simp add: renderFeatureItem_def renderFeatureItemTwice_def bindE_getProp_escaped
      escapeHtmlOf_orElse escapeHtmlOf_orElse2)

lemma mapE_map: "mapE f (map g xs) = mapE (\<lambda>x. f (g x)) xs"
  by (induction xs) (simp_all split: sum.splits)

lemma renderFeaturesSection_escaped:
  "renderFeaturesSection (escapeHtmlInObject props) = renderFeaturesSectionTwice props"
proof -
  have items: "(case escapeHtmlInObject v of JArr xs \<Rightarrow> xs | _ \<Rightarrow> [])
      = map escapeHtmlInObject (case v of JArr xs \<Rightarrow> xs | _ \<Rightarrow> [])" for v
    by (cases v) simp_all
  show ?thesis
    by (simp add: renderFeaturesSection_def renderFeaturesSectionTwice_def bindE_getProp_escaped
        escapeHtmlOf_orElse items mapE_map renderFeatureItem_escaped)
qed

lemma renderAboutSection_escaped:
  "renderAboutSection (escapeHtmlInObject props) = renderAboutSectionTwice props"
  by (simp add: renderAboutSection_def renderAboutSectionTwice_def bindE_getProp_escaped
      escapeHtmlOf_orElse escapeHtmlOf_orElse2)

lemma renderContactSection_escaped:
  "renderContactSection (escapeHtmlInObject props) = renderContactSectionTwice props"
  by (simp add: renderContactSection_def renderContactSectionTwice_def bindE_getProp_escaped
      escapeHtmlOf_orElse)

lemma renderFooterSection_escaped:
  "renderFooterSection (escapeHtmlInObject props) = renderFooterSectionTwice props"
  by (simp add: renderFooterSection_def renderFooterSectionTwice_def bindE_getProp_escaped
      escapeHtmlOf_orElse)

text \<open>
  C10: in the built-in HTML renderer a section's props are escaped by \<open>sanitizeSection\<close>
  and the strings read from them are escaped again by the builder of the section's
  type. For every section, whatever its props, \<open>renderSection\<close> returns what the
  builders return on the props of the config when each string is escaped twice (and
  throws when they throw); escaping twice turns \<open>&\<close> into \<open>&amp;amp;\<close>, \<open><\<close> into
  \<open>&amp;lt;\<close>, \<open>>\<close> into \<open>&amp;gt;\<close>, the double quote into \<open>&amp;quot;\<close> and the single
  quote into \<open>&amp;#039;\<close>, and leaves every other code unit as it is.
\<close>

theorem renderSection_escapes_twice:
  "renderSection section brand theme = renderSectionTwice section brand theme \<and>
   escapeHtml (escapeHtml s) = escapeTwice s \<and>
   escapeTwice (js ''&'') = js ''&amp;amp;'' \<and>
   escapeTwice (js ''<'') = js ''&amp;lt;''"
proof -
  have "renderSection section brand theme = renderSectionTwice section brand theme"
    by (simp add: renderSection_def renderSectionTwice_def sanitizeSection_def bindE_def Let_def
        renderHeroSection_escaped renderFeaturesSection_escaped renderAboutSection_escaped
        renderContactSection_escaped renderFooterSection_escaped)
  moreover have "escapeTwice (js ''&'') = js ''&amp;amp;''"
    by (simp add: escapeTwice_def escapedTwice_def js_def)
  moreover have "escapeTwice (js ''<'') = js ''&amp;lt;''"
    by (simp add: escapeTwice_def escapedTwice_def js_def)
  ultimately show ?thesis
    using escapeHtml_twice by simp
qed

section \<open>The section whitelist\<close>

lemma find_map_page:
  "find (\<lambda>p. page_id p = k)
     (map (\<lambda>page. page\<lparr>page_sections := g (page_sections page)\<rparr>) pages)
   = map_option (\<lambda>page. page\<lparr>page_sections := g (page_sections page)\<rparr>)
       (find (\<lambda>p. page_id p = k) pages)"
  by (induction pages) simp_all

lemma homeSections_filtered:
  "homeSections (map (\<lambda>page. page\<lparr>page_sections := filter isSectionAllowed (page_sections page)\<rparr>) pages)
   = filter isSectionAllowed (homeSections pages)"
  by (cases pages) (simp_all add: homeSections_def find_map_page split: option.splits)

lemma buildHtmlDocument_filtered:
  "buildHtmlDocument brand theme
     (map (\<lambda>page. page\<lparr>page_sections := filter isSectionAllowed (page_sections page)\<rparr>) pages)
   = buildHtmlDocument brand theme pages"
  by (simp add: buildHtmlDocument_def homeSections_filtered)

lemma html_content_filtered:
  "map_sum id po_content (renderHtmlPreview (withoutDisallowedSections c) t e)
   = map_sum id po_content (renderHtmlPreview c t e')"
  by (cases "buildHtmlDocument (cfg_brand c) (cfg_theme c) (cfg_pages c)")
     (simp_all add: renderHtmlPreview_def withoutDisallowedSections_def buildHtmlDocument_filtered
       bindE_def)

lemma safePages_filtered:
  "mapE (\<lambda>page.
           bindE (mapE sanitizeSection (filter isSectionAllowed (page_sections page)))
             (\<lambda>sections. Inr (page\<lparr>page_sections := sections\<rparr>)))
     (map (\<lambda>page. page\<lparr>page_sections := filter isSectionAllowed (page_sections page)\<rparr>) pages)
   = mapE (\<lambda>page.
             bindE (mapE sanitizeSection (filter isSectionAllowed (page_sections page)))
               (\<lambda>sections. Inr (page\<lparr>page_sections := sections\<rparr>)))
       pages"
  by (induction pages) (simp_all add: bindE_def split: sum.splits)

lemma json_model_filtered:
  "map_sum id po_model (renderJsonPreview (withoutDisallowedSections c) t e)
   = map_sum id po_model (renderJsonPreview c t e')"
proof -
  have "renderJsonPreview (withoutDisallowedSections c) t e
    = bindE (mapE (\<lambda>page.
                    bindE (mapE sanitizeSection (filter isSectionAllowed (page_sections page)))
                      (\<lambda>sections. Inr (page\<lparr>page_sections := sections\<rparr>)))
              (cfg_pages c))
       (\<lambda>safePages.
          Inr (PreviewJsonOutput
                 \<lparr>pm_schemaVersion = schemaVersion c, pm_brand = cfg_brand c,
                  pm_theme = cfg_theme c, pm_pages = safePages\<rparr>
                 t e))"
    by (simp add: renderJsonPreview_def withoutDisallowedSections_def safePages_filtered)
  then show ?thesis
    by (simp add: renderJsonPreview_def) (simp add: bindE_def split: sum.splits)
qed

text \<open>
  C6: the whitelist is exactly the eleven section types, a section is allowed exactly
  when its type is in the whitelist, and a section whose type is outside it leaves no
  trace in the preview: the HTML content and the JSON model (or the error thrown instead)
  are those of the config from which every such section has been removed, so they do
  not depend on the type, the identifier or the props of any such section.
\<close>

theorem disallowed_sections_leave_no_trace:
  "set ALLOWED_SECTION_TYPES =
     {js ''hero'', js ''features'', js ''about'', js ''contact'', js ''services'', js ''gallery'',
      js ''testimonials'', js ''pricing'', js ''faq'', js ''team'', js ''footer''} \<and>
   (isSectionAllowed section \<longleftrightarrow> sec_type section \<in> set ALLOWED_SECTION_TYPES) \<and>
   map_sum id po_content (render H t config Html)
     = map_sum id po_content (render H t (withoutDisallowedSections config) Html) \<and>
   map_sum id po_model (render H t config Json)
     = map_sum id po_model (render H t (withoutDisallowedSections config) Json)"
proof -
  have a: "set ALLOWED_SECTION_TYPES =
     {js ''hero'', js ''features'', js ''about'', js ''contact'', js ''services'', js ''gallery'',
      js ''testimonials'', js ''pricing'', js ''faq'', js ''team'', js ''footer''}"
    by (simp add: ALLOWED_SECTION_TYPES_def)
  have b: "isSectionAllowed section \<longleftrightarrow> sec_type section \<in> set ALLOWED_SECTION_TYPES"
    by (simp add: isSectionAllowed_def)
  have c: "map_sum id po_content (render H t config Html)
     = map_sum id po_content (render H t (withoutDisallowedSections config) Html)"
    by (simp add: render_def Let_def html_content_filtered [symmetric])
  have d: "map_sum id po_model (render H t config Json)
     = map_sum id po_model (render H t (withoutDisallowedSections config) Json)"
    by (simp add: render_def Let_def json_model_filtered [symmetric])
  show ?thesis
    using a b c d by blast
qed

section \<open>The config generated for the example draft\<close>

lemma js_eq_iff: "js a = js b \<longleftrightarrow> a = b"
  by (simp add: js_def inj_map_eq_map inj_on_def)

lemma js_Nil_iff: "js a = [] \<longleftrightarrow> a = []"
  by (simp add: js_def)

text \<open>The value \<open>{{logoAssetId}}\<close>, which no pass of \<open>resolveTokens\<close> changes.\<close>

lemma logoAssetId_token_stays:
  "resolveTokens (js ''{{logoAssetId}}'') context = js ''{{logoAssetId}}''"
  by (simp add: resolveTokens_def replaceAllLiteral_def js_def)

lemmas eval_generate = generate_def Let_def
  TemplateRegistry_getByIndustry_def TEMPLATE_MAPPINGS_def
  TemplateLoader_load_def TEMPLATES_def ITServicesTemplate_def DEFAULT_TEMPLATE_def
  generatePage_def generateSection_def bindE_def SiteConfig_create_def generateConfigId_def
  logoAssetIdOrNull_def getLocale_def js_eq_iff js_Nil_iff logoAssetId_token_stays

text \<open>
  The draft of the industry \<open>tech\<close> takes the IT template, which has one page, and
  \<open>generate\<close> returns a config: its identifier comes from the UUID drawn, and the first
  section of its page is the hero section, whose headline is the headline of the template
  with the tokens resolved.
\<close>

lemma generate_exampleDraft:
  "\<exists>config hero rest title kvs.
     generate slugOf u nowIso (exampleDraft b) = Inr config \<and>
     configId config = generateConfigId u \<and>
     cfg_pages config =
       [\<lparr>page_id = js ''home'', page_path = js ''/'', page_title = title,
         page_sections = hero # rest\<rparr>] \<and>
     sec_id hero = js ''hero_1'' \<and> sec_type hero = js ''hero'' \<and>
     sec_props hero =
       JObj ((js ''headline'', JStr
          (resolveTokens
             (js ''{{brandName}} '' @ [8212] @ js '' IT-'' @
              [1091, 1089, 1083, 1091, 1075, 1080] @ js '' '' @ [1076, 1083, 1103] @ js '' '' @
              [1088, 1086, 1089, 1090, 1072] @ js '' '' @
              [1073, 1080, 1079, 1085, 1077, 1089, 1072])
             \<lparr>ctx_brandName = normalizeBrandName b,
              ctx_industryLabel = [1058, 1077, 1093, 1085, 1086, 1083, 1086, 1075, 1080, 1080],
              ctx_logoUrl = None, ctx_slug = slugOf (normalizeBrandName b)\<rparr>)) # kvs)"
  by (simp add: exampleDraft_def exampleDraftId_def eval_generate)

section \<open>The preview of a brand name with markup\<close>

text \<open>
  The text that \<open>JSON.stringify\<close> gives a section holds, between two other texts, the
  quoted first string of its props; a pattern found there is found in the whole text, and
  \<open>sanitizeSection\<close> throws.
\<close>

lemma startsWithCI_append: "startsWithCI pat ys \<Longrightarrow> startsWithCI pat (ys @ zs)"
  by (induction pat ys rule: startsWithCI.induct) auto

lemma testLiteralCI_append_right:
  "pat \<noteq> [] \<Longrightarrow> testLiteralCI pat ys \<Longrightarrow> testLiteralCI pat (ys @
    zs)"
proof (induction ys)
  case Nil
  then show ?case by simp
next
  case (Cons a ys)
  show ?case
  proof (cases "startsWithCI pat (a # ys)")
    case True
    then have "startsWithCI pat ((a # ys) @ zs)"
      by (rule startsWithCI_append)
    then show ?thesis by simp
  next
    case False
    with Cons show ?thesis by simp
  qed
qed

lemma testLiteralCI_append_left:
  "pat \<noteq> [] \<Longrightarrow> testLiteralCI pat ys \<Longrightarrow> testLiteralCI pat (xs @
    ys)"
  by (induction xs) auto

lemma joinWith_Cons: "joinWith sep (x # xs) = x @ (if xs = [] then [] else sep @ joinWith sep xs)"
  by (cases xs) auto

lemma JSON_stringify_first_string:
  "\<exists>xs zs. JSON_stringify (JObj ((k, JStr h) # kvs)) = xs @ quoteUnits h @ zs"
proof -
  have "JSON_stringify (JObj ((k, JStr h) # kvs)) =
          (js ''{'' @ [34] @ quoteUnits k @ [34] @ js '':'' @ [34]) @ quoteUnits h @
          ([34] @
           (if filter (\<lambda>(k, v). v \<noteq> JUndefined) kvs = [] then []
            else js '','' @ joinWith (js '','')
               (map (\<lambda>(k, v). quoteJSON k @ js '':'' @ JSON_stringify v)
                  (filter (\<lambda>(k, v). v \<noteq> JUndefined) kvs))) @ js ''}'')"
    by (simp add: quoteJSON_def joinWith_Cons)
  then show ?thesis
    by blast
qed

lemma sanitizeSection_script:
  assumes props: "sec_props s = JObj ((k, JStr h) # kvs)"
    and h: "testLiteralCI (js ''<script'') (quoteUnits h)"
  shows "sanitizeSection s = Inl (UnsafeContent (sec_id s))"
proof -
  have ne: "js ''<script'' \<noteq> []"
    by (simp add: js_def)
  obtain xs zs where inner: "JSON_stringify (JObj ((k, JStr h) # kvs)) = xs @ quoteUnits h @ zs"
    using JSON_stringify_first_string by blast
  have "JSON_stringify (sectionJson s) =
          (js ''{'' @ quoteJSON (js ''id'') @ js '':'' @ quoteJSON (sec_id s) @ js '','' @
           quoteJSON (js ''type'') @ js '':'' @ quoteJSON (sec_type s) @ js '','' @
           quoteJSON (js ''props'') @ js '':'' @ xs) @ quoteUnits h @ (zs @ js ''}'')"
    by (simp add: sectionJson_def props inner del: JSON_stringify.simps(7)
        add: JSON_stringify.simps(7) [of "[a, b, c]" for a b c])
  then obtain xs' zs' where shape: "JSON_stringify (sectionJson s) = xs' @ quoteUnits h @ zs'"
    by blast
  have "testLiteralCI (js ''<script'') (xs' @ quoteUnits h @ zs')"
    by (intro testLiteralCI_append_left testLiteralCI_append_right ne h)
  then show ?thesis
    by (simp add: sanitizeSection_def containsUnsafeContent_def shape)
qed

text \<open>
  The headline of the hero section of the IT template, under the brand name of the
  scenario.
\<close>

lemma normalizeBrandName_xss: "normalizeBrandName xssBrandName = xssBrandName"
  by (simp add: normalizeBrandName_def js_trim_def isWhiteSpace_def isControl_def substring0_def
      xssBrandName_def js_def)

lemma hero_headline_xss:
  "resolveTokens
     (js ''{{brandName}} '' @ [8212] @ js '' IT-'' @ [1091, 1089, 1083, 1091, 1075, 1080] @
       js '' '' @ [1076, 1083, 1103] @ js '' '' @ [1088, 1086, 1089, 1090, 1072] @ js '' '' @
       [1073, 1080, 1079, 1085, 1077, 1089, 1072])
     \<lparr>ctx_brandName = xssBrandName, ctx_industryLabel = l, ctx_logoUrl = None, ctx_slug = s\<rparr> =
   xssBrandName @ js '' '' @ [8212] @ js '' IT-'' @ [1091, 1089, 1083, 1091, 1075, 1080] @
     js '' '' @ [1076, 1083, 1103] @ js '' '' @ [1088, 1086, 1089, 1090, 1072] @ js '' '' @
     [1073, 1080, 1079, 1085, 1077, 1089, 1072]"
  by (simp add: resolveTokens_def replaceAllLiteral_def xssBrandName_def js_def)

lemma headline_script:
  "testLiteralCI (js ''<script'')
     (quoteUnits
        (xssBrandName @ js '' '' @ [8212] @ js '' IT-'' @
         [1091, 1089, 1083, 1091, 1075, 1080] @ js '' '' @ [1076, 1083, 1103] @ js '' '' @
         [1088, 1086, 1089, 1090, 1072] @ js '' '' @
         [1073, 1080, 1079, 1085, 1077, 1089, 1072]))"
  by (simp add: quoteUnit_def isHighSurrogate_def isLowSurrogate_def upperAscii_def
      xssBrandName_def js_def)

text \<open>
  C4. The claim: for a draft whose brand name is \<open>Tech<script>alert('xss')</script>Corp\<close>
  the preview in HTML succeeds and shows \<open>&lt;script&gt;\<close> in the heading. What the code
  does, for the draft of the industry \<open>tech\<close> under this brand name, whatever the slug
  function, the identifier drawn, the digest and the clock: once the draft is loaded,
  \<open>GetPreview\<close> generates the config and renders it, and \<open>sanitizeSection\<close> finds
  \<open><script\<close> in the text of the first section and throws
  \<open>Unsafe content detected in section hero_1\<close>. No HTML is returned.
\<close>

theorem xss_brand_name_aborts_preview:
  "bindE (generate slugOf u nowIso (exampleDraft xssBrandName))
     (\<lambda>config. render H t config Html)
     = Inl (UnsafeContent (js ''hero_1''))"
proof -
  obtain config hero rest title kvs where
    g: "generate slugOf u nowIso (exampleDraft xssBrandName) = Inr config" and
    pages: "cfg_pages config =
       [\<lparr>page_id = js ''home'', page_path = js ''/'', page_title = title,
         page_sections = hero # rest\<rparr>]" and
    hero: "sec_id hero = js ''hero_1''" "sec_type hero = js ''hero''" and
    props: "sec_props hero =
       JObj ((js ''headline'', JStr
          (xssBrandName @ js '' '' @ [8212] @ js '' IT-'' @
           [1091, 1089, 1083, 1091, 1075, 1080] @ js '' '' @ [1076, 1083, 1103] @ js '' '' @
           [1088, 1086, 1089, 1090, 1072] @ js '' '' @
           [1073, 1080, 1079, 1085, 1077, 1089, 1072])) # kvs)"
    using generate_exampleDraft [of slugOf u nowIso xssBrandName]
    unfolding normalizeBrandName_xss hero_headline_xss by blast
  have s: "sanitizeSection hero = Inl (UnsafeContent (js ''hero_1''))"
    using sanitizeSection_script [OF props headline_script] by (simp add: hero)
  have a: "isSectionAllowed hero"
    by (simp add: isSectionAllowed_def ALLOWED_SECTION_TYPES_def hero)
  have "buildHtmlDocument (cfg_brand config) (cfg_theme config) (cfg_pages config)
          = Inl (UnsafeContent (js ''hero_1''))"
    unfolding buildHtmlDocument_def Let_def homeSections_def pages
    by (simp add: a renderSection_def s bindE_def)
  then show ?thesis
    by (simp add: g bindE_def render_def renderHtmlPreview_def)
qed

section \<open>Token resolution\<close>

lemma normalizeBrandName_dollar: "normalizeBrandName (js ''$&'') = js ''$&''"
  by (simp add: normalizeBrandName_def js_trim_def isWhiteSpace_def isControl_def substring0_def
      js_def)

text \<open>
  \<open>$&\<close> in the replacement string of \<open>String.prototype.replace\<close> stands for the matched
  text, so the pass for \<open>{{brandName}}\<close> puts the token back.
\<close>

lemma hero_headline_dollar:
  "resolveTokens
     (js ''{{brandName}} '' @ [8212] @ js '' IT-'' @ [1091, 1089, 1083, 1091, 1075, 1080] @
       js '' '' @ [1076, 1083, 1103] @ js '' '' @ [1088, 1086, 1089, 1090, 1072] @ js '' '' @
       [1073, 1080, 1079, 1085, 1077, 1089, 1072])
     \<lparr>ctx_brandName = js ''$&'', ctx_industryLabel = l, ctx_logoUrl = None, ctx_slug = s\<rparr> =
   js ''{{brandName}} '' @ [8212] @ js '' IT-'' @ [1091, 1089, 1083, 1091, 1075, 1080] @
     js '' '' @ [1076, 1083, 1103] @ js '' '' @ [1088, 1086, 1089, 1090, 1072] @ js '' '' @
     [1073, 1080, 1079, 1085, 1077, 1089, 1072]"
  by (simp add: resolveTokens_def replaceAllLiteral_def js_def)

text \<open>
  C5. The claim: token resolution substitutes every token inside every string reachable
  through nested objects and arrays, replaces a field whose whole value is
  \<open>{{logoAssetId}}\<close> by the asset id of the logo or by null, and leaves no token in the
  generated pages. What the code does:
  \<^item> for the draft of the industry \<open>tech\<close> whose brand name is \<open>$&\<close>, \<open>generate\<close> returns a
    config in which the headline of the hero section still reads
    \<open>{{brandName}}\<close> followed by the rest of the template's headline;
  \<^item> a string that is an element of an array is returned as it is, in every context;
  \<^item> a field \<open>logoAssetId\<close> of a nested object keeps the value \<open>{{logoAssetId}}\<close>,
    whatever the logo.
\<close>

theorem token_resolution_leaves_tokens:
  "(\<exists>config hero rest title kvs.
      generate slugOf u nowIso (exampleDraft (js ''$&'')) = Inr config \<and>
      cfg_pages config =
        [\<lparr>page_id = js ''home'', page_path = js ''/'', page_title = title,
          page_sections = hero # rest\<rparr>] \<and>
      sec_props hero =
        JObj ((js ''headline'', JStr
           (js ''{{brandName}} '' @ [8212] @ js '' IT-'' @ [1091, 1089, 1083, 1091, 1075, 1080] @
             js '' '' @ [1076, 1083, 1103] @ js '' '' @ [1088, 1086, 1089, 1090, 1072] @
             js '' '' @ [1073, 1080, 1079, 1085, 1077, 1089, 1072])) # kvs)) \<and>
   resolveSectionProps (JObj [(js ''tags'', JArr [JStr (js ''{{brandName}}'')])]) context
     = Inr (JObj [(js ''tags'', JArr [JStr (js ''{{brandName}}'')])]) \<and>
   generateSection context logo
     \<lparr>st_id = sid, st_type = stype,
      st_props = JObj [(js ''brand'', JObj [(js ''logoAssetId'', JStr (js ''{{logoAssetId}}''))])]\<rparr>
     = Inr \<lparr>sec_id = sid, sec_type = stype,
            sec_props =
              JObj [(js ''brand'', JObj [(js ''logoAssetId'', JStr (js ''{{logoAssetId}}''))])]\<rparr>"
proof -
  have a: "\<exists>config hero rest title kvs.
      generate slugOf u nowIso (exampleDraft (js ''$&'')) = Inr config \<and>
      cfg_pages config =
        [\<lparr>page_id = js ''home'', page_path = js ''/'', page_title = title,
          page_sections = hero # rest\<rparr>] \<and>
      sec_props hero =
        JObj ((js ''headline'', JStr
           (js ''{{brandName}} '' @ [8212] @ js '' IT-'' @ [1091, 1089, 1083, 1091, 1075, 1080] @
             js '' '' @ [1076, 1083, 1103] @ js '' '' @ [1088, 1086, 1089, 1090, 1072] @
             js '' '' @ [1073, 1080, 1079, 1085, 1077, 1089, 1072])) # kvs)"
    using generate_exampleDraft [of slugOf u nowIso "js ''$&''"]
    unfolding normalizeBrandName_dollar hero_headline_dollar by blast
  have b: "resolveSectionProps (JObj [(js ''tags'', JArr [JStr (js ''{{brandName}}'')])]) context
     = Inr (JObj [(js ''tags'', JArr [JStr (js ''{{brandName}}'')])])"
    by simp
  have c: "generateSection context logo
     \<lparr>st_id = sid, st_type = stype,
      st_props = JObj [(js ''brand'', JObj [(js ''logoAssetId'', JStr (js ''{{logoAssetId}}''))])]\<rparr>
     = Inr \<lparr>sec_id = sid, sec_type = stype,
            sec_props =
              JObj [(js ''brand'', JObj [(js ''logoAssetId'', JStr (js ''{{logoAssetId}}''))])]\<rparr>"
    by (simp add: generateSection_def logoAssetId_token_stays js_eq_iff)
  show ?thesis
    using a b c by blast
qed

section \<open>Stored drafts are never loaded\<close>






lemma replicate_unfolded:
  "replicate 3 x = [x, x, x]" "replicate 4 x = [x, x, x, x]"
  "replicate 8 x = [x, x, x, x, x, x, x, x]"
  "replicate 12 x = [x, x, x, x, x, x, x, x, x, x, x, x]"
  by (simp_all add: numeral_eq_Suc)

lemma DraftId_isValid_example: "DraftId_isValid exampleDraftId"
  by (simp add: DraftId_isValid_def uuidPattern_def replicate_unfolded exampleDraftId_def
      isHexDigit_def upperAscii_def js_def)





section \<open>The commit of a draft\<close>

lemma keys_distinct: "lockKeyOf ident \<noteq> buildKey ident" "buildKey ident \<noteq> lockKeyOf ident"
  by (simp_all add: lockKeyOf_def buildKey_def js_def)

lemma acquireLock_held:
  "redisLive r now key = Some holder \<Longrightarrow> acquireLock r now key = (False, r)"
  by (simp add: acquireLock_def redis_set_ex_nx_def)

lemma acquireLock_free:
  "redisLive r now key = None \<Longrightarrow>
     acquireLock r now key
       = (True, r(key \<mapsto> \<lparr>re_value = js ''1'', re_expireAt = Some (now + 30000)\<rparr>))"
  by (simp add: acquireLock_def redis_set_ex_nx_def commitLockTtl_def)




text \<open>The ways through \<open>execute\<close> that a valid draft id can take.\<close>

lemma CommitDraft_lock_held:
  assumes "DraftId_isValid (in_draftId input)"
    and "redisLive (redisOf s) (redisTime call) (lockKeyOf (in_draftId input)) = Some holder"
  shows "CommitDraft env repo call s input
        = (Inl (CommitLockError (in_draftId input)),
           s\<lparr>redisOf := redis_del (redisOf s) (lockKeyOf (in_draftId input))\<rparr>)"
proof -
  have "acquireLock (redisOf s) (redisTime call) (lockKeyOf (in_draftId input))
          = (False, redisOf s)"
    using assms(2) by (rule acquireLock_held)
  then show ?thesis
    using assms(1)
    by (simp add: CommitDraft_def DraftId_fromString_def commitTry_def releaseLock_def)
qed

lemma CommitDraft_already_committed:
  assumes "DraftId_isValid (in_draftId input)"
    and "redisLive (redisOf s) (redisTime call) (lockKeyOf (in_draftId input)) = None"
    and "findProjectByDraftId (dbOf s) (in_draftId input) = Inr (Some p)"
    and "getProjectConfig (dbOf s) (projectId p) = Inr c"
  shows "CommitDraft env ProjectRepositoryPostgres call s input
        = (Inr \<lparr>out_draftId = in_draftId input, out_projectId = projectId p,
                 out_configId = (case c of Some x \<Rightarrow> pc_configId x | None \<Rightarrow> []),
                 out_status = ALREADY_COMMITTED, out_project = p, out_config = c\<rparr>,
           s\<lparr>redisOf := (redisOf s)(lockKeyOf (in_draftId input) \<mapsto>
                  \<lparr>re_value = js ''1'', re_expireAt = Some (redisTime call + 30000)\<rparr>)\<rparr>)"
proof -
  have "acquireLock (redisOf s) (redisTime call) (lockKeyOf (in_draftId input))
          = (True, (redisOf s)(lockKeyOf (in_draftId input) \<mapsto>
                  \<lparr>re_value = js ''1'', re_expireAt = Some (redisTime call + 30000)\<rparr>))"
    using assms(2) by (rule acquireLock_free)
  then show ?thesis
    using assms(1,3,4) by (simp add: CommitDraft_def DraftId_fromString_def commitTry_def)
qed




section \<open>The example states\<close>

lemma example_input: "in_draftId exampleInput = exampleDraftId" "redisTime exampleCall = 1000"
  by (simp_all add: exampleInput_def exampleCall_def)

lemma lockedState_lock:
  "redisLive (redisOf lockedState) 1000 (lockKeyOf exampleDraftId)
     = Some \<lparr>re_value = js ''1'', re_expireAt = Some 30000\<rparr>"
  by (simp add: lockedState_def lockedStore_def redisLive_def)

lemma draftStore_lock_free: "redisLive draftStore 1000 (lockKeyOf exampleDraftId) = None"
  by (simp add: draftStore_def redisLive_def keys_distinct)

lemma committedDb_project:
  "findProjectByDraftId committedDb exampleDraftId = Inr (Some committedProject)"
  by (simp add: findProjectByDraftId_def committedDb_def mapRowToProject_def bindE_def
      DraftId_fromString_def DraftId_isValid_example Project_new_def committedProject_def js_def)

lemma committedDb_config:
  "getProjectConfig committedDb (js ''prj_1'') = Inr (Some committedConfig)"
  by (simp add: getProjectConfig_def committedDb_def mapRowToConfig_def bindE_def
      ProjectConfig_new_def committedConfig_def js_def)


text \<open>
  C2. The claim: an attempt that cannot take the lock fails with \<open>CommitInProgress\<close> and
  leaves the lock of its holder as it is; on the \<open>ALREADY_COMMITTED\<close> path the lock is
  deleted before the return. What the code does, for a valid draft id:
  \<^item> when the lock is held, \<open>CommitLockError\<close> is thrown inside the \<open>try\<close> block, the
    \<open>catch\<close> clause releases the lock, and the lock of the holder is gone, whatever
    repository the use case has;
  \<^item> when the lock is free and the PostgreSQL repository finds a project for the draft,
    the result is returned from inside the \<open>try\<close> block without a release: the lock
    stays for its thirty seconds, and a further attempt in that time fails with
    \<open>CommitLockError\<close>;
  \<^item> whenever \<open>execute\<close> throws after \<open>DraftId.fromString\<close>, the lock key is deleted, as
    the last part of the claim says.
\<close>

theorem commit_lock_is_mishandled:
  "(DraftId_isValid (in_draftId input) \<and>
    redisLive (redisOf s) (redisTime call) (lockKeyOf (in_draftId input)) = Some holder \<longrightarrow>
      CommitDraft env repo call s input
        = (Inl (CommitLockError (in_draftId input)),
           s\<lparr>redisOf := redis_del (redisOf s) (lockKeyOf (in_draftId input))\<rparr>) \<and>
      redis_get (redisOf (snd (CommitDraft env repo call s input))) (redisTime call)
        (lockKeyOf (in_draftId input)) = None) \<and>
   (DraftId_isValid (in_draftId input) \<and>
    redisLive (redisOf s) (redisTime call) (lockKeyOf (in_draftId input)) = None \<and>
    findProjectByDraftId (dbOf s) (in_draftId input) = Inr (Some p) \<and>
    getProjectConfig (dbOf s) (projectId p) = Inr c \<longrightarrow>
      CommitDraft env ProjectRepositoryPostgres call s input
        = (Inr \<lparr>out_draftId = in_draftId input, out_projectId = projectId p,
                 out_configId = (case c of Some x \<Rightarrow> pc_configId x | None \<Rightarrow> []),
                 out_status = ALREADY_COMMITTED, out_project = p, out_config = c\<rparr>,
           s\<lparr>redisOf := (redisOf s)(lockKeyOf (in_draftId input) \<mapsto>
                  \<lparr>re_value = js ''1'', re_expireAt = Some (redisTime call + 30000)\<rparr>)\<rparr>) \<and>
      redis_get (redisOf (snd (CommitDraft env ProjectRepositoryPostgres call s input)))
        (redisTime call) (lockKeyOf (in_draftId input)) = Some (js ''1'') \<and>
      (\<forall>call2. redisTime call \<le> redisTime call2 \<and> redisTime call2 \<le> redisTime call + 30000 \<longrightarrow>
         fst (CommitDraft env ProjectRepositoryPostgres call2
                (snd (CommitDraft env ProjectRepositoryPostgres call s input)) input)
           = Inl (CommitLockError (in_draftId input)))) \<and>
   (DraftId_isValid (in_draftId input) \<and> fst (CommitDraft env repo call s input) = Inl e \<longrightarrow>
      redisOf (snd (CommitDraft env repo call s input)) (lockKeyOf (in_draftId input)) = None)"
proof (intro conjI impI)
  assume "DraftId_isValid (in_draftId input) \<and> fst (CommitDraft env repo call s input) = Inl e"
  then show "redisOf (snd (CommitDraft env repo call s input)) (lockKeyOf (in_draftId input)) = None"
    by (auto simp: CommitDraft_def DraftId_fromString_def releaseLock_def redis_del_def
        split: prod.splits sum.splits)
next
  assume a: "DraftId_isValid (in_draftId input) \<and>
    redisLive (redisOf s) (redisTime call) (lockKeyOf (in_draftId input)) = Some holder"
  then show c: "CommitDraft env repo call s input
        = (Inl (CommitLockError (in_draftId input)),
           s\<lparr>redisOf := redis_del (redisOf s) (lockKeyOf (in_draftId input))\<rparr>)"
    by (intro CommitDraft_lock_held) simp_all
  show "redis_get (redisOf (snd (CommitDraft env repo call s input))) (redisTime call)
        (lockKeyOf (in_draftId input)) = None"
    by (simp add: c redis_get_def redisLive_def redis_del_def)
next
  assume a: "DraftId_isValid (in_draftId input) \<and>
    redisLive (redisOf s) (redisTime call) (lockKeyOf (in_draftId input)) = None \<and>
    findProjectByDraftId (dbOf s) (in_draftId input) = Inr (Some p) \<and>
    getProjectConfig (dbOf s) (projectId p) = Inr c"
  let ?key = "lockKeyOf (in_draftId input)"
  let ?r1 = "(redisOf s)(?key \<mapsto> \<lparr>re_value = js ''1'', re_expireAt = Some (redisTime call + 30000)\<rparr>)"
  show c: "CommitDraft env ProjectRepositoryPostgres call s input
        = (Inr \<lparr>out_draftId = in_draftId input, out_projectId = projectId p,
                 out_configId = (case c of Some x \<Rightarrow> pc_configId x | None \<Rightarrow> []),
                 out_status = ALREADY_COMMITTED, out_project = p, out_config = c\<rparr>,
           s\<lparr>redisOf := ?r1\<rparr>)"
    using a by (intro CommitDraft_already_committed) simp_all
  show "redis_get (redisOf (snd (CommitDraft env ProjectRepositoryPostgres call s input)))
          (redisTime call) ?key = Some (js ''1'')"
    by (simp add: c redis_get_def redisLive_def)
  show "\<forall>call2. redisTime call \<le> redisTime call2 \<and> redisTime call2 \<le> redisTime call + 30000 \<longrightarrow>
         fst (CommitDraft env ProjectRepositoryPostgres call2
                (snd (CommitDraft env ProjectRepositoryPostgres call s input)) input)
           = Inl (CommitLockError (in_draftId input))"
  proof (intro allI impI)
    fix call2 :: Call
    assume t: "redisTime call \<le> redisTime call2 \<and> redisTime call2 \<le> redisTime call + 30000"
    have s': "snd (CommitDraft env ProjectRepositoryPostgres call s input) = s\<lparr>redisOf := ?r1\<rparr>"
      by (simp add: c)
    have "redisLive (redisOf (s\<lparr>redisOf := ?r1\<rparr>)) (redisTime call2) ?key
            = Some \<lparr>re_value = js ''1'', re_expireAt = Some (redisTime call + 30000)\<rparr>"
      using t by (simp add: redisLive_def)
    then have "CommitDraft env ProjectRepositoryPostgres call2 (s\<lparr>redisOf := ?r1\<rparr>) input
        = (Inl (CommitLockError (in_draftId input)),
           s\<lparr>redisOf := ?r1\<rparr>\<lparr>redisOf := redis_del (redisOf (s\<lparr>redisOf := ?r1\<rparr>)) ?key\<rparr>)"
      using a by (intro CommitDraft_lock_held) simp_all
    then show "fst (CommitDraft env ProjectRepositoryPostgres call2
                (snd (CommitDraft env ProjectRepositoryPostgres call s input)) input)
           = Inl (CommitLockError (in_draftId input))"
      unfolding s' by simp
  qed
qed

text \<open>The two cases at the example states.\<close>

theorem commit_lock_is_mishandled_witness:
  "CommitDraft exampleEnv NullRepository exampleCall lockedState exampleInput
     = (Inl (CommitLockError exampleDraftId),
        lockedState\<lparr>redisOf := redis_del (redisOf lockedState) (lockKeyOf exampleDraftId)\<rparr>) \<and>
   redis_get
     (redisOf (snd (CommitDraft exampleEnv NullRepository exampleCall lockedState exampleInput)))
     1000 (lockKeyOf exampleDraftId) = None \<and>
   CommitDraft exampleEnv ProjectRepositoryPostgres exampleCall committedState exampleInput
     = (Inr \<lparr>out_draftId = exampleDraftId, out_projectId = js ''prj_1'',
              out_configId = js ''cfg_1'', out_status = ALREADY_COMMITTED,
              out_project = committedProject, out_config = Some committedConfig\<rparr>,
        committedState\<lparr>redisOf := (redisOf committedState)(lockKeyOf exampleDraftId \<mapsto>
           \<lparr>re_value = js ''1'', re_expireAt = Some 31000\<rparr>)\<rparr>) \<and>
   redis_get
     (redisOf (snd (CommitDraft exampleEnv ProjectRepositoryPostgres exampleCall committedState
                      exampleInput)))
     1000 (lockKeyOf exampleDraftId) = Some (js ''1'') \<and>
   fst (CommitDraft exampleEnv ProjectRepositoryPostgres (exampleCall\<lparr>redisTime := 2000\<rparr>)
          (snd (CommitDraft exampleEnv ProjectRepositoryPostgres exampleCall committedState
                  exampleInput))
          exampleInput)
     = Inl (CommitLockError exampleDraftId) \<and>
   redisOf (snd (CommitDraft exampleEnv NullRepository exampleCall lockedState exampleInput))
     (lockKeyOf exampleDraftId) = None"
proof -
  have h1: "DraftId_isValid (in_draftId exampleInput) \<and>
      redisLive (redisOf lockedState) (redisTime exampleCall) (lockKeyOf (in_draftId exampleInput))
        = Some \<lparr>re_value = js ''1'', re_expireAt = Some 30000\<rparr>"
    by (simp add: example_input DraftId_isValid_example lockedState_lock)
  have h2: "DraftId_isValid (in_draftId exampleInput) \<and>
      redisLive (redisOf committedState) (redisTime exampleCall)
        (lockKeyOf (in_draftId exampleInput)) = None \<and>
      findProjectByDraftId (dbOf committedState) (in_draftId exampleInput)
        = Inr (Some committedProject) \<and>
      getProjectConfig (dbOf committedState) (projectId committedProject)
        = Inr (Some committedConfig)"
    by (simp add: example_input DraftId_isValid_example committedState_def draftStore_lock_free
        committedDb_project committedDb_config committedProject_def)
  have t: "redisTime exampleCall \<le> redisTime (exampleCall\<lparr>redisTime := 2000\<rparr>) \<and>
      redisTime (exampleCall\<lparr>redisTime := 2000\<rparr>) \<le> redisTime exampleCall + 30000"
    by (simp add: example_input)
  note held = commit_lock_is_mishandled [where input = exampleInput and s = lockedState and
      call = exampleCall and holder = "\<lparr>re_value = js ''1'', re_expireAt = Some 30000\<rparr>" and
      env = exampleEnv and repo = NullRepository, THEN conjunct1, THEN mp, OF h1]
  note committed = commit_lock_is_mishandled [where input = exampleInput and
      s = committedState and call = exampleCall and env = exampleEnv and
      p = committedProject and c = "Some committedConfig", THEN conjunct2, THEN conjunct1,
      THEN mp, OF h2]
  note third = committed [THEN conjunct2, THEN conjunct2, THEN spec, THEN mp, OF t]
  have a: "CommitDraft exampleEnv NullRepository exampleCall lockedState exampleInput
     = (Inl (CommitLockError exampleDraftId),
        lockedState\<lparr>redisOf := redis_del (redisOf lockedState) (lockKeyOf exampleDraftId)\<rparr>)"
    using held [THEN conjunct1] by (simp add: example_input)
  have b: "redis_get
     (redisOf (snd (CommitDraft exampleEnv NullRepository exampleCall lockedState exampleInput)))
     1000 (lockKeyOf exampleDraftId) = None"
    using held [THEN conjunct2] by (simp add: example_input)
  have c: "CommitDraft exampleEnv ProjectRepositoryPostgres exampleCall committedState exampleInput
     = (Inr \<lparr>out_draftId = exampleDraftId, out_projectId = js ''prj_1'',
              out_configId = js ''cfg_1'', out_status = ALREADY_COMMITTED,
              out_project = committedProject, out_config = Some committedConfig\<rparr>,
        committedState\<lparr>redisOf := (redisOf committedState)(lockKeyOf exampleDraftId \<mapsto>
           \<lparr>re_value = js ''1'', re_expireAt = Some 31000\<rparr>)\<rparr>)"
    using committed [THEN conjunct1]
    by (simp add: example_input) (simp add: committedProject_def committedConfig_def)
  have d: "redis_get
     (redisOf (snd (CommitDraft exampleEnv ProjectRepositoryPostgres exampleCall committedState
                      exampleInput)))
     1000 (lockKeyOf exampleDraftId) = Some (js ''1'')"
    using committed [THEN conjunct2, THEN conjunct1] by (simp add: example_input)
  have e: "fst (CommitDraft exampleEnv ProjectRepositoryPostgres (exampleCall\<lparr>redisTime := 2000\<rparr>)
          (snd (CommitDraft exampleEnv ProjectRepositoryPostgres exampleCall committedState
                  exampleInput))
          exampleInput)
     = Inl (CommitLockError exampleDraftId)"
    using third by (simp add: example_input)
  have h3: "DraftId_isValid (in_draftId exampleInput) \<and>
      fst (CommitDraft exampleEnv NullRepository exampleCall lockedState exampleInput)
        = Inl (CommitLockError exampleDraftId)"
    using h1 a by simp
  note thrown = commit_lock_is_mishandled [where input = exampleInput and s = lockedState and
      call = exampleCall and env = exampleEnv and repo = NullRepository and
      e = "CommitLockError exampleDraftId", THEN conjunct2, THEN conjunct2, THEN mp, OF h3]
  have f: "redisOf (snd (CommitDraft exampleEnv NullRepository exampleCall lockedState exampleInput))
     (lockKeyOf exampleDraftId) = None"
    using thrown by (simp add: example_input)
  show ?thesis
    using a b c d e f by (intro conjI)
qed



section \<open>Previews that succeed\<close>

text \<open>
  A text without \<open><\<close>, \<open>=\<close>, \<open>J\<close> and \<open>j\<close> matches none of the patterns of
  \<open>containsUnsafeContent\<close>; \<open>JSON.stringify\<close> and the resolution of tokens add none of
  these characters. So the sections generated from a template without them, for a brand
  without them, pass \<open>sanitizeSection\<close>.
\<close>

lemma markupFree_Nil: "markupFree []"
  by (simp add: markupFree_def)

lemma markupFree_Cons:
  "markupFree (c # s) \<longleftrightarrow> c \<noteq> 60 \<and> c \<noteq> 61 \<and> c \<noteq> 74 \<and> c \<noteq> 106 \<and> markupFree s"
  by (auto simp: markupFree_def)

lemma markupFree_append: "markupFree (s @ t) \<longleftrightarrow> markupFree s \<and> markupFree t"
  by (auto simp: markupFree_def)

lemma markupFree_subset: "set s \<subseteq> set t \<Longrightarrow> markupFree t \<Longrightarrow> markupFree s"
  by (auto simp: markupFree_def)

lemmas markupFree_simps = markupFree_Nil markupFree_Cons markupFree_append

subsection \<open>No pattern of containsUnsafeContent matches a text without markup\<close>

lemma upperAscii_eq_60: "upperAscii c = 60 \<longleftrightarrow> c = 60"
  by (auto simp: upperAscii_def)

lemma upperAscii_eq_74: "upperAscii c = 74 \<longleftrightarrow> c = 74 \<or> c = 106"
  by (auto simp: upperAscii_def)

lemma testLiteralCI_first:
  "\<forall>c \<in> set s. upperAscii c \<noteq> upperAscii p \<Longrightarrow> \<not> testLiteralCI (p # ps) s"
  by (induction s) auto

lemma eventHandlerAt_equals: "eventHandlerAt s \<Longrightarrow> 61 \<in> set s"
proof -
  assume a: "eventHandlerAt s"
  then obtain x y rest e es where s: "s = x # y # rest" and
    d: "dropWhile isWhiteSpace (dropWhile isWordChar rest) = e # es" and e: "e = 61"
    by (auto simp: eventHandlerAt_def Let_def split: list.splits)
  have "e \<in> set (dropWhile isWhiteSpace (dropWhile isWordChar rest))"
    by (simp add: d)
  then have "e \<in> set rest"
    by (meson set_dropWhileD)
  then show ?thesis
    by (simp add: s e)
qed

lemma testEventHandler_equals: "testEventHandler s \<Longrightarrow> 61 \<in> set s"
  by (induction s) (auto dest: eventHandlerAt_equals)

lemma markupFree_safe: "markupFree s \<Longrightarrow> \<not> containsUnsafeContent s"
proof -
  assume m: "markupFree s"
  have u: "upperAscii 60 = 60" "upperAscii 106 = 74"
    by (simp_all add: upperAscii_def)
  have lt: "\<forall>c \<in> set s. upperAscii c \<noteq> upperAscii 60"
    using m by (auto simp: markupFree_def u upperAscii_eq_60)
  have j: "\<forall>c \<in> set s. upperAscii c \<noteq> upperAscii 106"
    using m by (auto simp: markupFree_def u upperAscii_eq_74)
  have "\<not> testEventHandler s"
    using m testEventHandler_equals by (auto simp: markupFree_def)
  then show ?thesis
    using testLiteralCI_first [OF lt] testLiteralCI_first [OF j]
    by (simp add: containsUnsafeContent_def js_def)
qed

subsection \<open>JSON.stringify adds no markup\<close>

lemma hexDigit_free: "d < 16 \<Longrightarrow> hexDigit d \<notin> {60, 61, 74, 106}"
  by (auto simp: hexDigit_def)

lemma markupFree_hex4: "markupFree (hex4 c)"
  using hexDigit_free [of "c div 4096 mod 16"] hexDigit_free [of "c div 256 mod 16"]
    hexDigit_free [of "c div 16 mod 16"] hexDigit_free [of "c mod 16"]
  by (simp add: hex4_def markupFree_simps)

lemma markupFree_quoteUnit: "markupFree [c] \<Longrightarrow> markupFree (quoteUnit c)"
  by (simp add: quoteUnit_def markupFree_simps markupFree_hex4)

lemma markupFree_quoteUnits: "markupFree s \<Longrightarrow> markupFree (quoteUnits s)"
proof (induction s rule: quoteUnits.induct)
  case 1
  then show ?case by simp
next
  case (2 c)
  then show ?case
    by (simp add: markupFree_simps markupFree_hex4 markupFree_quoteUnit)
next
  case (3 c d cs)
  from "3.prems" have c: "markupFree [c]" and rest: "markupFree (d # cs)" "markupFree cs"
    by (simp_all add: markupFree_simps)
  have q: "markupFree (quoteUnit c)"
    using c by (rule markupFree_quoteUnit)
  show ?case
    using "3.IH" rest q c by (auto simp: markupFree_simps markupFree_hex4)
qed

lemma markupFree_quoteJSON: "markupFree s \<Longrightarrow> markupFree (quoteJSON s)"
  by (simp add: quoteJSON_def markupFree_simps markupFree_quoteUnits)

lemma markupFree_decimal: "markupFree (decimal n)"
proof (induction n rule: decimal.induct)
  case (1 n)
  have d: "\<And>k. k < 10 \<Longrightarrow> markupFree [48 + k]"
    by (simp add: markupFree_simps)
  show ?case
  proof (cases "n < 10")
    case True
    then show ?thesis
      using d [of n] by (subst decimal.simps) simp
  next
    case False
    then show ?thesis
      using 1 d [of "n mod 10"] by (subst decimal.simps) (simp add: markupFree_append)
  qed
qed

lemma markupFree_showInt: "markupFree (showInt i)"
  by (simp add: showInt_def markupFree_simps markupFree_decimal del: decimal.simps)

lemma markupFree_joinWith:
  "markupFree sep \<Longrightarrow> \<forall>x \<in> set xs. markupFree x \<Longrightarrow> markupFree (joinWith sep xs)"
  by (induction sep xs rule: joinWith.induct) (simp_all add: markupFree_simps)

lemma markupFree_js_literals:
  "markupFree (js ''null'')" "markupFree (js ''true'')" "markupFree (js ''false'')"
  "markupFree (js ''['')" "markupFree (js '']'')" "markupFree (js '','')"
  "markupFree (js ''{'')" "markupFree (js ''}'')" "markupFree (js '':'')"
  by (simp_all add: js_def markupFree_simps)

lemma markupFree_JSON_stringify: "markupFreeJson v \<Longrightarrow> markupFree (JSON_stringify v)"
proof (induction v rule: JSON_stringify.induct)
  case (6 xs)
  have "\<forall>x \<in> set (map (\<lambda>x. if x = JUndefined then js ''null'' else JSON_stringify x) xs).
          markupFree x"
    using 6 by (auto simp: markupFree_js_literals)
  then show ?case
    by (simp add: markupFree_append markupFree_js_literals markupFree_joinWith
        del: set_map)
next
  case (7 kvs)
  have "\<forall>x \<in> set (map (\<lambda>(k, v). quoteJSON k @ js '':'' @ JSON_stringify v)
                     (filter (\<lambda>(k, v). v \<noteq> JUndefined) kvs)). markupFree x"
    using 7 by (auto simp: markupFree_append markupFree_js_literals markupFree_quoteJSON)
  then show ?case
    by (simp add: markupFree_append markupFree_js_literals markupFree_joinWith
        del: set_map)
qed (simp_all add: markupFree_js_literals markupFree_showInt markupFree_quoteJSON markupFree_Nil)

subsection \<open>Token resolution adds no markup\<close>

lemma expandReplacement_member:
  "x \<in> set (expandReplacement m b a r) \<Longrightarrow>
     x \<in> set m \<or> x \<in> set b \<or> x \<in> set a \<or> x \<in> set r"
proof (induction m b a r rule: expandReplacement.induct)
  case (3 matched textBefore textAfter c d r)
  show ?case
  proof (cases "c = 36 \<and> (d = 36 \<or> d = 38 \<or> d = 96 \<or> d = 39)")
    case True
    then show ?thesis
      using 3 by (elim conjE disjE) auto
  next
    case False
    then have "expandReplacement matched textBefore textAfter (c # d # r)
                 = c # expandReplacement matched textBefore textAfter (d # r)"
      by auto
    then show ?thesis
      using 3 False by auto
  qed
qed simp_all

lemma expandReplacement_subset:
  "set (expandReplacement m b a r) \<subseteq> set m \<union> set b \<union> set a \<union> set r"
  using expandReplacement_member by fastforce

lemma replaceFrom_subset:
  "set (replaceFrom pat repl b k s) \<subseteq> set repl \<union> set b \<union> set s"
proof (induction s arbitrary: b k)
  case Nil
  then show ?case by simp
next
  case (Cons c cs)
  have skip: "set (replaceFrom pat repl (b @ [c]) j cs) \<subseteq> set repl \<union> set b \<union> set (c # cs)" for j
    using Cons [of "b @ [c]" j] by auto
  have hit: "set (expandReplacement pat b (drop (length pat) (c # cs)) repl)
               \<subseteq> set repl \<union> set b \<union> set (c # cs)"
    if "prefix pat (c # cs)"
  proof -
    have "set pat \<subseteq> set (c # cs)"
      using that by (rule set_mono_prefix)
    moreover have "set (drop (length pat) (c # cs)) \<subseteq> set (c # cs)"
      by (rule set_drop_subset)
    ultimately show ?thesis
      using expandReplacement_subset [of pat b "drop (length pat) (c # cs)" repl] by blast
  qed
  show ?case
  proof (cases "0 < k")
    case True
    then show ?thesis
      using skip [of "k - 1"] by simp
  next
    case False
    show ?thesis
    proof (cases "prefix pat (c # cs)")
      case True
      then show ?thesis
        using \<open>\<not> 0 < k\<close> skip [of "length pat - 1"] hit by simp
    next
      case False
      then show ?thesis
        using \<open>\<not> 0 < k\<close> skip [of 0] by auto
    qed
  qed
qed

lemma markupFree_replaceAllLiteral:
  "markupFree repl \<Longrightarrow> markupFree s \<Longrightarrow> markupFree (replaceAllLiteral pat repl s)"
  using replaceFrom_subset [of pat repl "[]" 0 s]
  by (auto simp: replaceAllLiteral_def markupFree_def)

lemma markupFree_resolveTokens:
  "markupFreeContext context \<Longrightarrow> markupFree s \<Longrightarrow> markupFree (resolveTokens s context)"
  by (auto simp: resolveTokens_def markupFreeContext_def markupFree_Nil
      intro!: markupFree_replaceAllLiteral split: option.splits)

lemma markupFree_indexKeys: "k \<in> set (indexKeys n) \<Longrightarrow> markupFree k"
  by (auto simp: indexKeys_def markupFree_decimal simp del: decimal.simps)

lemma markupFreeJson_zip_indexKeys:
  "\<forall>v \<in> set vs. markupFreeJson v \<Longrightarrow> markupFreeJson (JObj (zip (indexKeys n) vs))"
proof -
  assume vs: "\<forall>v \<in> set vs. markupFreeJson v"
  have "markupFree k \<and> markupFreeJson v" if "(k, v) \<in> set (zip (indexKeys n) vs)" for k v
    using set_zip_leftD [OF that] set_zip_rightD [OF that] vs markupFree_indexKeys by blast
  then show ?thesis
    by auto
qed

lemma markupFreeJson_resolve:
  assumes c: "markupFreeContext context"
  shows "markupFreeJson v \<Longrightarrow> resolveSectionProps v context = Inr r \<Longrightarrow> markupFreeJson r"
    and "markupFreeJson v \<Longrightarrow> resolveValue v context = Inr r \<Longrightarrow> markupFreeJson r"
    and "markupFreeJson v \<Longrightarrow> resolveItem v context = Inr r \<Longrightarrow> markupFreeJson r"
    and "\<forall>x \<in> set vs. markupFreeJson x \<Longrightarrow> resolveValues vs context = Inr rs \<Longrightarrow>
           \<forall>x \<in> set rs. markupFreeJson x"
    and "\<forall>x \<in> set vs. markupFreeJson x \<Longrightarrow> resolveItems vs context = Inr rs \<Longrightarrow>
           \<forall>x \<in> set rs. markupFreeJson x"
    and "\<forall>(k, x) \<in> set kvs. markupFree k \<and> markupFreeJson x \<Longrightarrow> resolveEntries kvs context = Inr krs \<Longrightarrow>
           \<forall>(k, x) \<in> set krs. markupFree k \<and> markupFreeJson x"
  using c
proof (induction v "context" and v "context" and v "context" and vs "context" and
    vs "context" and kvs "context"
    arbitrary: r and r and r and rs and rs and krs
    rule: resolveSectionProps_resolveValue_resolveItem_resolveValues_resolveItems_resolveEntries.induct)
  case (5 s ctx)
  have "markupFree [c]" if "c \<in> set s" for c
    using that 5 by (auto simp: markupFree_def)
  then have "\<forall>v \<in> set (map (\<lambda>c. JStr (resolveTokens [c] ctx)) s). markupFreeJson v"
    using 5 by (simp add: markupFree_resolveTokens)
  then have "markupFreeJson (JObj (zip (indexKeys (length s))
                (map (\<lambda>c. JStr (resolveTokens [c] ctx)) s)))"
    by (rule markupFreeJson_zip_indexKeys)
  then show ?case
    using 5 by auto
next
  case (6 xs ctx)
  then show ?case
    by (auto split: sum.splits intro!: markupFreeJson_zip_indexKeys [simplified])
next
  case (27 k v kvs ctx)
  from "27.prems" obtain r' rs' where
    v: "resolveValue v ctx = Inr r'" and es: "resolveEntries kvs ctx = Inr rs'" and
    krs: "krs = (k, r') # rs'"
    by (auto split: sum.splits)
  have a: "markupFreeJson r'"
    using "27.IH"(1) [OF _ v] "27.prems" by simp
  have b: "\<forall>(k, x) \<in> set rs'. markupFree k \<and> markupFreeJson x"
    using "27.IH"(2) [OF v _ es] "27.prems" by simp
  show ?case
    using a b "27.prems" by (simp add: krs)
qed (auto split: sum.splits simp: markupFree_resolveTokens)

subsection \<open>Generated sections pass sanitizeSection\<close>

lemma markupFreeJson_assignProp:
  "markupFree k \<Longrightarrow> markupFreeJson v \<Longrightarrow> markupFreeJson (JObj kvs) \<Longrightarrow>
     markupFreeJson (JObj (assignProp k v kvs))"
  by (induction kvs) (auto split: if_splits)

lemma markupFree_section_keys:
  "markupFree (js ''id'')" "markupFree (js ''type'')" "markupFree (js ''props'')"
  "markupFree (js ''logoAssetId'')"
  by (simp_all add: js_def markupFree_simps)

lemma markupFreeJson_generateSection:
  assumes c: "markupFreeContext ctx"
    and t: "markupFree (st_id t)" "markupFree (st_type t)" "markupFreeJson (st_props t)"
    and g: "generateSection ctx None t = Inr sec"
  shows "markupFreeJson (sectionJson sec)"
proof -
  from g obtain resolved where
    r: "resolveSectionProps (st_props t) ctx = Inr resolved"
    by (auto simp: generateSection_def split: sum.splits)
  have m: "markupFreeJson resolved"
    using markupFreeJson_resolve(1) [OF c t(3) r] .
  have "sec_id sec = st_id t \<and> sec_type sec = st_type t \<and> markupFreeJson (sec_props sec)"
  proof (cases resolved)
    case (JObj kvs)
    have "markupFreeJson (JObj (assignProp (js ''logoAssetId'') JNull kvs))"
      using m JObj by (intro markupFreeJson_assignProp) (simp_all add: markupFree_section_keys)
    then show ?thesis
      using g r m JObj
      by (auto simp: generateSection_def logoAssetIdOrNull_def split: if_splits)
  qed (use g r m in \<open>auto simp: generateSection_def\<close>)
  then show ?thesis
    using t by (simp add: sectionJson_def markupFree_section_keys)
qed

lemma sanitizeSection_Inr:
  "markupFreeJson (sectionJson s) \<Longrightarrow> \<exists>safe. sanitizeSection s = Inr safe"
  by (simp add: sanitizeSection_def markupFree_JSON_stringify markupFree_safe)

lemma mapE_Inr_I: "(\<And>x. x \<in> set xs \<Longrightarrow> \<exists>y. f x = Inr y) \<Longrightarrow> \<exists>ys. mapE f xs = Inr ys"
proof (induction xs)
  case Nil
  then show ?case by simp
next
  case (Cons x xs)
  obtain y where y: "f x = Inr y"
    using Cons.prems [of x] by auto
  obtain ys where ys: "mapE f xs = Inr ys"
    using Cons.IH Cons.prems by auto
  show ?case
    by (simp add: y ys)
qed

lemma mapE_Inr_D: "mapE f xs = Inr ys \<Longrightarrow> y \<in> set ys \<Longrightarrow> \<exists>x \<in> set xs. f x = Inr y"
proof (induction xs arbitrary: ys)
  case Nil
  then show ?case by simp
next
  case (Cons x xs)
  from Cons.prems(1) obtain z zs where
    z: "f x = Inr z" and zs: "mapE f xs = Inr zs" and ys: "ys = z # zs"
    by (auto split: sum.splits)
  show ?case
  proof (cases "y = z")
    case True
    then show ?thesis
      using z by simp
  next
    case False
    then have "y \<in> set zs"
      using Cons.prems(2) ys by simp
    then show ?thesis
      using Cons.IH [OF zs] by auto
  qed
qed

lemma generatePage_sections:
  "generatePage ctx logo pt = Inr p \<Longrightarrow>
     mapE (generateSection ctx logo) (pt_sections pt) = Inr (page_sections p)"
  by (auto simp: generatePage_def bindE_def split: sum.splits)

lemma markupFreeJson_generated_pages:
  assumes c: "markupFreeContext ctx"
    and t: "\<And>pt t. pt \<in> set pts \<Longrightarrow> t \<in> set (pt_sections pt) \<Longrightarrow>
              markupFree (st_id t) \<and> markupFree (st_type t) \<and> markupFreeJson (st_props t)"
    and g: "mapE (generatePage ctx None) pts = Inr pages"
    and p: "p \<in> set pages" and s: "s \<in> set (page_sections p)"
  shows "markupFreeJson (sectionJson s)"
proof -
  obtain pt where pt: "pt \<in> set pts" "generatePage ctx None pt = Inr p"
    using mapE_Inr_D [OF g p] by auto
  obtain st where st: "st \<in> set (pt_sections pt)" "generateSection ctx None st = Inr s"
    using mapE_Inr_D [OF generatePage_sections [OF pt(2)] s] by auto
  show ?thesis
    using t [OF pt(1) st(1)] st(2) c by (intro markupFreeJson_generateSection [of ctx st]) auto
qed

lemma renderJsonPreview_Inr:
  assumes "\<And>p s. p \<in> set (cfg_pages c) \<Longrightarrow> s \<in> set (page_sections p) \<Longrightarrow>
             markupFreeJson (sectionJson s)"
  shows "\<exists>out. renderJsonPreview c t e = Inr out \<and> po_etag out = e"
proof -
  have "\<exists>y. bindE (mapE sanitizeSection (filter isSectionAllowed (page_sections p)))
               (\<lambda>sections. Inr (p\<lparr>page_sections := sections\<rparr>)) = Inr y"
    if "p \<in> set (cfg_pages c)" for p
  proof -
    have "\<exists>ys. mapE sanitizeSection (filter isSectionAllowed (page_sections p)) = Inr ys"
      using assms [OF that] by (intro mapE_Inr_I sanitizeSection_Inr) simp
    then show ?thesis
      by (auto simp: bindE_def)
  qed
  then obtain safePages where
    "mapE (\<lambda>page. bindE (mapE sanitizeSection (filter isSectionAllowed (page_sections page)))
                     (\<lambda>sections. Inr (page\<lparr>page_sections := sections\<rparr>)))
       (cfg_pages c) = Inr safePages"
    using mapE_Inr_I [of "cfg_pages c"
        "\<lambda>page. bindE (mapE sanitizeSection (filter isSectionAllowed (page_sections page)))
                     (\<lambda>sections. Inr (page\<lparr>page_sections := sections\<rparr>))"]
    by blast
  then show ?thesis
    by (simp add: renderJsonPreview_def bindE_def)
qed

subsection \<open>The example draft\<close>

lemma ITServicesTemplate_markupFree:
  "pt \<in> set (tpl_pages ITServicesTemplate) \<Longrightarrow> t \<in> set (pt_sections pt) \<Longrightarrow>
     markupFree (st_id t) \<and> markupFree (st_type t) \<and> markupFreeJson (st_props t)"
  by (auto simp: ITServicesTemplate_def markupFree_simps js_def)

lemma exampleDraft_template:
  "TemplateLoader_load (tm_templateId (TemplateRegistry_getByIndustry (js ''tech'')))
     = ITServicesTemplate"
  by (simp add: TemplateRegistry_getByIndustry_def TEMPLATE_MAPPINGS_def TemplateLoader_load_def
      TEMPLATES_def js_eq_iff)

lemma generate_exampleDraft_pages:
  assumes "generate slugOf u t (exampleDraft b) = Inr c"
  shows "configId c = generateConfigId u \<and> generatedAt c = t \<and>
         mapE (generatePage
                 \<lparr>ctx_brandName = normalizeBrandName b,
                  ctx_industryLabel = [1058, 1077, 1093, 1085, 1086, 1083, 1086, 1075, 1080, 1080],
                  ctx_logoUrl = None, ctx_slug = slugOf (normalizeBrandName b)\<rparr> None)
           (tpl_pages ITServicesTemplate) = Inr (cfg_pages c)"
  using assms
  by (auto simp: generate_def Let_def exampleDraft_def exampleDraft_template bindE_def
      SiteConfig_create_def split: sum.splits if_splits)

lemma markupFree_industryLabel:
  "markupFree [1058, 1077, 1093, 1085, 1086, 1083, 1086, 1075, 1080, 1080]"
  by (simp add: markupFree_simps)

lemma preview_of_exampleDraft:
  assumes "markupFree (normalizeBrandName b)" "markupFree (slugOf (normalizeBrandName b))"
  shows "\<exists>c out. generate slugOf u t (exampleDraft b) = Inr c \<and>
           configId c = generateConfigId u \<and> generatedAt c = t \<and>
           render H r c Json = Inr out \<and> po_etag out = generateConfigETag H c"
proof -
  obtain c where c: "generate slugOf u t (exampleDraft b) = Inr c"
    using generate_exampleDraft [of slugOf u t b] by blast
  note p = generate_exampleDraft_pages [OF c]
  let ?ctx = "\<lparr>ctx_brandName = normalizeBrandName b,
                  ctx_industryLabel = [1058, 1077, 1093, 1085, 1086, 1083, 1086, 1075, 1080, 1080],
                  ctx_logoUrl = None, ctx_slug = slugOf (normalizeBrandName b)\<rparr>"
  have ctx: "markupFreeContext ?ctx"
    using assms by (simp add: markupFreeContext_def markupFree_industryLabel)
  have "markupFreeJson (sectionJson s)"
    if "p \<in> set (cfg_pages c)" "s \<in> set (page_sections p)" for p s
    using markupFreeJson_generated_pages [OF ctx ITServicesTemplate_markupFree
        p [THEN conjunct2, THEN conjunct2] that] .
  then obtain out where "renderJsonPreview c r (generateConfigETag H c) = Inr out"
    "po_etag out = generateConfigETag H c"
    using renderJsonPreview_Inr [of c r "generateConfigETag H c"] by blast
  then show ?thesis
    using c p by (auto simp: render_def)
qed

section \<open>The ETag of a preview\<close>

lemma render_etag: "render H r c format = Inr out \<Longrightarrow> po_etag out = generateConfigETag H c"
  by (cases format)
    (auto simp: render_def renderJsonPreview_def renderHtmlPreview_def bindE_def Let_def
      split: sum.splits)

lemma generateConfigETag_differs:
  assumes "length (configId c1) = length (configId c2)" "configId c1 \<noteq> configId c2"
  shows "generateConfigETag H c1 \<noteq> generateConfigETag H c2"
  using assms by (simp add: generateConfigETag_def Let_def)

lemma JSON_stringify_five_entries:
  assumes "v1 \<noteq> JUndefined" "v2 \<noteq> JUndefined" "v3 \<noteq> JUndefined" "v4 \<noteq> JUndefined"
    "v5 \<noteq> JUndefined"
  shows "\<exists>rest.
           JSON_stringify (JObj ((k1, v1) # (k2, v2) # (k3, v3) # (k4, v4) # (k5, v5) # kvs)) =
             js ''{'' @ quoteJSON k1 @ js '':'' @ JSON_stringify v1 @
             js '','' @ quoteJSON k2 @ js '':'' @ JSON_stringify v2 @
             js '','' @ quoteJSON k3 @ js '':'' @ JSON_stringify v3 @
             js '','' @ quoteJSON k4 @ js '':'' @ JSON_stringify v4 @
             js '','' @ quoteJSON k5 @ js '':'' @ JSON_stringify v5 @ rest"
  using assms by (simp add: joinWith_Cons del: JSON_stringify.simps(5))

lemma quoted_keys:
  \<open>quoteJSON (js ''schemaVersion'') = js ''"schemaVersion"''\<close>
  \<open>quoteJSON (js ''configVersion'') = js ''"configVersion"''\<close>
  \<open>quoteJSON (js ''configId'') = js ''"configId"''\<close>
  \<open>quoteJSON (js ''draftId'') = js ''"draftId"''\<close>
  \<open>quoteJSON (js ''generatedAt'') = js ''"generatedAt"''\<close>
  by (simp_all add: quoteJSON_def quoteUnit_def isHighSurrogate_def isLowSurrogate_def js_def)

lemma js_append: "js (a @ b) = js a @ js b"
  by (simp add: js_def)

lemma SiteConfig_json_text:
  \<open>\<exists>rest. JSON_stringify (SiteConfig_toJSON c) =
     js ''{"schemaVersion":'' @ showInt (schemaVersion c) @
     js '',"configVersion":'' @ quoteJSON (configVersion c) @
     js '',"configId":'' @ quoteJSON (configId c) @
     js '',"draftId":'' @ quoteJSON (cfg_draftId c) @
     js '',"generatedAt":'' @ quoteJSON (generatedAt c) @ rest\<close>
proof -
  obtain rest where
    "JSON_stringify (SiteConfig_toJSON c) =
       js ''{'' @ quoteJSON (js ''schemaVersion'') @ js '':'' @
       JSON_stringify (JNum (schemaVersion c)) @
       js '','' @ quoteJSON (js ''configVersion'') @ js '':'' @
       JSON_stringify (JStr (configVersion c)) @
       js '','' @ quoteJSON (js ''configId'') @ js '':'' @ JSON_stringify (JStr (configId c)) @
       js '','' @ quoteJSON (js ''draftId'') @ js '':'' @ JSON_stringify (JStr (cfg_draftId c)) @
       js '','' @ quoteJSON (js ''generatedAt'') @ js '':'' @
       JSON_stringify (JStr (generatedAt c)) @ rest"
    unfolding SiteConfig_toJSON_def
    using JSON_stringify_five_entries [of "JNum (schemaVersion c)" "JStr (configVersion c)"
        "JStr (configId c)" "JStr (cfg_draftId c)" "JStr (generatedAt c)"]
    by blast
  then have \<open>JSON_stringify (SiteConfig_toJSON c) =
     js ''{"schemaVersion":'' @ showInt (schemaVersion c) @
     js '',"configVersion":'' @ quoteJSON (configVersion c) @
     js '',"configId":'' @ quoteJSON (configId c) @
     js '',"draftId":'' @ quoteJSON (cfg_draftId c) @
     js '',"generatedAt":'' @ quoteJSON (generatedAt c) @ rest\<close>
    by (simp add: quoted_keys js_append [symmetric])
  then show ?thesis
    by (rule exI)
qed

lemma normalizeBrandName_Acme: "normalizeBrandName (js ''Acme'') = js ''Acme''"
  by (simp add: normalizeBrandName_def js_trim_def isWhiteSpace_def isControl_def substring0_def
      js_def)

lemma markupFree_Acme: "markupFree (js ''Acme'')" "markupFree (js ''acme'')"
  by (simp_all add: markupFree_simps js_def)

text \<open>
  C3. The claim: two consecutive previews of an unchanged draft return the same ETag, in
  either format, and the hashed content leaves out \<open>configId\<close> and \<open>generatedAt\<close>. What
  the code does, whatever the digest function and the instants:
  \<^item> for the draft of the industry \<open>tech\<close> named \<open>Acme\<close>, with a slug function that gives
    \<open>acme\<close>, two runs of \<open>generate\<close> and \<open>render\<close> that draw UUIDs with different
    config identifiers (of the same length, as those of \<open>uuidv4()\<close> are) both succeed
    in the format \<open>json\<close> and return different ETags;
  \<^item> the ETag of a preview, in either format, is that of the config generated for it:
    \<open>W/"\<close>, the \<open>configId\<close>, a colon, the first 16 characters of the digest, \<open>"\<close>;
  \<^item> the digest is taken of \<open>JSON.stringify(config.toJSON())\<close>, a text that begins with
    the schema version, the config version, the \<open>configId\<close>, the draft id and
    \<open>generatedAt\<close>.
\<close>

theorem etag_changes_between_previews:
  \<open>(slugOf (js ''Acme'') = js ''acme'' \<and>
    length (generateConfigId u1) = length (generateConfigId u2) \<and>
    generateConfigId u1 \<noteq> generateConfigId u2 \<longrightarrow>
      (\<exists>c1 c2 o1 o2.
         generate slugOf u1 t1 (exampleDraft (js ''Acme'')) = Inr c1 \<and>
         render H r1 c1 Json = Inr o1 \<and>
         generate slugOf u2 t2 (exampleDraft (js ''Acme'')) = Inr c2 \<and>
         render H r2 c2 Json = Inr o2 \<and>
         po_etag o1 \<noteq> po_etag o2)) \<and>
   (render H r c format = Inr out \<longrightarrow> po_etag out = generateConfigETag H c) \<and>
   generateConfigETag H c =
     js ''W/"'' @ configId c @ js '':'' @
     take 16 (H (JSON_stringify (SiteConfig_toJSON c))) @ js ''"'' \<and>
   (\<exists>rest. JSON_stringify (SiteConfig_toJSON c) =
      js ''{"schemaVersion":'' @ showInt (schemaVersion c) @
      js '',"configVersion":'' @ quoteJSON (configVersion c) @
      js '',"configId":'' @ quoteJSON (configId c) @
      js '',"draftId":'' @ quoteJSON (cfg_draftId c) @
      js '',"generatedAt":'' @ quoteJSON (generatedAt c) @ rest)\<close>
proof (intro conjI impI)
  assume a: "slugOf (js ''Acme'') = js ''acme'' \<and>
    length (generateConfigId u1) = length (generateConfigId u2) \<and>
    generateConfigId u1 \<noteq> generateConfigId u2"
  have m: "markupFree (normalizeBrandName (js ''Acme''))"
    "markupFree (slugOf (normalizeBrandName (js ''Acme'')))"
    using a by (simp_all add: normalizeBrandName_Acme markupFree_Acme)
  obtain c1 o1 where 1: "generate slugOf u1 t1 (exampleDraft (js ''Acme'')) = Inr c1"
    "configId c1 = generateConfigId u1" "render H r1 c1 Json = Inr o1"
    "po_etag o1 = generateConfigETag H c1"
    using preview_of_exampleDraft [of "js ''Acme''" slugOf u1 t1 H r1, OF m] by blast
  obtain c2 o2 where 2: "generate slugOf u2 t2 (exampleDraft (js ''Acme'')) = Inr c2"
    "configId c2 = generateConfigId u2" "render H r2 c2 Json = Inr o2"
    "po_etag o2 = generateConfigETag H c2"
    using preview_of_exampleDraft [of "js ''Acme''" slugOf u2 t2 H r2, OF m] by blast
  have "po_etag o1 \<noteq> po_etag o2"
    using a 1 2 by (simp add: generateConfigETag_differs)
  then show "\<exists>c1 c2 o1 o2.
         generate slugOf u1 t1 (exampleDraft (js ''Acme'')) = Inr c1 \<and>
         render H r1 c1 Json = Inr o1 \<and>
         generate slugOf u2 t2 (exampleDraft (js ''Acme'')) = Inr c2 \<and>
         render H r2 c2 Json = Inr o2 \<and>
         po_etag o1 \<noteq> po_etag o2"
    using 1 2 by blast
next
  assume "render H r c format = Inr out"
  then show "po_etag out = generateConfigETag H c"
    by (rule render_etag)
next
  show \<open>generateConfigETag H c =
     js ''W/"'' @ configId c @ js '':'' @
     take 16 (H (JSON_stringify (SiteConfig_toJSON c))) @ js ''"''\<close>
    by (simp add: generateConfigETag_def hashContent_def substring0_def Let_def)
next
  show \<open>\<exists>rest. JSON_stringify (SiteConfig_toJSON c) =
      js ''{"schemaVersion":'' @ showInt (schemaVersion c) @
      js '',"configVersion":'' @ quoteJSON (configVersion c) @
      js '',"configId":'' @ quoteJSON (configId c) @
      js '',"draftId":'' @ quoteJSON (cfg_draftId c) @
      js '',"generatedAt":'' @ quoteJSON (generatedAt c) @ rest\<close>
    by (rule SiteConfig_json_text)
qed

lemma example_configIds:
  "generateConfigId (js ''9f1c2d3e-4b5a-4c6d-8e7f-0a1b2c3d4e5f'')
     = js ''cfg_9F1C2D3E4B5A4C6D8E7F0A1B2C'' \<and>
   generateConfigId (js ''0a1b2c3d-4e5f-4a6b-8c7d-9e0f1a2b3c4d'')
     = js ''cfg_0A1B2C3D4E5F4A6B8C7D9E0F1A''"
  by (simp add: generateConfigId_def substring0_def upperAscii_def js_def)

text \<open>Two such runs, for the slug function of the example environment.\<close>

theorem etag_changes_between_previews_witness:
  "\<exists>c1 c2 o1 o2.
     generate (generateSlug exampleEnv) (js ''9f1c2d3e-4b5a-4c6d-8e7f-0a1b2c3d4e5f'')
       (js ''1970-01-01T00:00:01.000Z'') (exampleDraft (js ''Acme'')) = Inr c1 \<and>
     render (sha256hex exampleEnv) (js ''1970-01-01T00:00:01.000Z'') c1 Json = Inr o1 \<and>
     generate (generateSlug exampleEnv) (js ''0a1b2c3d-4e5f-4a6b-8c7d-9e0f1a2b3c4d'')
       (js ''1970-01-01T00:00:02.000Z'') (exampleDraft (js ''Acme'')) = Inr c2 \<and>
     render (sha256hex exampleEnv) (js ''1970-01-01T00:00:02.000Z'') c2 Json = Inr o2 \<and>
     po_etag o1 \<noteq> po_etag o2"
proof -
  have h: "generateSlug exampleEnv (js ''Acme'') = js ''acme'' \<and>
      length (generateConfigId (js ''9f1c2d3e-4b5a-4c6d-8e7f-0a1b2c3d4e5f''))
        = length (generateConfigId (js ''0a1b2c3d-4e5f-4a6b-8c7d-9e0f1a2b3c4d'')) \<and>
      generateConfigId (js ''9f1c2d3e-4b5a-4c6d-8e7f-0a1b2c3d4e5f'')
        \<noteq> generateConfigId (js ''0a1b2c3d-4e5f-4a6b-8c7d-9e0f1a2b3c4d'')"
  proof -
    have "generateSlug exampleEnv (js ''Acme'') = js ''acme''"
      by (simp add: exampleEnv_def)
    moreover have "length (js ''cfg_9F1C2D3E4B5A4C6D8E7F0A1B2C'')
                     = length (js ''cfg_0A1B2C3D4E5F4A6B8C7D9E0F1A'')"
      "js ''cfg_9F1C2D3E4B5A4C6D8E7F0A1B2C'' \<noteq> js ''cfg_0A1B2C3D4E5F4A6B8C7D9E0F1A''"
      by (simp_all add: js_def)
    ultimately show ?thesis
      unfolding example_configIds [THEN conjunct1] example_configIds [THEN conjunct2]
      by (intro conjI)
  qed
  show ?thesis
    using etag_changes_between_previews [of "generateSlug exampleEnv"
        "js ''9f1c2d3e-4b5a-4c6d-8e7f-0a1b2c3d4e5f''" "js ''0a1b2c3d-4e5f-4a6b-8c7d-9e0f1a2b3c4d''"
        "js ''1970-01-01T00:00:01.000Z''" "sha256hex exampleEnv" "js ''1970-01-01T00:00:01.000Z''"
        "js ''1970-01-01T00:00:02.000Z''" "js ''1970-01-01T00:00:02.000Z''",
        THEN conjunct1, THEN mp, OF h] .
qed

end
